(* ===== verification/Prelude.thy ===== *)
theory Prelude
  imports Complex_Main
begin

text \<open>
  Shared vocabulary of the model of \<^verbatim>\<open>src/js/script.js\<close>: the types that name the
  browser environment the script runs in (the millisecond clock of \<^verbatim>\<open>Date.now()\<close>,
  the key-value store behind \<^verbatim>\<open>localStorage\<close>, the pseudo-random generator behind
  \<^verbatim>\<open>Math.random()\<close>), the JavaScript array accesses the script performs on boolean
  arrays, and the generic list lemmas the component theories share.
  The collection \<open>frame_simps\<close> gathers, for every operation of the model, the
  equations saying which fields of the game state it leaves alone; the component
  proofs use it with \<open>simp add: frame_simps\<close>.
\<close>

named_theorems frame_simps "fields of the game state an operation leaves unchanged"

type_synonym ms = int
  \<comment> \<open>a reading of \<^verbatim>\<open>Date.now()\<close>, in milliseconds\<close>

type_synonym js_store = "string \<Rightarrow> string option"
  \<comment> \<open>\<^verbatim>\<open>localStorage\<close>: \<^verbatim>\<open>getItem\<close> is application, \<^verbatim>\<open>setItem\<close> is map update\<close>

subsection \<open>The pseudo-random generator\<close>

text \<open>
  \<^verbatim>\<open>Math.random()\<close> is a generator with hidden state. It is modelled as an arbitrary
  stream of draws together with the position of the next draw; every call of the script
  whose result is stored in the modelled state consumes one draw, in the order the
  script makes the calls. The theorems of the development hold for every stream.
\<close>

record rand =
  rnd_src :: "nat \<Rightarrow> real"
  rnd_pos :: nat

definition random :: "rand \<Rightarrow> real \<times> rand" where
  "random r = (rnd_src r (rnd_pos r), r\<lparr>rnd_pos := Suc (rnd_pos r)\<rparr>)"

definition in_unit :: "rand \<Rightarrow> bool" where
  "in_unit r \<longleftrightarrow> (\<forall>i. 0 \<le> rnd_src r i \<and> rnd_src r i < 1)"
  \<comment> \<open>the range \<^verbatim>\<open>Math.random()\<close> promises: \<open>[0, 1)\<close>\<close>

lemma random_src [simp]: "rnd_src (snd (random r)) = rnd_src r"
  by (simp add: random_def)

lemma random_in_unit:
  "in_unit r \<Longrightarrow> 0 \<le> fst (random r) \<and> fst (random r) < 1"
  by (simp add: random_def in_unit_def)

lemma in_unit_src: "rnd_src r = rnd_src r' \<Longrightarrow> in_unit r = in_unit r'"
  by (simp add: in_unit_def)

lemma in_unit_random [simp]: "in_unit (snd (random r)) = in_unit r"
  by (simp add: in_unit_def)

subsection \<open>JavaScript boolean arrays\<close>

text \<open>
  Reading \<^verbatim>\<open>a[i]\<close> past the end of a JavaScript array yields \<^verbatim>\<open>undefined\<close>,
  which is falsy; writing \<^verbatim>\<open>a[i] = true\<close> past the end grows the array, leaving
  holes that read as \<^verbatim>\<open>undefined\<close> (modelled here as \<open>False\<close>, which every
  reader of the array treats alike).
\<close>

definition js_at :: "bool list \<Rightarrow> nat \<Rightarrow> bool" where
  "js_at xs i \<longleftrightarrow> i < length xs \<and> xs ! i"

definition js_set_true :: "bool list \<Rightarrow> nat \<Rightarrow> bool list" where
  "js_set_true xs i =
     (if i < length xs then xs[i := True] else xs @ replicate (i - length xs) False @ [True])"

lemma js_at_set_true_same [simp]: "js_at (js_set_true xs i) i"
  by (simp add: js_at_def js_set_true_def nth_append)

lemma js_at_set_true_other:
  "j \<noteq> i \<Longrightarrow> js_at (js_set_true xs i) j = js_at xs j"
  by (auto simp: js_at_def js_set_true_def nth_append nth_list_update)

lemma js_at_set_true_mono: "js_at xs j \<Longrightarrow> js_at (js_set_true xs i) j"
  by (cases "j = i") (simp_all add: js_at_set_true_other)

lemma length_js_set_true: "length (js_set_true xs i) = max (length xs) (Suc i)"
  by (simp add: js_set_true_def)

subsection \<open>Lists\<close>

lemma list_all_filter [intro]: "list_all P xs \<Longrightarrow> list_all P (filter Q xs)"
  by (induction xs) auto

lemma list_all_map_iff [simp]: "list_all P (map f xs) = list_all (P \<circ> f) xs"
  by (induction xs) auto

end
