(* ===== verification/Entities.thy ===== *)
theory Entities
  imports Prelude
begin

text \<open>
  The entity model of \<^verbatim>\<open>src/js/script.js\<close>: the \<^verbatim>\<open>Obstacle\<close> class with its
  decorative rings (lines 322-374), the \<^verbatim>\<open>Coin\<close> class for collectibles
  (lines 376-417), the power-up record created at lines 559-563, and the particles of
  \<^verbatim>\<open>createParticles\<close>, \<^verbatim>\<open>updateParticles\<close> and the boost trail of
  \<^verbatim>\<open>drawPlayer\<close> (lines 156-178, 736-748). Each class becomes a record, each string
  tag a datatype, each method a function that returns the updated entity. The lemmas
  give the ring bounds that \<^verbatim>\<open>Obstacle.update\<close> keeps and the particle cap of
  \<^verbatim>\<open>createParticles\<close>.
\<close>

section \<open>Obstacles and their rings\<close>

record ring =
  ring_y :: real
  alpha :: real
  ring_speed :: real

record obstacle =
  ox :: real
  oheight :: real
  isTop :: bool
  owidth :: real
  passed :: bool
  rings :: "ring list"

text \<open>The constructor's loop draws, for each of the three rings, its position and then
  its speed.\<close>

fun make_rings :: "nat \<Rightarrow> real \<Rightarrow> rand \<Rightarrow> ring list \<times> rand" where
  "make_rings 0 h r = ([], r)"
| "make_rings (Suc n) h r =
     (let (a, r1) = random r; (b, r2) = random r1; (rs, r3) = make_rings n h r2
      in (\<lparr>ring_y = a * h, alpha = 1, ring_speed = (b - 0.5) * 0.5\<rparr> # rs, r3))"

definition new_obstacle :: "real \<Rightarrow> real \<Rightarrow> bool \<Rightarrow> rand \<Rightarrow> obstacle \<times> rand" where
  "new_obstacle x h is_top r =
     (let (rs, r') = make_rings 3 h r
      in (\<lparr>ox = x, oheight = h, isTop = is_top, owidth = 80, passed = False, rings = rs\<rparr>, r'))"

definition ring_update :: "real \<Rightarrow> bool \<Rightarrow> ring \<Rightarrow> ring" where
  "ring_update h is_top rg =
     (let y = ring_y rg + ring_speed rg; a = max 0 (alpha rg - 0.01)
      in if y < 0 \<or> y > h then rg\<lparr>ring_y := (if is_top then h else 0), alpha := 1\<rparr>
         else rg\<lparr>ring_y := y, alpha := a\<rparr>)"

definition obstacle_update :: "real \<Rightarrow> obstacle \<Rightarrow> obstacle" where
  "obstacle_update spd ob =
     ob\<lparr>ox := ox ob - spd, rings := map (ring_update (oheight ob) (isTop ob)) (rings ob)\<rparr>"

text \<open>A ring stays inside its obstacle and keeps an opacity in \<open>[0, 1]\<close>.\<close>

definition ring_ok :: "real \<Rightarrow> ring \<Rightarrow> bool" where
  "ring_ok h rg \<longleftrightarrow> 0 \<le> ring_y rg \<and> ring_y rg \<le> h \<and> 0 \<le> alpha rg \<and> alpha rg \<le> 1"

definition obstacle_ok :: "obstacle \<Rightarrow> bool" where
  "obstacle_ok ob \<longleftrightarrow> owidth ob = 80 \<and> length (rings ob) = 3 \<and> list_all (ring_ok (oheight ob)) (rings ob)"

text \<open>The shape every obstacle of the game keeps: width 80, three rings, each ring's
  opacity in \<open>[0, 1]\<close>, and its position inside the obstacle unless the obstacle's
  height is negative (which the spawner allows, and where no position fits).\<close>

definition wf_ring :: "real \<Rightarrow> ring \<Rightarrow> bool" where
  "wf_ring h rg \<longleftrightarrow> 0 \<le> alpha rg \<and> alpha rg \<le> 1 \<and> (h < 0 \<or> (0 \<le> ring_y rg \<and> ring_y rg \<le> h))"

definition wf_obstacle :: "obstacle \<Rightarrow> bool" where
  "wf_obstacle ob \<longleftrightarrow> owidth ob = 80 \<and> length (rings ob) = 3 \<and> list_all (wf_ring (oheight ob)) (rings ob)"

section \<open>Collectibles\<close>

datatype coin_type = Coin | Heart | PowerUp

record coin =
  cx :: real
  cy :: real
  ctype :: coin_type

definition coinSize :: real where
  "coinSize = 20"

definition coin_update :: "real \<Rightarrow> coin \<Rightarrow> coin" where
  "coin_update spd c = c\<lparr>cx := cx c - spd\<rparr>"

section \<open>Power-ups\<close>

datatype power_type = Double | Slow | Shield | Blast

record power_up =
  ptype :: power_type
  ptimer :: real

text \<open>The roll of a picked-up capsule (lines 559-563): cumulative thresholds 0.33, 0.66
  and 0.83.\<close>

definition roll_power_up :: "real \<Rightarrow> power_up" where
  "roll_power_up rnd =
     (if rnd < 0.33 then \<lparr>ptype = Double, ptimer = 600\<rparr>
      else if rnd < 0.66 then \<lparr>ptype = Slow, ptimer = 600\<rparr>
      else if rnd < 0.83 then \<lparr>ptype = Shield, ptimer = 300\<rparr>
      else \<lparr>ptype = Blast, ptimer = 10\<rparr>)"

section \<open>Particles\<close>

datatype particle_type = PCoin | PHeart | PCrash | PVictory

datatype colour = Gold | HeartRed | CrashRed | Hue real | Orange

record particle =
  qx :: real
  qy :: real
  qvx :: real
  qvy :: real
  life :: int
  colour :: colour
  psize :: real

definition particle_life :: "particle_type \<Rightarrow> int" where
  "particle_life ty = (if ty = PCrash then 30 else if ty = PVictory then 50 else 20)"

text \<open>One particle of \<^verbatim>\<open>createParticles\<close>: the object literal draws \<^verbatim>\<open>vx\<close>,
  \<^verbatim>\<open>vy\<close>, the hue of a victory particle, then \<^verbatim>\<open>size\<close>, in this order.\<close>

definition make_particle :: "real \<Rightarrow> real \<Rightarrow> particle_type \<Rightarrow> rand \<Rightarrow> particle \<times> rand" where
  "make_particle x y ty r =
     (let (a, r1) = random r; (b, r2) = random r1;
          (col, r3) = (case ty of PCoin \<Rightarrow> (Gold, r2) | PHeart \<Rightarrow> (HeartRed, r2)
                        | PCrash \<Rightarrow> (CrashRed, r2)
                        | PVictory \<Rightarrow> (let (h, r') = random r2 in (Hue (h * 360), r')));
          (c, r4) = random r3
      in (\<lparr>qx = x, qy = y, qvx = (a - 0.5) * 5, qvy = (b - 0.5) * 5,
           life = particle_life ty, colour = col, psize = c * 4 + 2\<rparr>, r4))"

fun make_particles :: "nat \<Rightarrow> real \<Rightarrow> real \<Rightarrow> particle_type \<Rightarrow> rand \<Rightarrow> particle list \<times> rand" where
  "make_particles 0 x y ty r = ([], r)"
| "make_particles (Suc n) x y ty r =
     (let (p, r1) = make_particle x y ty r; (ps, r2) = make_particles n x y ty r1
      in (p # ps, r2))"

definition createParticles ::
  "real \<Rightarrow> real \<Rightarrow> particle_type \<Rightarrow> nat \<Rightarrow> particle list \<Rightarrow> rand \<Rightarrow> particle list \<times> rand" where
  "createParticles x y ty cnt ps r =
     (if length ps + cnt > 200 then (ps, r)
      else (let (new, r') = make_particles cnt x y ty r in (ps @ new, r')))"

definition particle_step :: "particle \<Rightarrow> particle" where
  "particle_step p =
     p\<lparr>qx := qx p + qvx p, qy := qy p + qvy p, life := life p - 1, psize := psize p * 0.97\<rparr>"

definition updateParticles :: "particle list \<Rightarrow> particle list" where
  "updateParticles ps = map particle_step (filter (\<lambda>p. 0 < life p) ps)"

text \<open>The exhaust of \<^verbatim>\<open>drawPlayer\<close> (lines 736-748): three particles pushed
  without the cap check of \<^verbatim>\<open>createParticles\<close>.\<close>

fun boost_particles :: "nat \<Rightarrow> real \<Rightarrow> real \<Rightarrow> rand \<Rightarrow> particle list \<times> rand" where
  "boost_particles 0 x y r = ([], r)"
| "boost_particles (Suc n) x y r =
     (let (a, r1) = random r; (b, r2) = random r1; (c, r3) = random r2;
          (ps, r4) = boost_particles n x y r3
      in (\<lparr>qx = x, qy = y, qvx = - (a * 3 + 1), qvy = (b - 0.5) * 2, life = 15,
           colour = Orange, psize = c * 3 + 1\<rparr> # ps, r4))"

section \<open>Lemmas\<close>

subsection \<open>The draw stream\<close>

text \<open>The constructors only advance the position in the stream of draws.\<close>

lemma make_rings_src [simp]: "rnd_src (snd (make_rings n h r)) = rnd_src r"
  by (induction n arbitrary: r) (simp_all add: random_def split_def Let_def)

lemma new_obstacle_src [simp]: "rnd_src (snd (new_obstacle x h t r)) = rnd_src r"
  by (simp add: new_obstacle_def split_def Let_def)

lemma make_particle_src [simp]: "rnd_src (snd (make_particle x y ty r)) = rnd_src r"
  by (cases ty) (simp_all add: make_particle_def random_def split_def Let_def)

lemma make_particles_src [simp]: "rnd_src (snd (make_particles n x y ty r)) = rnd_src r"
  by (induction n arbitrary: r) (simp_all add: split_def Let_def)

lemma createParticles_src [simp]: "rnd_src (snd (createParticles x y ty n ps r)) = rnd_src r"
  by (simp add: createParticles_def split_def Let_def)

lemma boost_particles_src [simp]: "rnd_src (snd (boost_particles n x y r)) = rnd_src r"
  by (induction n arbitrary: r) (simp_all add: random_def split_def Let_def)

subsection \<open>Obstacles\<close>

lemma make_rings_length [simp]: "length (fst (make_rings n h r)) = n"
  by (induction n arbitrary: r) (simp_all add: split_def Let_def)

lemma new_obstacle_fields [simp]:
  "ox (fst (new_obstacle x h t r)) = x" "oheight (fst (new_obstacle x h t r)) = h"
  "isTop (fst (new_obstacle x h t r)) = t" "owidth (fst (new_obstacle x h t r)) = 80"
  "passed (fst (new_obstacle x h t r)) = False"
  "length (rings (fst (new_obstacle x h t r))) = 3"
  by (simp_all add: new_obstacle_def split_def Let_def)

lemma obstacle_update_fields [simp]:
  "ox (obstacle_update spd ob) = ox ob - spd" "oheight (obstacle_update spd ob) = oheight ob"
  "isTop (obstacle_update spd ob) = isTop ob" "owidth (obstacle_update spd ob) = owidth ob"
  "passed (obstacle_update spd ob) = passed ob"
  "length (rings (obstacle_update spd ob)) = length (rings ob)"
  by (simp_all add: obstacle_update_def)

lemma ring_update_ok: "0 \<le> h \<Longrightarrow> alpha rg \<le> 1 \<Longrightarrow> ring_ok h (ring_update h t rg)"
  by (auto simp: ring_update_def ring_ok_def Let_def)

lemma make_rings_ok:
  "in_unit r \<Longrightarrow> 0 \<le> h \<Longrightarrow> list_all (ring_ok h) (fst (make_rings n h r))"
proof (induction n arbitrary: r)
  case 0
  then show ?case by simp
next
  case (Suc n)
  let ?a = "fst (random r)" and ?r2 = "snd (random (snd (random r)))"
  have a: "0 \<le> ?a" "?a < 1" using random_in_unit [OF Suc.prems(1)] by auto
  have "?a * h \<le> 1 * h" using a Suc.prems(2) by (intro mult_right_mono) auto
  with a Suc.prems(2) have "ring_ok h \<lparr>ring_y = ?a * h, alpha = 1, ring_speed = s\<rparr>" for s
    by (simp add: ring_ok_def)
  moreover have "list_all (ring_ok h) (fst (make_rings n h ?r2))"
    using Suc by simp
  ultimately show ?case by (simp add: split_def Let_def)
qed

lemma new_obstacle_ok: "in_unit r \<Longrightarrow> 0 \<le> h \<Longrightarrow> obstacle_ok (fst (new_obstacle x h t r))"
  using make_rings_ok [of r h 3] by (simp add: obstacle_ok_def new_obstacle_def split_def Let_def)

lemma obstacle_update_ok:
  "obstacle_ok ob \<Longrightarrow> 0 \<le> oheight ob \<Longrightarrow> obstacle_ok (obstacle_update spd ob)"
proof -
  assume ok: "obstacle_ok ob" and h: "0 \<le> oheight ob"
  have "alpha rg \<le> 1" if "rg \<in> set (rings ob)" for rg
    using ok that by (auto simp: obstacle_ok_def list_all_iff ring_ok_def)
  with h have "list_all (ring_ok (oheight ob)) (map (ring_update (oheight ob) (isTop ob)) (rings ob))"
    by (auto simp: list_all_iff intro: ring_update_ok)
  with ok show ?thesis by (simp add: obstacle_ok_def obstacle_update_def)
qed

subsection \<open>Particles\<close>

lemma make_particles_length [simp]: "length (fst (make_particles n x y ty r)) = n"
  by (induction n arbitrary: r) (simp_all add: split_def Let_def)

lemma boost_particles_length [simp]: "length (fst (boost_particles n x y r)) = n"
  by (induction n arbitrary: r) (simp_all add: split_def Let_def)

text \<open>A request is granted whole or dropped whole, and the earlier particles stay.\<close>

lemma createParticles_length:
  "length (fst (createParticles x y ty n ps r)) =
     (if length ps + n > 200 then length ps else length ps + n)"
  by (simp add: createParticles_def split_def Let_def)

lemma createParticles_prefix:
  "take (length ps) (fst (createParticles x y ty n ps r)) = ps"
  by (simp add: createParticles_def split_def Let_def)

lemma createParticles_cap:
  "length ps \<le> 200 \<Longrightarrow> length (fst (createParticles x y ty n ps r)) \<le> 200"
  by (simp add: createParticles_length)

lemma updateParticles_length: "length (updateParticles ps) \<le> length ps"
  by (simp add: updateParticles_def)

lemma updateParticles_alive:
  "list_all (\<lambda>p. 0 \<le> life p) (updateParticles ps)"
  by (induction ps) (simp_all add: updateParticles_def particle_step_def)

lemma make_rings_wf:
  "in_unit r \<Longrightarrow> list_all (wf_ring h) (fst (make_rings n h r))"
proof (induction n arbitrary: r)
  case 0
  then show ?case by simp
next
  case (Suc n)
  have "0 \<le> fst (random r)" "fst (random r) < 1" using random_in_unit [OF Suc.prems] by auto
  then have "h < 0 \<or> (0 \<le> fst (random r) * h \<and> fst (random r) * h \<le> h)"
    by (auto simp: not_less intro: mult_left_le_one_le)
  moreover have "list_all (wf_ring h) (fst (make_rings n h (snd (random (snd (random r))))))"
    using Suc by simp
  ultimately show ?case by (simp add: split_def Let_def) (simp add: wf_ring_def)
qed

lemma new_obstacle_wf: "in_unit r \<Longrightarrow> wf_obstacle (fst (new_obstacle x h t r))"
  using make_rings_wf [of r h 3] make_rings_length [of 3 h r]
  by (simp add: wf_obstacle_def new_obstacle_def split_def Let_def)

lemma ring_update_wf: "wf_ring h rg \<Longrightarrow> wf_ring h (ring_update h t rg)"
  by (auto simp: ring_update_def wf_ring_def Let_def)

lemma obstacle_update_wf: "wf_obstacle ob \<Longrightarrow> wf_obstacle (obstacle_update spd ob)"
  by (auto simp: wf_obstacle_def obstacle_update_def list_all_iff ring_update_wf)

lemma wf_obstacle_passed [simp]: "wf_obstacle (ob\<lparr>passed := b\<rparr>) = wf_obstacle ob"
  by (simp add: wf_obstacle_def)

lemma in_unit_new_obstacle [simp]: "in_unit (snd (new_obstacle x h t r)) = in_unit r"
  by (rule in_unit_src) simp

end
