(* ===== verification/Catalog.thy ===== *)
theory Catalog
  imports Prelude
begin

text \<open>
  The craft catalogue \<^verbatim>\<open>flyingObjects\<close> of \<^verbatim>\<open>src/js/script.js\<close> (lines 71-92):
  four crafts, each with its unlock score and the physical constants that
  \<^verbatim>\<open>Object.assign(player, flyingObjects[i].stats)\<close> copies into the player. The
  default unlock array of line 94 is derived from it. The lemmas state the facts of the
  catalogue the other components rely on: the first craft is free, the thresholds
  grow, every craft has positive size.
\<close>

record obj_stats =
  stat_width :: real
  stat_height :: real
  stat_lift :: real
  stat_gravity :: real

record flying_object =
  fo_name :: string
  unlockScore :: int
  stats :: obj_stats

definition flyingObjects :: "flying_object list" where
  "flyingObjects =
     [\<lparr>fo_name = ''UFO'', unlockScore = 0,
       stats = \<lparr>stat_width = 60, stat_height = 60, stat_lift = -10, stat_gravity = 0.5\<rparr>\<rparr>,
      \<lparr>fo_name = ''Rocket'', unlockScore = 500,
       stats = \<lparr>stat_width = 60, stat_height = 60, stat_lift = -12, stat_gravity = 0.5\<rparr>\<rparr>,
      \<lparr>fo_name = ''Spaceship'', unlockScore = 1000,
       stats = \<lparr>stat_width = 60, stat_height = 60, stat_lift = -10, stat_gravity = 0.45\<rparr>\<rparr>,
      \<lparr>fo_name = ''Drone'', unlockScore = 5000,
       stats = \<lparr>stat_width = 50, stat_height = 50, stat_lift = -10, stat_gravity = 0.5\<rparr>\<rparr>]"

text \<open>\<^verbatim>\<open>flyingObjects.map(o => o.unlockScore === 0)\<close>, the fallback of line 94.\<close>

definition default_unlocks :: "bool list" where
  "default_unlocks = map (\<lambda>fo. unlockScore fo = 0) flyingObjects"

lemma length_flyingObjects [simp]: "length flyingObjects = 4"
  by (simp add: flyingObjects_def)

lemma default_unlocks_eq: "default_unlocks = [True, False, False, False]"
  by (simp add: default_unlocks_def flyingObjects_def)

lemma unlockScore_nonneg: "fo \<in> set flyingObjects \<Longrightarrow> 0 \<le> unlockScore fo"
  by (auto simp: flyingObjects_def)

lemma stats_positive:
  "fo \<in> set flyingObjects \<Longrightarrow>
     0 < stat_width (stats fo) \<and> 0 < stat_height (stats fo) \<and> stat_lift (stats fo) < 0
     \<and> 0 < stat_gravity (stats fo)"
  by (auto simp: flyingObjects_def)

lemma unlockScore_sorted: "sorted (map unlockScore flyingObjects)"
  by (simp add: flyingObjects_def)

end
