(* ===== verification/Json.thy ===== *)
theory Json
  imports Prelude
begin

text \<open>
  \<^verbatim>\<open>JSON.parse\<close> as line 94 of \<^verbatim>\<open>src/js/script.js\<close> uses it: whether a text is
  JSON at all (otherwise the call throws), and, for the texts that are, whether the value
  is falsy (\<^verbatim>\<open>false\<close>, \<^verbatim>\<open>null\<close>, a number that is zero as a double, the empty
  string) and whether it is an array of booleans. The text is split into tokens by
  \<open>json_lex\<close> (white space, punctuation, literals, numbers by the automaton of the
  number grammar, strings with their escapes) and the token sequence is checked by a
  pushdown automaton \<open>json_accepts\<close> whose stack records the open arrays and objects.
  HOL characters are code points below 256, so the texts are those of such characters.
\<close>

datatype jtok = JLBrack | JRBrack | JLBrace | JRBrace | JComma | JColon
  | JTrue | JFalse | JNull | JNum string | JStr bool
  \<comment> \<open>a number keeps its text; a string records whether it is empty\<close>

definition json_ws :: "char \<Rightarrow> bool" where
  "json_ws c \<longleftrightarrow> c \<in> set [CHR '' '', CHR 0x09, CHR 0x0A, CHR 0x0D]"

definition is_digit :: "char \<Rightarrow> bool" where
  "is_digit c \<longleftrightarrow> 48 \<le> (of_char c :: nat) \<and> (of_char c :: nat) \<le> 57"

definition hex_char :: "char \<Rightarrow> bool" where
  "hex_char c \<longleftrightarrow> is_digit c \<or> c \<in> set ''abcdefABCDEF''"

definition json_escape :: "char \<Rightarrow> bool" where
  "json_escape c \<longleftrightarrow> c \<in> set [CHR 0x22, CHR 0x5C, CHR ''/'', CHR ''b'', CHR ''f'', CHR ''n'',
     CHR ''r'', CHR ''t'']"

definition is_exp_mark :: "char \<Rightarrow> bool" where
  "is_exp_mark c \<longleftrightarrow> c = CHR ''e'' \<or> c = CHR ''E''"

text \<open>The automaton of the number grammar
  \<^verbatim>\<open>-? (0 | [1-9][0-9]*) (. [0-9]+)? ([eE] [+-]? [0-9]+)?\<close>.\<close>

datatype nstate = NSign | NZero | NInt | NDot | NFrac | NExpMark | NExpSign | NExp

fun num_step :: "nstate \<Rightarrow> char \<Rightarrow> nstate option" where
  "num_step NSign c = (if c = CHR ''0'' then Some NZero else if is_digit c then Some NInt else None)"
| "num_step NZero c =
     (if c = CHR ''.'' then Some NDot else if is_exp_mark c then Some NExpMark else None)"
| "num_step NInt c =
     (if is_digit c then Some NInt else if c = CHR ''.'' then Some NDot
      else if is_exp_mark c then Some NExpMark else None)"
| "num_step NDot c = (if is_digit c then Some NFrac else None)"
| "num_step NFrac c =
     (if is_digit c then Some NFrac else if is_exp_mark c then Some NExpMark else None)"
| "num_step NExpMark c =
     (if c = CHR ''+'' \<or> c = CHR ''-'' then Some NExpSign else if is_digit c then Some NExp else None)"
| "num_step NExpSign c = (if is_digit c then Some NExp else None)"
| "num_step NExp c = (if is_digit c then Some NExp else None)"

fun num_final :: "nstate \<Rightarrow> bool" where
  "num_final NZero = True"
| "num_final NInt = True"
| "num_final NFrac = True"
| "num_final NExp = True"
| "num_final _ = False"

fun json_lex :: "string \<Rightarrow> jtok list option"
and lex_num :: "nstate \<Rightarrow> string \<Rightarrow> string \<Rightarrow> jtok list option"
and lex_str :: "bool \<Rightarrow> string \<Rightarrow> jtok list option" where
  "json_lex [] = Some []"
| "json_lex (c # cs) =
     (if json_ws c then json_lex cs
      else if c = CHR ''['' then map_option (Cons JLBrack) (json_lex cs)
      else if c = CHR '']'' then map_option (Cons JRBrack) (json_lex cs)
      else if c = CHR ''{'' then map_option (Cons JLBrace) (json_lex cs)
      else if c = CHR ''}'' then map_option (Cons JRBrace) (json_lex cs)
      else if c = CHR '','' then map_option (Cons JComma) (json_lex cs)
      else if c = CHR '':'' then map_option (Cons JColon) (json_lex cs)
      else if c = CHR 0x22 then lex_str True cs
      else if c = CHR ''-'' then lex_num NSign [c] cs
      else if c = CHR ''0'' then lex_num NZero [c] cs
      else if is_digit c then lex_num NInt [c] cs
      else if c # take 3 cs = ''true'' then map_option (Cons JTrue) (json_lex (drop 3 cs))
      else if c # take 4 cs = ''false'' then map_option (Cons JFalse) (json_lex (drop 4 cs))
      else if c # take 3 cs = ''null'' then map_option (Cons JNull) (json_lex (drop 3 cs))
      else None)"
| "lex_num q acc [] = (if num_final q then Some [JNum acc] else None)"
| "lex_num q acc (c # cs) =
     (case num_step q c of
        Some q' \<Rightarrow> lex_num q' (acc @ [c]) cs
      | None \<Rightarrow> if num_final q then map_option (Cons (JNum acc)) (json_lex (c # cs)) else None)"
| "lex_str e [] = None"
| "lex_str e (c # cs) =
     (if c = CHR 0x22 then map_option (Cons (JStr e)) (json_lex cs)
      else if c = CHR 0x5C then
        (case cs of
           [] \<Rightarrow> None
         | d # ds \<Rightarrow>
             if json_escape d then lex_str False ds
             else if d = CHR ''u'' \<and> 4 \<le> length ds \<and> list_all hex_char (take 4 ds)
             then lex_str False (drop 4 ds) else None)
      else if of_char c < (32::nat) then None
      else lex_str False cs)"

text \<open>The grammar of values, arrays and objects as a pushdown automaton: the state says
  what may come next, the stack which containers are open.\<close>

datatype jctx = InArr | InObj

datatype jexp = ExpValue | ExpValueOrClose | ExpKey | ExpKeyOrClose | ExpColon | ExpAfter

fun open_value :: "jtok \<Rightarrow> jctx list \<Rightarrow> (jexp \<times> jctx list) option" where
  "open_value JLBrack stk = Some (ExpValueOrClose, InArr # stk)"
| "open_value JLBrace stk = Some (ExpKeyOrClose, InObj # stk)"
| "open_value JTrue stk = Some (ExpAfter, stk)"
| "open_value JFalse stk = Some (ExpAfter, stk)"
| "open_value JNull stk = Some (ExpAfter, stk)"
| "open_value (JNum n) stk = Some (ExpAfter, stk)"
| "open_value (JStr e) stk = Some (ExpAfter, stk)"
| "open_value _ stk = None"

fun close_ctx :: "jctx \<Rightarrow> jctx list \<Rightarrow> (jexp \<times> jctx list) option" where
  "close_ctx k (k' # stk) = (if k' = k then Some (ExpAfter, stk) else None)"
| "close_ctx k [] = None"

fun json_trans :: "jexp \<Rightarrow> jctx list \<Rightarrow> jtok \<Rightarrow> (jexp \<times> jctx list) option" where
  "json_trans ExpValue stk t = open_value t stk"
| "json_trans ExpValueOrClose stk t = (if t = JRBrack then close_ctx InArr stk else open_value t stk)"
| "json_trans ExpKeyOrClose stk t =
     (case t of JRBrace \<Rightarrow> close_ctx InObj stk | JStr e \<Rightarrow> Some (ExpColon, stk) | _ \<Rightarrow> None)"
| "json_trans ExpKey stk t = (case t of JStr e \<Rightarrow> Some (ExpColon, stk) | _ \<Rightarrow> None)"
| "json_trans ExpColon stk t = (if t = JColon then Some (ExpValue, stk) else None)"
| "json_trans ExpAfter stk t =
     (case t of
        JComma \<Rightarrow> (case stk of InArr # _ \<Rightarrow> Some (ExpValue, stk) | InObj # _ \<Rightarrow> Some (ExpKey, stk)
                   | [] \<Rightarrow> None)
      | JRBrack \<Rightarrow> close_ctx InArr stk
      | JRBrace \<Rightarrow> close_ctx InObj stk
      | _ \<Rightarrow> None)"

fun json_accepts :: "jexp \<Rightarrow> jctx list \<Rightarrow> jtok list \<Rightarrow> bool" where
  "json_accepts q stk [] \<longleftrightarrow> q = ExpAfter \<and> stk = []"
| "json_accepts q stk (t # ts) \<longleftrightarrow>
     (case json_trans q stk t of None \<Rightarrow> False | Some (q', stk') \<Rightarrow> json_accepts q' stk' ts)"

definition json_valid :: "string \<Rightarrow> bool" where
  "json_valid t \<longleftrightarrow> (case json_lex t of None \<Rightarrow> False | Some ts \<Rightarrow> json_accepts ExpValue [] ts)"

text \<open>The value of a number text as a double is zero when its decimal value
  \<open>m * 10^e\<close> is at most \<open>2^-1075\<close>, half the least subnormal: round to nearest, ties
  to even, takes it to 0.\<close>

definition digits_value :: "nat \<Rightarrow> string \<Rightarrow> nat" where
  "digits_value acc ds = foldl (\<lambda>a c. 10 * a + (of_char c - 48)) acc ds"

definition num_is_zero :: "string \<Rightarrow> bool" where
  "num_is_zero t =
     (let u = (if t \<noteq> [] \<and> hd t = CHR ''-'' then tl t else t);
          mant = takeWhile (\<lambda>c. \<not> is_exp_mark c) u; ex = drop (Suc (length mant)) u;
          ip = takeWhile (\<lambda>c. c \<noteq> CHR ''.'') mant; fp = drop (Suc (length ip)) mant;
          m = digits_value 0 (ip @ fp);
          e = (if ex = [] then 0
               else if hd ex = CHR ''-'' then - int (digits_value 0 (tl ex))
               else if hd ex = CHR ''+'' then int (digits_value 0 (tl ex))
               else int (digits_value 0 ex)) - int (length fp)
      in m = 0 \<or> (e < 0 \<and> m * 2 ^ 1075 \<le> 10 ^ nat (- e)))"

fun json_falsy :: "jtok list \<Rightarrow> bool" where
  "json_falsy [JFalse] = True"
| "json_falsy [JNull] = True"
| "json_falsy [JStr e] = e"
| "json_falsy [JNum n] = num_is_zero n"
| "json_falsy _ = False"

fun bool_tok :: "jtok \<Rightarrow> bool option" where
  "bool_tok JTrue = Some True"
| "bool_tok JFalse = Some False"
| "bool_tok _ = None"

fun bool_items :: "jtok list \<Rightarrow> bool list option" where
  "bool_items [t, JRBrack] = map_option (\<lambda>b. [b]) (bool_tok t)"
| "bool_items (t # JComma # ts) =
     (case bool_tok t of None \<Rightarrow> None | Some b \<Rightarrow> map_option (Cons b) (bool_items ts))"
| "bool_items _ = None"

fun json_bool_array :: "jtok list \<Rightarrow> bool list option" where
  "json_bool_array [JLBrack, JRBrack] = Some []"
| "json_bool_array (JLBrack # ts) = bool_items ts"
| "json_bool_array _ = None"

end
