(* ===== verification/Persistence.thy ===== *)
theory Persistence
  imports Catalog Json
begin

text \<open>
  What \<^verbatim>\<open>src/js/script.js\<close> keeps in \<^verbatim>\<open>localStorage\<close>: the high score, written
  at line 658 as the decimal text of a number and read back at line 115, and the unlock
  array, written at line 664 with \<^verbatim>\<open>JSON.stringify\<close> and read back at line 94 with
  \<^verbatim>\<open>JSON.parse(...) || default\<close>. The store is a map from keys to strings. A
  high-score text that is not a decimal integer reads as \<^verbatim>\<open>NaN\<close> (\<open>None\<close>). The
  unlock text is read with the model of \<^verbatim>\<open>JSON.parse\<close> of theory \<open>Json\<close>: a text that
  is not JSON throws (the error \<open>JsonSyntax\<close>), a falsy value gives the default, an
  array of booleans in any layout is the unlock array, and any other JSON value is outside
  the model (the error \<open>Unmodelled\<close>).
  The lemmas are the two round trips: what the script writes, it reads back unchanged.
\<close>

section \<open>Decimal numbers\<close>

fun digits :: "nat \<Rightarrow> string" where
  "digits n = (if n < 10 then [char_of (48 + n)] else digits (n div 10) @ [char_of (48 + n mod 10)])"

declare digits.simps [simp del]

definition js_string_of_int :: "int \<Rightarrow> string" where
  "js_string_of_int i = (if i < 0 then CHR ''-'' # digits (nat (- i)) else digits (nat i))"

definition parse_nat :: "string \<Rightarrow> nat option" where
  "parse_nat ds = (if ds \<noteq> [] \<and> list_all is_digit ds then Some (digits_value 0 ds) else None)"

text \<open>JavaScript's string-to-number conversion on the texts of integers; \<open>None\<close> is
  \<^verbatim>\<open>NaN\<close>.\<close>

definition js_to_number :: "string \<Rightarrow> int option" where
  "js_to_number s =
     (if s \<noteq> [] \<and> hd s = CHR ''-'' then map_option (\<lambda>n. - int n) (parse_nat (tl s))
      else map_option int (parse_nat s))"

section \<open>JSON arrays of booleans\<close>

definition json_lit :: "bool \<Rightarrow> string" where
  "json_lit b = (if b then ''true'' else ''false'')"

fun json_items :: "bool list \<Rightarrow> string" where
  "json_items [] = []"
| "json_items [b] = json_lit b"
| "json_items (b # bs) = json_lit b @ CHR '','' # json_items bs"

definition json_bools :: "bool list \<Rightarrow> string" where
  "json_bools bs = CHR ''['' # json_items bs @ [CHR '']'']"

text \<open>The tokens the text of \<open>json_bools\<close> is made of.\<close>

fun bool_toks :: "bool list \<Rightarrow> jtok list" where
  "bool_toks [] = []"
| "bool_toks [b] = [if b then JTrue else JFalse]"
| "bool_toks (b # bs) = (if b then JTrue else JFalse) # JComma # bool_toks bs"

section \<open>The store\<close>

datatype load_error = JsonSyntax string | Unmodelled string

text \<open>Line 115: \<^verbatim>\<open>localStorage.getItem('highScore') || 0\<close>. A missing entry and the
  empty string are falsy and give 0; any other text is converted when it is first
  compared with the score.\<close>

definition load_high_score :: "js_store \<Rightarrow> int option" where
  "load_high_score st =
     (case st ''highScore'' of None \<Rightarrow> Some 0
      | Some txt \<Rightarrow> if txt = [] then Some 0 else js_to_number txt)"

definition store_high_score :: "int \<Rightarrow> js_store \<Rightarrow> js_store" where
  "store_high_score h st = st(''highScore'' \<mapsto> js_string_of_int h)"

text \<open>Line 94: \<^verbatim>\<open>JSON.parse(localStorage.getItem('unlocks')) || default\<close>. A missing
  entry is \<^verbatim>\<open>null\<close>, which \<^verbatim>\<open>JSON.parse\<close> reads as \<^verbatim>\<open>null\<close>; a text that is
  not JSON throws; \<^verbatim>\<open>null\<close>, \<^verbatim>\<open>false\<close>, a zero number and the empty string are
  falsy and give the default.\<close>

definition load_unlocks :: "js_store \<Rightarrow> load_error + bool list" where
  "load_unlocks st =
     (case st ''unlocks'' of None \<Rightarrow> Inr default_unlocks
      | Some txt \<Rightarrow>
          (case json_lex txt of None \<Rightarrow> Inl (JsonSyntax txt)
           | Some ts \<Rightarrow>
               if \<not> json_accepts ExpValue [] ts then Inl (JsonSyntax txt)
               else if json_falsy ts then Inr default_unlocks
               else (case json_bool_array ts of Some bs \<Rightarrow> Inr bs | None \<Rightarrow> Inl (Unmodelled txt))))"

definition store_unlocks :: "bool list \<Rightarrow> js_store \<Rightarrow> js_store" where
  "store_unlocks us st = st(''unlocks'' \<mapsto> json_bools us)"

section \<open>Lemmas\<close>

lemma digits_nonempty: "digits n \<noteq> []"
  by (subst digits.simps) simp

lemma of_char_digit: "k < 10 \<Longrightarrow> of_char (char_of (48 + k) :: char) = (48 + k :: nat)"
  by simp

lemma digits_are_digits: "list_all is_digit (digits n)"
proof (induction n rule: digits.induct)
  case (1 n)
  have d: "is_digit (char_of (48 + k))" if "k < 10" for k :: nat
    using that by (simp add: is_digit_def)
  show ?case
  proof (cases "n < 10")
    case True
    then show ?thesis using d by (subst digits.simps) simp
  next
    case False
    with "1.IH" have "list_all is_digit (digits (n div 10))" by simp
    with False d [of "n mod 10"] show ?thesis by (subst digits.simps) simp
  qed
qed

lemma digits_value_snoc:
  "digits_value acc (xs @ [c]) = 10 * digits_value acc xs + (of_char c - 48)"
  by (simp add: digits_value_def)

lemma digits_value_digits: "digits_value 0 (digits n) = n"
proof (induction n rule: digits.induct)
  case (1 n)
  show ?case
  proof (cases "n < 10")
    case True
    then show ?thesis by (subst digits.simps) (simp add: digits_value_def)
  next
    case False
    with "1.IH" have "digits_value 0 (digits (n div 10)) = n div 10" by simp
    with False show ?thesis
      by (subst digits.simps) (simp add: digits_value_snoc)
  qed
qed

lemma parse_nat_digits: "parse_nat (digits n) = Some n"
  by (simp add: parse_nat_def digits_nonempty digits_are_digits digits_value_digits)

lemma hd_digits_not_minus: "hd (digits n) \<noteq> CHR ''-''"
proof -
  have "list_all is_digit (digits n)" by (rule digits_are_digits)
  then have "is_digit (hd (digits n))" using digits_nonempty [of n]
    by (cases "digits n") auto
  then show ?thesis by (auto simp: is_digit_def)
qed

lemma js_to_number_string_of_int: "js_to_number (js_string_of_int i) = Some i"
  by (simp add: js_to_number_def js_string_of_int_def parse_nat_digits hd_digits_not_minus digits_nonempty)

text \<open>Round trip of the high score: the text written at line 658 reads back as the
  number written.\<close>

lemma load_store_high_score: "load_high_score (store_high_score h st) = Some h"
proof -
  have "js_string_of_int h \<noteq> []"
    by (simp add: js_string_of_int_def digits_nonempty)
  then show ?thesis
    by (simp add: load_high_score_def store_high_score_def js_to_number_string_of_int)
qed

lemma lex_json_lit:
  "json_lex (json_lit b @ r) = map_option (Cons (if b then JTrue else JFalse)) (json_lex r)"
  by (cases b) (simp_all add: json_lit_def json_ws_def is_digit_def)

lemma lex_json_items: "json_lex (json_items bs @ r) = map_option ((@) (bool_toks bs)) (json_lex r)"
proof (induction bs rule: json_items.induct)
  case (3 b c bs)
  then show ?case by (simp add: lex_json_lit json_ws_def option.map_comp comp_def)
qed (simp_all add: lex_json_lit option.map_comp comp_def option.map_ident)

lemma lex_json_bools: "json_lex (json_bools bs) = Some (JLBrack # bool_toks bs @ [JRBrack])"
  using lex_json_items [of bs "[CHR '']'']"] by (simp add: json_bools_def json_ws_def)

lemma accepts_bool_toks:
  "bs \<noteq> [] \<Longrightarrow>
     json_accepts ExpValue (InArr # stk) (bool_toks bs @ rest) = json_accepts ExpAfter (InArr # stk) rest"
  by (induction bs rule: bool_toks.induct) simp_all

lemma accepts_json_bools: "json_accepts ExpValueOrClose [InArr] (bool_toks bs @ [JRBrack])"
proof (cases bs)
  case (Cons b bs')
  have "json_accepts ExpValueOrClose [InArr] (bool_toks bs @ [JRBrack])
        = json_accepts ExpValue [InArr] (bool_toks bs @ [JRBrack])"
    using Cons by (cases bs') simp_all
  then show ?thesis using accepts_bool_toks [of bs "[]" "[JRBrack]"] Cons by simp
qed simp

lemma bool_items_toks: "bs \<noteq> [] \<Longrightarrow> bool_items (bool_toks bs @ [JRBrack]) = Some bs"
  by (induction bs rule: bool_toks.induct) simp_all

lemma json_bool_array_items:
  assumes "ts \<noteq> [JRBrack]"
  shows "json_bool_array (JLBrack # ts) = bool_items ts"
proof (cases ts)
  case (Cons t ts')
  then show ?thesis using assms by (cases ts') (cases t; simp_all)+
qed simp

lemma bool_array_json_bools: "json_bool_array (JLBrack # bool_toks bs @ [JRBrack]) = Some bs"
proof (cases bs)
  case (Cons b bs')
  then have "bool_toks bs \<noteq> []" by (cases bs') simp_all
  then have "bool_toks bs @ [JRBrack] \<noteq> [JRBrack]" by simp
  then show ?thesis using Cons by (simp add: json_bool_array_items bool_items_toks)
qed simp

lemma json_falsy_array: "\<not> json_falsy (JLBrack # ts @ [t])"
  by (cases ts) simp_all

text \<open>Round trip of the unlock array: the JSON written at line 664 reads back at line 94
  as the same array, order and length included.\<close>

lemma load_store_unlocks: "load_unlocks (store_unlocks us st) = Inr us"
  by (simp add: load_unlocks_def store_unlocks_def lex_json_bools accepts_json_bools
      json_falsy_array bool_array_json_bools)

lemma load_unlocks_store_high_score [simp]:
  "load_unlocks (store_high_score h st) = load_unlocks st"
  by (simp add: load_unlocks_def store_high_score_def)

lemma load_high_score_other [simp]:
  "k \<noteq> ''highScore'' \<Longrightarrow> load_high_score (st(k := v)) = load_high_score st"
  by (simp add: load_high_score_def)

section \<open>Properties\<close>

text \<open>C23: the store round-trips what the script writes: any unlock array stored with
  \<^verbatim>\<open>JSON.stringify\<close> and any integer high score stored as text are read back unchanged,
  and writing the high score does not disturb the stored unlocks (spec section 8).\<close>

theorem persist_roundtrip:
  "load_unlocks (store_unlocks us st) = Inr us \<and> load_high_score (store_high_score h st) = Some h
   \<and> load_unlocks (store_high_score h (store_unlocks us st)) = Inr us"
  by (simp add: load_store_unlocks load_store_high_score)

end
