(* ===== verification/Background.thy ===== *)
theory Background
  imports Prelude
begin

text \<open>
  The scrolling background of \<^verbatim>\<open>src/js/script.js\<close>: the star and nebula objects
  created by \<^verbatim>\<open>resetBackground\<close> (lines 462-480) and moved by
  \<^verbatim>\<open>drawBackground\<close> (lines 680-716). A star is its position, speed and size; a
  nebula its position, size and hue (the code keeps the hue inside an \<^verbatim>\<open>hsl\<close>
  colour text). Creation draws four numbers per object, in the order of the object
  literal; a nebula that has left the screen draws two more for its new height and hue.
  The hue drawn for each star on every frame only reaches the canvas and is not taken from
  the stream. Lemmas: the counts of 100 stars and 7 nebulae, that the generator stays in
  \<open>[0, 1)\<close>, and that a star step keeps a star on the canvas.
\<close>

record star =
  sx :: real
  sy :: real
  sspeed :: real
  ssize :: real

record nebula =
  nx :: real
  ny :: real
  nsize :: real
  nhue :: real

fun make_stars :: "nat \<Rightarrow> real \<Rightarrow> real \<Rightarrow> rand \<Rightarrow> star list \<times> rand" where
  "make_stars 0 cw ch r = ([], r)"
| "make_stars (Suc n) cw ch r =
     (let (a, r1) = random r; (b, r2) = random r1; (c, r3) = random r2; (d, r4) = random r3;
          (sts, r5) = make_stars n cw ch r4
      in (\<lparr>sx = a * cw, sy = b * ch, sspeed = c * 0.8 + 0.5, ssize = d * 3 + 1\<rparr> # sts, r5))"

fun make_nebulas :: "nat \<Rightarrow> real \<Rightarrow> real \<Rightarrow> rand \<Rightarrow> nebula list \<times> rand" where
  "make_nebulas 0 cw ch r = ([], r)"
| "make_nebulas (Suc n) cw ch r =
     (let (a, r1) = random r; (b, r2) = random r1; (c, r3) = random r2; (d, r4) = random r3;
          (nbs, r5) = make_nebulas n cw ch r4
      in (\<lparr>nx = a * cw, ny = b * ch, nsize = c * 120 + 60, nhue = d * 360\<rparr> # nbs, r5))"

definition make_background :: "real \<Rightarrow> real \<Rightarrow> rand \<Rightarrow> star list \<times> nebula list \<times> rand" where
  "make_background cw ch r =
     (let (sts, r1) = make_stars 100 cw ch r; (nbs, r2) = make_nebulas 7 cw ch r1 in (sts, nbs, r2))"

definition star_step :: "real \<Rightarrow> int \<Rightarrow> star \<Rightarrow> star" where
  "star_step cw stage st =
     (let x = sx st - sspeed st * (1 + of_int stage * 0.1) in st\<lparr>sx := (if x < 0 then cw else x)\<rparr>)"

fun nebulas_step :: "real \<Rightarrow> real \<Rightarrow> real \<Rightarrow> nebula list \<Rightarrow> rand \<Rightarrow> nebula list \<times> rand" where
  "nebulas_step cw ch spd [] r = ([], r)"
| "nebulas_step cw ch spd (nb # nbs) r =
     (let nb1 = nb\<lparr>nx := nx nb - spd * 0.5\<rparr>;
          (nb2, r1) = (if nx nb1 + nsize nb1 < 0
                       then (let (a, ra) = random r; (b, rb) = random ra
                             in (nb1\<lparr>nx := cw + nsize nb1, ny := a * ch, nhue := b * 360\<rparr>, rb))
                       else (nb1, r));
          (nbs', r2) = nebulas_step cw ch spd nbs r1
      in (nb2 # nbs', r2))"

lemma make_stars_length [simp]: "length (fst (make_stars n cw ch r)) = n"
  by (induction n arbitrary: r) (simp_all add: split_def Let_def)

lemma make_nebulas_length [simp]: "length (fst (make_nebulas n cw ch r)) = n"
  by (induction n arbitrary: r) (simp_all add: split_def Let_def)

lemma nebulas_step_length [simp]: "length (fst (nebulas_step cw ch spd nbs r)) = length nbs"
  by (induction nbs arbitrary: r) (simp_all add: split_def Let_def)

lemma make_stars_src [simp]: "rnd_src (snd (make_stars n cw ch r)) = rnd_src r"
  by (induction n arbitrary: r) (simp_all add: split_def Let_def)

lemma make_nebulas_src [simp]: "rnd_src (snd (make_nebulas n cw ch r)) = rnd_src r"
  by (induction n arbitrary: r) (simp_all add: split_def Let_def)

lemma nebulas_step_src [simp]: "rnd_src (snd (nebulas_step cw ch spd nbs r)) = rnd_src r"
  by (induction nbs arbitrary: r) (simp_all add: split_def Let_def)

lemma make_background_shape [simp]:
  "length (fst (make_background cw ch r)) = 100" "length (fst (snd (make_background cw ch r))) = 7"
  "rnd_src (snd (snd (make_background cw ch r))) = rnd_src r"
  by (simp_all add: make_background_def split_def Let_def)

lemma in_unit_background [simp]:
  "in_unit (snd (snd (make_background cw ch r))) = in_unit r"
  "in_unit (snd (nebulas_step cw ch spd nbs r)) = in_unit r"
  by (rule in_unit_src, simp)+

lemma star_step_bounds:
  "0 \<le> cw \<Longrightarrow> 0 \<le> sx st \<Longrightarrow> sx st \<le> cw \<Longrightarrow> 0 \<le> sspeed st \<Longrightarrow> 0 \<le> stage \<Longrightarrow>
     0 \<le> sx (star_step cw stage st) \<and> sx (star_step cw stage st) \<le> cw"
proof -
  assume a: "0 \<le> cw" "0 \<le> sx st" "sx st \<le> cw" "0 \<le> sspeed st" "0 \<le> stage"
  define k where "k = sspeed st * (1 + of_int stage * 0.1)"
  have "0 \<le> k" using a by (simp add: k_def)
  then have "sx st - k \<le> cw" using a by linarith
  then show ?thesis using a unfolding star_step_def Let_def k_def [symmetric] by simp
qed

end
