(* ===== verification/Audio.thy ===== *)
theory Audio
  imports Prelude
begin

text \<open>
  The sound cues of \<^verbatim>\<open>src/js/script.js\<close> (lines 62-69): eight named calls of
  \<^verbatim>\<open>playSound(frequencies, duration, type)\<close>, each a tone sliding between two
  frequencies. The Web Audio calls inside \<^verbatim>\<open>playSound\<close> (lines 36-60) only reach the
  loudspeaker; what the game does is choose which cue to play and when. A cue is a value
  of \<open>cue\<close>, named after the function that plays it, and \<open>cue_sound\<close> gives its
  frequencies in Hz, its duration in seconds and its wave form. The game state keeps the
  cues played so far, in order (the field \<open>sounds\<close> of \<open>GameState\<close>).
\<close>

datatype wave = Square | Sine | Sawtooth | Triangle

datatype cue = PlayRocketBoost | PlayCoinGrab | PlayPipePass | PlayCrash | PlayFullSendShout
  | PlayPowerUp | PlayHeartGrab | PlayVictory

definition cue_sound :: "cue \<Rightarrow> (nat \<times> nat) \<times> real \<times> wave" where
  "cue_sound c = (case c of
      PlayRocketBoost \<Rightarrow> ((200, 400), 0.2, Square)
    | PlayCoinGrab \<Rightarrow> ((800, 1000), 0.1, Sine)
    | PlayPipePass \<Rightarrow> ((300, 350), 0.15, Square)
    | PlayCrash \<Rightarrow> ((200, 150), 0.2, Sine)
    | PlayFullSendShout \<Rightarrow> ((500, 600), 0.3, Sawtooth)
    | PlayPowerUp \<Rightarrow> ((600, 800), 0.2, Sine)
    | PlayHeartGrab \<Rightarrow> ((700, 900), 0.15, Triangle)
    | PlayVictory \<Rightarrow> ((1000, 1200), 0.5, Sine))"

text \<open>How many times a cue occurs in a list of cues played.\<close>

definition plays :: "cue \<Rightarrow> cue list \<Rightarrow> nat" where
  "plays c cs = length (filter (\<lambda>x. x = c) cs)"

section \<open>Lemmas\<close>

lemma plays_simps [simp]:
  "plays c [] = 0" "plays c (x # cs) = (if x = c then Suc (plays c cs) else plays c cs)"
  "plays c (cs @ ds) = plays c cs + plays c ds"
  by (simp_all add: plays_def)

text \<open>Every cue is a distinct sound: the table is injective.\<close>

lemma cue_sound_inj: "inj cue_sound"
proof (rule injI)
  fix a b assume "cue_sound a = cue_sound b"
  then show "a = b" by (cases a; cases b) (simp_all add: cue_sound_def)
qed

end
