(* ===== verification/GameState.thy ===== *)
theory GameState
  imports Entities Catalog Persistence Background Audio
begin

text \<open>
  The global state of \<^verbatim>\<open>src/js/script.js\<close> as one record: the \<^verbatim>\<open>player\<close> object
  (lines 97-110), the entity arrays, the progression counters, the three mode flags
  \<^verbatim>\<open>intro\<close>/\<^verbatim>\<open>gameOver\<close>/\<^verbatim>\<open>victory\<close>, the tuning variables
  \<^verbatim>\<open>pipeGap\<close>/\<^verbatim>\<open>pipeSpeed\<close>, the clocks of the debounces, the hit areas of the
  intro screen, the unlock array and the store, and the state of the animation loop
  (\<^verbatim>\<open>lastFrameTime\<close> and whether a \<^verbatim>\<open>requestAnimationFrame\<close> callback is pending).
  The canvas size and the random generator are part of the state because the script
  reads them as globals; so are the star and nebula arrays of the background, the four
  text fields of the page, and the sound cues played so far.
  This theory holds the initial state (the top-level statements of lines 94-148),
  \<^verbatim>\<open>resetGame\<close> (lines 419-460), the hit areas of the intro screen (lines 837-847),
  the helpers that create particles and draw random numbers on the game state, and the
  lemmas on reset.
\<close>

record player =
  px :: real
  py :: real
  pwidth :: real
  pheight :: real
  velocity :: real
  gravity :: real
  lift :: real
  boost :: bool
  boostTimer :: real
  invincible :: bool
  invincibleTimer :: int
  invincibleCount :: int

record area =
  ax :: real
  ay :: real
  aw :: real
  ah :: real

text \<open>The four text fields of the page that show the score, high score, level and lives
  (\<^verbatim>\<open>scoreDisplay\<close> and the others, lines 7-10). The score field keeps the text
  of the page until the script first writes it: \<open>None\<close>.\<close>

record hud =
  hud_score :: "string option"
  hud_highScore :: string
  hud_level :: string
  hud_lives :: string

record game =
  player :: player
  obstacles :: "obstacle list"
  coins :: "coin list"
  particles :: "particle list"
  stars :: "star list"
  nebulas :: "nebula list"
  score :: int
  highScore :: "int option"
  level :: int
  lives :: int
  coinCount :: int
  pipeStreak :: int
  powerUp :: "power_up option"
  gameOver :: bool
  intro :: bool
  victory :: bool
  pipeGap :: real
  pipeSpeed :: real
  frame :: nat
  lastInputTime :: ms
  lastCollisionTime :: ms
  objectAreas :: "area list"
  shakeTimer :: int
  currentObjectIndex :: nat
  unlocks :: "bool list"
  storage :: js_store
  lastFrameTime :: real
  looping :: bool
  canvas_w :: real
  canvas_h :: real
  hud :: hud
  sounds :: "cue list"
  rng :: rand

definition maxLives :: int where
  "maxLives = 5"

text \<open>\<^verbatim>\<open>powerUp?.type === t\<close>.\<close>

definition power_is :: "power_type \<Rightarrow> power_up option \<Rightarrow> bool" where
  "power_is t pu \<longleftrightarrow> (case pu of None \<Rightarrow> False | Some p \<Rightarrow> ptype p = t)"

text \<open>\<^verbatim>\<open>score > highScore\<close>, where the high score may be the text read from the store:
  the comparison converts it to a number, and every comparison with \<^verbatim>\<open>NaN\<close> is false.\<close>

definition js_greater :: "int \<Rightarrow> int option \<Rightarrow> bool" where
  "js_greater sc h \<longleftrightarrow> (case h of None \<Rightarrow> False | Some v \<Rightarrow> v < sc)"

text \<open>The player literal of lines 97-110 and 421-434, for the craft with stats \<open>st\<close>.\<close>

definition fresh_player :: "real \<Rightarrow> obj_stats \<Rightarrow> player" where
  "fresh_player ch st =
     \<lparr>px = 50, py = ch / 2, pwidth = stat_width st, pheight = stat_height st, velocity = 0,
      gravity = stat_gravity st, lift = stat_lift st, boost = False, boostTimer = 0,
      invincible = False, invincibleTimer = 0, invincibleCount = 0\<rparr>"

text \<open>\<^verbatim>\<open>Object.assign(player, flyingObjects[i].stats)\<close>.\<close>

definition assign_stats :: "obj_stats \<Rightarrow> player \<Rightarrow> player" where
  "assign_stats st p =
     p\<lparr>pwidth := stat_width st, pheight := stat_height st, lift := stat_lift st,
       gravity := stat_gravity st\<rparr>"

text \<open>The script's top level: the unlock array of line 94 (whose \<^verbatim>\<open>JSON.parse\<close> throws
  on a text that is not JSON, which stops the script: the error value), the high score of line
  115 and the variables of lines 95-135, on a canvas of the given size.\<close>

text \<open>Line 122: \<^verbatim>\<open>`${highScore}`\<close> of the value read at line 115, the stored
  text itself or the number 0.\<close>

definition high_score_text :: "js_store \<Rightarrow> string" where
  "high_score_text st = (case st ''highScore'' of None \<Rightarrow> js_string_of_int 0
     | Some txt \<Rightarrow> if txt = [] then js_string_of_int 0 else txt)"

definition init_game :: "real \<Rightarrow> real \<Rightarrow> js_store \<Rightarrow> rand \<Rightarrow> load_error + game" where
  "init_game cw ch st r =
     (case load_unlocks st of
        Inl e \<Rightarrow> Inl e
      | Inr us \<Rightarrow>
         (let (sts, nbs, r') = make_background cw ch r
          in Inr
         \<lparr>player = fresh_player ch (stats (flyingObjects ! 0)), obstacles = [], coins = [],
          particles = [], stars = sts, nebulas = nbs, score = 0, highScore = load_high_score st, level = 1, lives = 3,
          coinCount = 0, pipeStreak = 0, powerUp = None, gameOver = False, intro = True,
          victory = False, pipeGap = 300, pipeSpeed = 2.5, frame = 0, lastInputTime = 0,
          lastCollisionTime = 0, objectAreas = [], shakeTimer = 0, currentObjectIndex = 0,
          unlocks = us, storage = st, lastFrameTime = 0, looping = True, canvas_w = cw,
          canvas_h = ch,
          hud = \<lparr>hud_score = None, hud_highScore = high_score_text st, hud_level = js_string_of_int 1,
                 hud_lives = js_string_of_int 3\<rparr>,
          sounds = [], rng = r'\<rparr>))"

text \<open>\<^verbatim>\<open>resetBackground\<close> (lines 462-480): a new field of 100 stars and 7 nebulae.\<close>

definition resetBackground :: "game \<Rightarrow> game" where
  "resetBackground s =
     (let (sts, nbs, r) = make_background (canvas_w s) (canvas_h s) (rng s)
      in s\<lparr>stars := sts, nebulas := nbs, rng := r\<rparr>)"

text \<open>The state changes of \<^verbatim>\<open>drawBackground\<close> (lines 680-716): the stars drift left at a
  speed growing with the stage \<open>\<lfloor>score / 200\<rfloor>\<close> and wrap to the right edge; the
  nebulae drift at half the pipe speed and, once past the left edge, come back at the right
  edge at a new random height and hue. The random hue of each star is drawing only.\<close>

definition drawBackground :: "game \<Rightarrow> game" where
  "drawBackground s =
     (let stage = score s div 200;
          (nbs, r) = nebulas_step (canvas_w s) (canvas_h s) (pipeSpeed s) (nebulas s) (rng s)
      in s\<lparr>stars := map (star_step (canvas_w s) stage) (stars s), nebulas := nbs, rng := r\<rparr>)"

text \<open>The statements that write the text fields, \<^verbatim>\<open>scoreDisplay.textContent = `${score}`\<close>
  and its three siblings (lines 446-448, 519, 568, 612, 621, 655 and 659): each shows the
  current value of its variable as a decimal text.\<close>

definition show_score :: "game \<Rightarrow> game" where
  "show_score s = s\<lparr>hud := (hud s)\<lparr>hud_score := Some (js_string_of_int (score s))\<rparr>\<rparr>"

definition show_level :: "game \<Rightarrow> game" where
  "show_level s = s\<lparr>hud := (hud s)\<lparr>hud_level := js_string_of_int (level s)\<rparr>\<rparr>"

definition show_lives :: "game \<Rightarrow> game" where
  "show_lives s = s\<lparr>hud := (hud s)\<lparr>hud_lives := js_string_of_int (lives s)\<rparr>\<rparr>"

text \<open>A call of one of the cue functions of lines 62-69.\<close>

definition play :: "cue \<Rightarrow> game \<Rightarrow> game" where
  "play c s = s\<lparr>sounds := sounds s @ [c]\<rparr>"

text \<open>Line 659 shows the high score just set to the score.\<close>

definition show_high_score :: "int \<Rightarrow> game \<Rightarrow> game" where
  "show_high_score h s = s\<lparr>hud := (hud s)\<lparr>hud_highScore := js_string_of_int h\<rparr>\<rparr>"

definition resetGame :: "game \<Rightarrow> game" where
  "resetGame s =
     resetBackground
       ((show_lives (show_level (show_score
          (s\<lparr>player := fresh_player (canvas_h s) (stats (flyingObjects ! currentObjectIndex s)),
             obstacles := [], coins := [], particles := [], score := 0, level := 1, lives := 3,
             coinCount := 0, pipeStreak := 0, powerUp := None, pipeSpeed := 2.5, pipeGap := 300\<rparr>))))
        \<lparr>gameOver := False, intro := True, victory := False, frame := 0,
         lastCollisionTime := 0, shakeTimer := 0\<rparr>)"

text \<open>The hit areas of the craft icons, recomputed by every intro frame (lines 837-847).\<close>

definition object_areas :: "real \<Rightarrow> real \<Rightarrow> area list" where
  "object_areas cw ch =
     (let n = real (length flyingObjects); size = 50; spacing = 20;
          totalWidth = n * size + (n - 1) * spacing;
          startX = cw / 2 - totalWidth / 2; objectY = ch / 2 - 120
      in map (\<lambda>i. \<lparr>ax = startX + real i * (size + spacing), ay = objectY, aw = size, ah = size\<rparr>)
           [0..<length flyingObjects])"

text \<open>\<^verbatim>\<open>createParticles(x, y, type, count)\<close> on the global particle array.\<close>

definition spawn_particles :: "real \<Rightarrow> real \<Rightarrow> particle_type \<Rightarrow> nat \<Rightarrow> game \<Rightarrow> game" where
  "spawn_particles x y ty n s =
     (let (ps, r) = createParticles x y ty n (particles s) (rng s) in s\<lparr>particles := ps, rng := r\<rparr>)"

definition draw :: "game \<Rightarrow> real \<times> game" where
  "draw s = (let (v, r) = random (rng s) in (v, s\<lparr>rng := r\<rparr>))"

text \<open>A concrete start: an empty store, a 400 by 800 canvas, and a generator whose draws
  are all 0.5. The witnesses of the development start from it.\<close>

definition demo_rand :: rand where
  "demo_rand = \<lparr>rnd_src = (\<lambda>_. 0.5), rnd_pos = 0\<rparr>"

definition demo_game :: game where
  "demo_game = projr (init_game 400 800 Map.empty demo_rand)"

section \<open>Lemmas\<close>

lemma show_upd [simp]:
  "show_score s = s\<lparr>hud := (hud s)\<lparr>hud_score := Some (js_string_of_int (score s))\<rparr>\<rparr>"
  "show_level s = s\<lparr>hud := (hud s)\<lparr>hud_level := js_string_of_int (level s)\<rparr>\<rparr>"
  "show_lives s = s\<lparr>hud := (hud s)\<lparr>hud_lives := js_string_of_int (lives s)\<rparr>\<rparr>"
  "show_high_score h s = s\<lparr>hud := (hud s)\<lparr>hud_highScore := js_string_of_int h\<rparr>\<rparr>"
  "play c s = s\<lparr>sounds := sounds s @ [c]\<rparr>"
  by (simp_all add: show_score_def show_level_def show_lives_def show_high_score_def play_def)

lemma demo_game_init: "init_game 400 800 Map.empty demo_rand = Inr demo_game"
  by (simp add: demo_game_def init_game_def load_unlocks_def split_def Let_def)


text \<open>The two helpers only touch the particles and the generator: their effect as a
  record update, for the simplifier.\<close>

lemma spawn_particles_upd [simp]:
  "spawn_particles x y ty n s =
     s\<lparr>particles := fst (createParticles x y ty n (particles s) (rng s)),
       rng := snd (createParticles x y ty n (particles s) (rng s))\<rparr>"
  by (simp add: spawn_particles_def split_def Let_def)

lemma resetBackground_upd [simp]:
  "resetBackground s =
     s\<lparr>stars := fst (make_background (canvas_w s) (canvas_h s) (rng s)),
       nebulas := fst (snd (make_background (canvas_w s) (canvas_h s) (rng s))),
       rng := snd (snd (make_background (canvas_w s) (canvas_h s) (rng s)))\<rparr>"
  by (simp add: resetBackground_def split_def Let_def)

lemma drawBackground_upd [simp]:
  "drawBackground s =
     s\<lparr>stars := map (star_step (canvas_w s) (score s div 200)) (stars s),
       nebulas := fst (nebulas_step (canvas_w s) (canvas_h s) (pipeSpeed s) (nebulas s) (rng s)),
       rng := snd (nebulas_step (canvas_w s) (canvas_h s) (pipeSpeed s) (nebulas s) (rng s))\<rparr>"
  by (simp add: drawBackground_def split_def Let_def)

lemma draw_upd [simp]: "draw s = (fst (random (rng s)), s\<lparr>rng := snd (random (rng s))\<rparr>)"
  by (simp add: draw_def split_def Let_def)

lemma spawn_particles_cap:
  "length (particles s) \<le> 200 \<Longrightarrow> length (particles (spawn_particles x y ty n s)) \<le> 200"
  by (simp add: createParticles_cap)

lemma length_object_areas [simp]: "length (object_areas cw ch) = length flyingObjects"
  by (simp add: object_areas_def Let_def)

lemma fresh_player_fields [simp]:
  "px (fresh_player ch st) = 50" "py (fresh_player ch st) = ch / 2"
  "velocity (fresh_player ch st) = 0" "boost (fresh_player ch st) = False"
  "invincible (fresh_player ch st) = False" "invincibleCount (fresh_player ch st) = 0"
  "invincibleTimer (fresh_player ch st) = 0" "boostTimer (fresh_player ch st) = 0"
  by (simp_all add: fresh_player_def)


lemma demo_game_fields [simp]:
  "highScore demo_game = Some 0" "score demo_game = 0" "level demo_game = 1"
  "lives demo_game = 3" "gameOver demo_game = False" "intro demo_game = True"
  "victory demo_game = False" "powerUp demo_game = None" "player demo_game = fresh_player 800 (stats (flyingObjects ! 0))"
  "obstacles demo_game = []" "coins demo_game = []" "particles demo_game = []"
  "unlocks demo_game = [True, False, False, False]" "storage demo_game = Map.empty"
  "lastCollisionTime demo_game = 0" "lastInputTime demo_game = 0" "coinCount demo_game = 0"
  "pipeStreak demo_game = 0" "frame demo_game = 0" "canvas_w demo_game = 400"
  "canvas_h demo_game = 800" "pipeGap demo_game = 300" "pipeSpeed demo_game = 2.5"
  "currentObjectIndex demo_game = 0" "lastFrameTime demo_game = 0" "looping demo_game"
  "shakeTimer demo_game = 0" "objectAreas demo_game = []" "rnd_src (rng demo_game) = (\<lambda>_. 0.5)"
  by (simp_all add: demo_game_def init_game_def load_unlocks_def load_high_score_def default_unlocks_eq Let_def
      split_def make_background_shape demo_rand_def)

lemma resetGame_fields:
  "score (resetGame s) = 0" "level (resetGame s) = 1" "lives (resetGame s) = 3"
  "intro (resetGame s)" "\<not> gameOver (resetGame s)" "\<not> victory (resetGame s)"
  "highScore (resetGame s) = highScore s" "unlocks (resetGame s) = unlocks s"
  "storage (resetGame s) = storage s" "lastInputTime (resetGame s) = lastInputTime s"
  "currentObjectIndex (resetGame s) = currentObjectIndex s"
  "looping (resetGame s) = looping s" "lastFrameTime (resetGame s) = lastFrameTime s"
  by (simp_all add: resetGame_def)

section \<open>Properties\<close>

text \<open>Restarting twice is restarting once (the spec's idempotence of Restart), except that
  every restart draws a new background.\<close>

theorem resetGame_idempotent:
  "(resetGame (resetGame s))\<lparr>stars := stars (resetGame s), nebulas := nebulas (resetGame s),
      rng := rng (resetGame s)\<rparr> = resetGame s"
  by (simp add: resetGame_def)

text \<open>C35: the script stops at line 94 exactly when the stored unlock entry is not JSON:
  \<^verbatim>\<open>JSON.parse\<close> throws there, outside any handler, so no game is ever set up,
  where the spec asks for the default unlocks; every JSON text, falsy or not, gets past
  line 94.\<close>

theorem init_game_invalid_json:
  "init_game cw ch (st(''unlocks'' \<mapsto> t)) r = Inl (JsonSyntax t) \<longleftrightarrow> \<not> json_valid t"
  by (auto simp: init_game_def load_unlocks_def json_valid_def split: option.splits prod.splits)

theorem init_game_invalid_json_witness:
  "\<not> json_valid ''[true,'' \<and>
   init_game 400 800 (Map.empty(''unlocks'' \<mapsto> ''[true,'')) demo_rand = Inl (JsonSyntax ''[true,'')"
proof -
  have h: "\<not> json_valid ''[true,''"
    by (simp add: json_valid_def json_ws_def is_digit_def)
  show ?thesis using h init_game_invalid_json [of 400 800 Map.empty "''[true,''" demo_rand] by simp
qed

end
