(* ===== verification/Progression.thy ===== *)
theory Progression
  imports GameState
begin

text \<open>
  The progression engine of \<^verbatim>\<open>src/js/script.js\<close>: the level thresholds
  \<^verbatim>\<open>getLevelThreshold\<close> (lines 504-510), \<^verbatim>\<open>updateLevel\<close> (lines 512-524), the
  invincibility milestones \<^verbatim>\<open>checkInvincibility\<close> (lines 526-544) and
  \<^verbatim>\<open>updateScore\<close> (lines 639-678) with its two loops, the obstacle-passing loop
  (lines 641-654) and the unlock loop (lines 661-667), and the background regeneration of
  line 674 (\<open>regen_background\<close>), which draws a new field of stars and nebulae.
  The lemmas give the exact score a pass over the obstacles awards, the high-score and
  unlock guarantees of \<^verbatim>\<open>updateScore\<close>, the level step and its limits, and the
  invincibility grant.
\<close>

definition getLevelThreshold :: "int \<Rightarrow> int" where
  "getLevelThreshold l =
     (if l = 1 then 50 else if l = 2 then 100 else if l = 3 then 175 else if l = 4 then 275
      else 275 + (l - 4) * 100)"

text \<open>The speed and gap a level sets (lines 517-518; the speed formula recurs at line 986).\<close>

definition level_speed :: "int \<Rightarrow> real" where
  "level_speed l = 2.5 + of_int (l - 1) * 0.2"

definition level_gap :: "int \<Rightarrow> real" where
  "level_gap l = (if 3 \<le> l then max 200 (300 - of_int (l - 2) * 20) else 300)"

definition updateLevel :: "game \<Rightarrow> game" where
  "updateLevel s =
     (if getLevelThreshold (level s) \<le> score s
         \<and> (level s = 1 \<or> score s < getLevelThreshold (level s + 1))
      then show_level (s\<lparr>level := level s + 1, pipeSpeed := level_speed (level s + 1),
             pipeGap := level_gap (level s + 1)\<rparr>)
      else s)"

definition checkInvincibility :: "game \<Rightarrow> game" where
  "checkInvincibility s =
     (let p = player s;
          p1 = (if 250 * (invincibleCount p + 1) \<le> score s \<and> \<not> invincible p \<and> powerUp s = None
                then p\<lparr>invincible := True, invincibleCount := invincibleCount p + 1,
                       invincibleTimer := 900\<rparr>
                else p);
          p2 = (if invincible p1
                then (let p' = p1\<lparr>invincibleTimer := invincibleTimer p1 - 1\<rparr>
                      in if invincibleTimer p' \<le> 0 then p'\<lparr>invincible := False\<rparr> else p')
                else p1)
      in if 250 * (invincibleCount p + 1) \<le> score s \<and> \<not> invincible p \<and> powerUp s = None
         then play PlayPowerUp (s\<lparr>player := p2\<rparr>) else s\<lparr>player := p2\<rparr>)"

text \<open>The loop of lines 641-654 over the obstacles, in array order, with the player's
  \<open>x\<close>, whether a double-score power-up is active, the score, the pipe streak and the
  cues played so far: every bottom obstacle passed plays \<^verbatim>\<open>playPipePass\<close>, after
  \<^verbatim>\<open>playCoinGrab\<close> when it completes a streak of three.\<close>

fun pass_obstacles ::
  "real \<Rightarrow> bool \<Rightarrow> obstacle list \<Rightarrow> int \<Rightarrow> int \<Rightarrow> cue list \<Rightarrow>
     obstacle list \<times> int \<times> int \<times> cue list" where
  "pass_obstacles x dbl [] sc st cs = ([], sc, st, cs)"
| "pass_obstacles x dbl (ob # obs) sc st cs =
     (if ox ob + owidth ob < x \<and> \<not> passed ob then
        (let (sc1, st1, cs1) =
               (if \<not> isTop ob
                then (let sc' = sc + (if dbl then 10 else 5); st' = st + 1
                      in if st' mod 3 = 0 then (sc' + 10, st', cs @ [PlayCoinGrab, PlayPipePass])
                         else (sc', st', cs @ [PlayPipePass]))
                else (sc, st, cs));
             (obs', sc2, st2, cs2) = pass_obstacles x dbl obs sc1 st1 cs1
         in (ob\<lparr>passed := True\<rparr> # obs', sc2, st2, cs2))
      else (let (obs', sc2, st2, cs2) = pass_obstacles x dbl obs sc st cs in (ob # obs', sc2, st2, cs2)))"

text \<open>The loop of lines 661-667: every craft whose threshold the score has reached and
  that is not yet unlocked is unlocked, and the whole array is written to the store.\<close>

fun unlock_loop ::
  "int \<Rightarrow> nat \<Rightarrow> flying_object list \<Rightarrow> bool list \<Rightarrow> js_store \<Rightarrow> bool list \<times> js_store" where
  "unlock_loop sc i [] us st = (us, st)"
| "unlock_loop sc i (fo # fos) us st =
     (if unlockScore fo \<le> sc \<and> \<not> js_at us i
      then (let us' = js_set_true us i in unlock_loop sc (Suc i) fos us' (store_unlocks us' st))
      else unlock_loop sc (Suc i) fos us st)"

text \<open>Line 674: \<^verbatim>\<open>if (score > 0 && score % 200 === 0) resetBackground()\<close>.\<close>

definition regen_background :: "game \<Rightarrow> game" where
  "regen_background s = (if 0 < score s \<and> score s mod 200 = 0 then resetBackground s else s)"

definition updateScore :: "game \<Rightarrow> game" where
  "updateScore s =
     (let (obs, sc, st, cs) = pass_obstacles (px (player s)) (power_is Double (powerUp s))
                                (obstacles s) (score s) (pipeStreak s) (sounds s);
          s1 = show_score (s\<lparr>obstacles := obs, score := sc, pipeStreak := st, sounds := cs\<rparr>);
          s2 = (if js_greater sc (highScore s1)
                then show_high_score sc (s1\<lparr>highScore := Some sc, storage := store_high_score sc (storage s1)\<rparr>)
                else s1);
          (us, stor) = unlock_loop sc 0 flyingObjects (unlocks s2) (storage s2);
          s3 = s2\<lparr>unlocks := us, storage := stor\<rparr>;
          s4 = (if 10000 \<le> sc \<and> \<not> victory s3
                then spawn_particles (canvas_w s3 / 2) (canvas_h s3 / 2) PVictory 50
                       (play PlayVictory (s3\<lparr>victory := True\<rparr>))
                else s3)
      in regen_background (updateLevel s4))"

text \<open>The obstacles a pass over the array scores: trailing edge behind the player, not
  yet passed, and the bottom member of its pair.\<close>

definition newly_passed :: "real \<Rightarrow> obstacle \<Rightarrow> bool" where
  "newly_passed x ob \<longleftrightarrow> ox ob + owidth ob < x \<and> \<not> passed ob \<and> \<not> isTop ob"

abbreviation score_pass :: "game \<Rightarrow> obstacle list \<times> int \<times> int \<times> cue list" where
  "score_pass s \<equiv> pass_obstacles (px (player s)) (power_is Double (powerUp s)) (obstacles s)
                     (score s) (pipeStreak s) (sounds s)"

text \<open>A state at 195 points with the double-score power-up, about to pass one bottom
  obstacle.\<close>

definition demo_jump :: game where
  "demo_jump = demo_game\<lparr>intro := False, score := 195, powerUp := Some \<lparr>ptype = Double, ptimer = 300\<rparr>,
     obstacles := [\<lparr>ox = -100, oheight = 300, isTop = False, owidth = 80, passed = False, rings = []\<rparr>]\<rparr>"

text \<open>The cues a newly passed bottom obstacle plays.\<close>

definition pass_cues :: "int \<Rightarrow> cue list" where
  "pass_cues st = (if (st + 1) mod 3 = 0 then [PlayCoinGrab, PlayPipePass] else [PlayPipePass])"

section \<open>Lemmas\<close>

subsection \<open>The obstacle pass\<close>

lemma pass_obstacles_skip:
  "\<not> newly_passed x ob \<Longrightarrow>
     snd (pass_obstacles x d (ob # obs) sc st cs) = snd (pass_obstacles x d obs sc st cs)"
  by (cases "ox ob + owidth ob < x \<and> \<not> passed ob") (auto simp: newly_passed_def Let_def split_def)

lemma pass_obstacles_take:
  "newly_passed x ob \<Longrightarrow>
     snd (pass_obstacles x d (ob # obs) sc st cs) =
       snd (pass_obstacles x d obs
              (if (st + 1) mod 3 = 0 then sc + (if d then 10 else 5) + 10 else sc + (if d then 10 else 5))
              (st + 1) (cs @ pass_cues st))"
  by (cases "(st + 1) mod 3 = 0") (simp_all add: newly_passed_def Let_def split_def pass_cues_def)

lemma pass_obstacles_streak:
  "fst (snd (snd (pass_obstacles x d obs sc st cs))) = st + int (length (filter (newly_passed x) obs))"
proof (induction obs arbitrary: sc st cs)
  case Nil
  then show ?case by simp
next
  case (Cons ob obs)
  then show ?case
    by (cases "newly_passed x ob")
       (simp_all del: pass_obstacles.simps add: pass_obstacles_skip pass_obstacles_take)
qed

lemma pass_obstacles_cues:
  "snd (snd (snd (pass_obstacles x d obs sc st cs))) =
     cs @ concat (map (\<lambda>k. pass_cues (st + int k)) [0..<length (filter (newly_passed x) obs)])"
proof (induction obs arbitrary: sc st cs)
  case Nil
  then show ?case by simp
next
  case (Cons ob obs)
  have shift: "concat (map (\<lambda>k. pass_cues (st + int k)) [0..<Suc n])
      = pass_cues st @ concat (map (\<lambda>k. pass_cues (st + 1 + int k)) [0..<n])" for n
  proof -
    have "[0..<Suc n] = 0 # map Suc [0..<n]" by (simp add: upt_conv_Cons map_Suc_upt del: upt_Suc)
    then show ?thesis by (simp add: algebra_simps comp_def del: upt_Suc)
  qed
  show ?case
    by (cases "newly_passed x ob")
       (simp_all del: pass_obstacles.simps upt_Suc add: pass_obstacles_skip pass_obstacles_take Cons.IH shift)
qed

lemma streak_bonus: "(if (st + 1) mod 3 = 0 then 10 else 0) = 10 * ((st + 1) div 3 - st div (3::int))"
proof -
  define q where "q = st div 3"
  define r where "r = st mod 3"
  have st: "st = 3 * q + r" and r: "0 \<le> r" "r < 3" by (simp_all add: q_def r_def)
  then consider "r = 0" | "r = 1" | "r = 2" by arith
  then show ?thesis
  proof cases
    case 1
    then show ?thesis unfolding st by simp
  next
    case 2
    then show ?thesis unfolding st by simp
  next
    case 3
    have "3 * q + 2 + 1 = 3 * (q + 1)" by simp
    with 3 show ?thesis unfolding st by simp
  qed
qed

lemma pass_obstacles_score:
  "fst (snd (pass_obstacles x d obs sc st cs)) =
     sc + (fst (snd (snd (pass_obstacles x d obs sc st cs))) - st) * (if d then 10 else 5)
        + 10 * (fst (snd (snd (pass_obstacles x d obs sc st cs))) div 3 - st div 3)"
proof (induction obs arbitrary: sc st cs)
  case Nil
  then show ?case by simp
next
  case (Cons ob obs)
  show ?case
  proof (cases "newly_passed x ob")
    case True
    define v :: int where "v = (if d then 10 else 5)"
    define sc1 where "sc1 = (if (st + 1) mod 3 = 0 then sc + v + 10 else sc + v)"
    define R where "R = snd (pass_obstacles x d obs sc1 (st + 1) (cs @ pass_cues st))"
    have eq: "snd (pass_obstacles x d (ob # obs) sc st cs) = R"
      using True by (simp del: pass_obstacles.simps add: pass_obstacles_take R_def sc1_def v_def)
    have IH: "fst R = sc1 + (fst (snd R) - (st + 1)) * v + 10 * (fst (snd R) div 3 - (st + 1) div 3)"
      unfolding R_def v_def by (rule Cons.IH)
    have "sc1 = sc + v + (if (st + 1) mod 3 = 0 then 10 else 0)"
      by (simp add: sc1_def)
    then have "sc1 = sc + v + 10 * ((st + 1) div 3 - st div 3)"
      by (simp only: streak_bonus)
    with IH have "fst R = sc + (fst (snd R) - st) * v + 10 * (fst (snd R) div 3 - st div 3)"
      by (simp add: algebra_simps)
    then show ?thesis by (simp del: pass_obstacles.simps add: eq v_def)
  next
    case False
    with Cons.IH [of sc st cs] show ?thesis
      by (simp del: pass_obstacles.simps add: pass_obstacles_skip)
  qed
qed

subsection \<open>The unlock loop, the level step and the milestones\<close>

lemma unlock_loop_at:
  "js_at (fst (unlock_loop sc i fos us st)) j \<longleftrightarrow>
     js_at us j \<or> (\<exists>k < length fos. j = i + k \<and> unlockScore (fos ! k) \<le> sc)"
proof (induction fos arbitrary: i us st)
  case Nil
  then show ?case by simp
next
  case (Cons fo fos)
  have shift: "(\<exists>k < length fos. j = Suc i + k \<and> unlockScore (fos ! k) \<le> sc) \<longleftrightarrow>
      (\<exists>k < Suc (length fos). 0 < k \<and> j = i + k \<and> unlockScore ((fo # fos) ! k) \<le> sc)"
    by (auto simp: gr0_conv_Suc)
  have zero: "(\<exists>k < Suc (length fos). j = i + k \<and> unlockScore ((fo # fos) ! k) \<le> sc) \<longleftrightarrow>
      (j = i \<and> unlockScore fo \<le> sc) \<or>
      (\<exists>k < Suc (length fos). 0 < k \<and> j = i + k \<and> unlockScore ((fo # fos) ! k) \<le> sc)"
    by (metis add_0_right gr0I nth_Cons_0 zero_less_Suc)
  show ?case
    using Cons.IH shift zero
    by (auto simp: Let_def js_at_set_true_other)
qed

lemma unlock_loop_store:
  "load_unlocks st = Inr us \<Longrightarrow>
     load_unlocks (snd (unlock_loop sc i fos us st)) = Inr (fst (unlock_loop sc i fos us st))"
  by (induction fos arbitrary: i us st) (auto simp: Let_def load_store_unlocks)

lemma unlock_loop_other_key:
  "k \<noteq> ''unlocks'' \<Longrightarrow> snd (unlock_loop sc i fos us st) k = st k"
  by (induction fos arbitrary: i us st) (auto simp: Let_def store_unlocks_def)

lemma updateLevel_frame [frame_simps]:
  "sounds (updateLevel s) = sounds s"
  "hud_score (hud (updateLevel s)) = hud_score (hud s)" "hud_lives (hud (updateLevel s)) = hud_lives (hud s)"
  "hud_highScore (hud (updateLevel s)) = hud_highScore (hud s)"
  "player (updateLevel s) = player s" "obstacles (updateLevel s) = obstacles s"
  "coins (updateLevel s) = coins s" "particles (updateLevel s) = particles s"
  "score (updateLevel s) = score s" "highScore (updateLevel s) = highScore s"
  "lives (updateLevel s) = lives s" "coinCount (updateLevel s) = coinCount s"
  "pipeStreak (updateLevel s) = pipeStreak s" "powerUp (updateLevel s) = powerUp s"
  "gameOver (updateLevel s) = gameOver s" "intro (updateLevel s) = intro s"
  "victory (updateLevel s) = victory s" "unlocks (updateLevel s) = unlocks s"
  "storage (updateLevel s) = storage s" "frame (updateLevel s) = frame s"
  "lastCollisionTime (updateLevel s) = lastCollisionTime s"
  "lastInputTime (updateLevel s) = lastInputTime s"
  "shakeTimer (updateLevel s) = shakeTimer s" "looping (updateLevel s) = looping s"
  "currentObjectIndex (updateLevel s) = currentObjectIndex s"
  "objectAreas (updateLevel s) = objectAreas s" "lastFrameTime (updateLevel s) = lastFrameTime s"
  "canvas_w (updateLevel s) = canvas_w s" "canvas_h (updateLevel s) = canvas_h s"
  "rng (updateLevel s) = rng s"
  "stars (updateLevel s) = stars s" "nebulas (updateLevel s) = nebulas s"
  by (simp_all add: updateLevel_def)

lemma updateLevel_level: "level s \<le> level (updateLevel s) \<and> level (updateLevel s) \<le> level s + 1"
  by (simp add: updateLevel_def)

lemma checkInvincibility_frame [frame_simps]:
  "hud (checkInvincibility s) = hud s"
  "stars (checkInvincibility s) = stars s" "nebulas (checkInvincibility s) = nebulas s"
  "obstacles (checkInvincibility s) = obstacles s"
  "coins (checkInvincibility s) = coins s" "particles (checkInvincibility s) = particles s"
  "score (checkInvincibility s) = score s" "highScore (checkInvincibility s) = highScore s"
  "level (checkInvincibility s) = level s"
  "lives (checkInvincibility s) = lives s" "coinCount (checkInvincibility s) = coinCount s"
  "pipeStreak (checkInvincibility s) = pipeStreak s" "powerUp (checkInvincibility s) = powerUp s"
  "gameOver (checkInvincibility s) = gameOver s" "intro (checkInvincibility s) = intro s"
  "victory (checkInvincibility s) = victory s" "unlocks (checkInvincibility s) = unlocks s"
  "storage (checkInvincibility s) = storage s" "frame (checkInvincibility s) = frame s"
  "lastCollisionTime (checkInvincibility s) = lastCollisionTime s"
  "lastInputTime (checkInvincibility s) = lastInputTime s"
  "shakeTimer (checkInvincibility s) = shakeTimer s" "looping (checkInvincibility s) = looping s"
  "currentObjectIndex (checkInvincibility s) = currentObjectIndex s"
  "objectAreas (checkInvincibility s) = objectAreas s"
  "lastFrameTime (checkInvincibility s) = lastFrameTime s"
  "canvas_w (checkInvincibility s) = canvas_w s" "canvas_h (checkInvincibility s) = canvas_h s"
  "rng (checkInvincibility s) = rng s" "pipeGap (checkInvincibility s) = pipeGap s"
  "pipeSpeed (checkInvincibility s) = pipeSpeed s"
  "py (player (checkInvincibility s)) = py (player s)"
  "px (player (checkInvincibility s)) = px (player s)"
  "velocity (player (checkInvincibility s)) = velocity (player s)"
  "boost (player (checkInvincibility s)) = boost (player s)"
  by (simp_all add: checkInvincibility_def Let_def)

subsection \<open>\<^verbatim>\<open>updateScore\<close> field by field\<close>

lemma unlock_loop_fst_store:
  "fst (unlock_loop sc i fos us st) = fst (unlock_loop sc i fos us st')"
  by (induction fos arbitrary: i us st st') (auto simp: Let_def)

lemma updateScore_upd:
  "updateScore s =
     (let sc = fst (snd (score_pass s)); hs = js_greater sc (highScore s);
          store0 = (if hs then store_high_score sc (storage s) else storage s);
          ul = unlock_loop sc 0 flyingObjects (unlocks s) store0;
          s3 = s\<lparr>obstacles := fst (score_pass s), score := sc,
                  pipeStreak := fst (snd (snd (score_pass s))), sounds := snd (snd (snd (score_pass s))),
                  highScore := (if hs then Some sc else highScore s),
                  hud := (hud s)\<lparr>hud_score := Some (js_string_of_int sc),
                    hud_highScore := (if hs then js_string_of_int sc else hud_highScore (hud s))\<rparr>,
                  unlocks := fst ul, storage := snd ul\<rparr>
      in regen_background (updateLevel (if 10000 \<le> sc \<and> \<not> victory s
                      then spawn_particles (canvas_w s / 2) (canvas_h s / 2) PVictory 50
                             (play PlayVictory (s3\<lparr>victory := True\<rparr>))
                      else s3)))"
  by (cases "js_greater (fst (snd (score_pass s))) (highScore s)")
     (simp_all add: updateScore_def Let_def split_def del: spawn_particles_upd)

lemma regen_background_upd [simp]:
  "regen_background s =
     (if 0 < score s \<and> score s mod 200 = 0
      then s\<lparr>stars := fst (make_background (canvas_w s) (canvas_h s) (rng s)),
             nebulas := fst (snd (make_background (canvas_w s) (canvas_h s) (rng s))),
             rng := snd (snd (make_background (canvas_w s) (canvas_h s) (rng s)))\<rparr>
      else s)"
  by (simp add: regen_background_def)

lemma updateScore_frame [frame_simps]:
  "hud_lives (hud (updateScore s)) = hud_lives (hud s)"
  "player (updateScore s) = player s" "coins (updateScore s) = coins s"
  "lives (updateScore s) = lives s" "coinCount (updateScore s) = coinCount s"
  "powerUp (updateScore s) = powerUp s"
  "gameOver (updateScore s) = gameOver s" "intro (updateScore s) = intro s"
  "frame (updateScore s) = frame s"
  "lastCollisionTime (updateScore s) = lastCollisionTime s"
  "lastInputTime (updateScore s) = lastInputTime s"
  "shakeTimer (updateScore s) = shakeTimer s" "looping (updateScore s) = looping s"
  "currentObjectIndex (updateScore s) = currentObjectIndex s"
  "objectAreas (updateScore s) = objectAreas s"
  "lastFrameTime (updateScore s) = lastFrameTime s"
  "canvas_w (updateScore s) = canvas_w s" "canvas_h (updateScore s) = canvas_h s"
  "rnd_src (rng (updateScore s)) = rnd_src (rng s)"
  by (simp_all add: updateScore_upd Let_def frame_simps)

text \<open>The score field shows the new score after \<^verbatim>\<open>updateScore\<close>, the high score
  field reads back as the high score, and the level field keeps showing the level.\<close>

lemma updateScore_shows_score: "hud_score (hud (updateScore s)) = Some (js_string_of_int (score (updateScore s)))"
  by (simp add: updateScore_upd Let_def frame_simps)

lemma updateScore_shows_high_score:
  "js_to_number (hud_highScore (hud s)) = highScore s \<Longrightarrow>
     js_to_number (hud_highScore (hud (updateScore s))) = highScore (updateScore s)"
  by (simp add: updateScore_upd Let_def frame_simps js_to_number_string_of_int)

lemma updateLevel_shows_level:
  "hud_level (hud s) = js_string_of_int (level s) \<Longrightarrow>
     hud_level (hud (updateLevel s)) = js_string_of_int (level (updateLevel s))"
  by (simp add: updateLevel_def)

lemma updateScore_shows_level:
  "hud_level (hud s) = js_string_of_int (level s) \<Longrightarrow>
     hud_level (hud (updateScore s)) = js_string_of_int (level (updateScore s))"
  by (simp add: updateScore_upd Let_def updateLevel_def)

lemma updateScore_score: "score (updateScore s) = fst (snd (score_pass s))"
  by (simp add: updateScore_upd Let_def frame_simps)

lemma updateScore_streak: "pipeStreak (updateScore s) = fst (snd (snd (score_pass s)))"
  by (simp add: updateScore_upd Let_def frame_simps)

lemma updateScore_obstacles: "obstacles (updateScore s) = fst (score_pass s)"
  by (simp add: updateScore_upd Let_def frame_simps)

lemma updateScore_highScore:
  "highScore (updateScore s) =
     (if js_greater (score (updateScore s)) (highScore s) then Some (score (updateScore s))
      else highScore s)"
  by (simp add: updateScore_score) (simp add: updateScore_upd Let_def frame_simps)

lemma updateScore_unlocks:
  "unlocks (updateScore s) =
     fst (unlock_loop (score (updateScore s)) 0 flyingObjects (unlocks s) (storage s))"
proof -
  have "unlocks (updateScore s) =
          fst (unlock_loop (score (updateScore s)) 0 flyingObjects (unlocks s)
            (if js_greater (score (updateScore s)) (highScore s)
             then store_high_score (score (updateScore s)) (storage s) else storage s))"
    by (simp add: updateScore_score) (simp add: updateScore_upd Let_def frame_simps)
  then show ?thesis by (metis unlock_loop_fst_store)
qed

lemma updateScore_victory:
  "victory (updateScore s) = (victory s \<or> 10000 \<le> score (updateScore s))"
  by (simp add: updateScore_score) (auto simp: updateScore_upd Let_def frame_simps)

lemma updateScore_storage:
  "storage (updateScore s) =
     snd (unlock_loop (score (updateScore s)) 0 flyingObjects (unlocks s)
       (if js_greater (score (updateScore s)) (highScore s)
        then store_high_score (score (updateScore s)) (storage s) else storage s))"
  by (simp add: updateScore_score) (simp add: updateScore_upd Let_def frame_simps)

lemma updateScore_level:
  "level s \<le> level (updateScore s) \<and> level (updateScore s) \<le> level s + 1"
proof -
  have "\<exists>X. updateScore s = regen_background (updateLevel X) \<and> level X = level s"
    unfolding updateScore_upd Let_def by (intro exI conjI, rule refl) simp
  then obtain X where "updateScore s = regen_background (updateLevel X)" and "level X = level s"
    by blast
  with updateLevel_level [of X] show ?thesis by simp
qed

lemma load_high_score_unlock_loop [simp]:
  "load_high_score (snd (unlock_loop sc i fos us st)) = load_high_score st"
  by (simp add: load_high_score_def unlock_loop_other_key)

lemma updateScore_persisted:
  assumes "load_unlocks (storage s) = Inr (unlocks s)" and "load_high_score (storage s) = highScore s"
  shows "load_unlocks (storage (updateScore s)) = Inr (unlocks (updateScore s)) \<and>
         load_high_score (storage (updateScore s)) = highScore (updateScore s)"
proof -
  let ?sc = "score (updateScore s)"
  let ?st0 = "if js_greater ?sc (highScore s) then store_high_score ?sc (storage s) else storage s"
  have u0: "load_unlocks ?st0 = Inr (unlocks s)" using assms(1) by simp
  have "load_unlocks (snd (unlock_loop ?sc 0 flyingObjects (unlocks s) ?st0)) =
          Inr (fst (unlock_loop ?sc 0 flyingObjects (unlocks s) ?st0))"
    by (rule unlock_loop_store [OF u0])
  then have "load_unlocks (storage (updateScore s)) = Inr (unlocks (updateScore s))"
    by (simp add: updateScore_storage updateScore_unlocks unlock_loop_fst_store [of _ _ _ _ ?st0 "storage s"])
  moreover have "load_high_score (storage (updateScore s)) = highScore (updateScore s)"
    using assms(2) by (simp add: updateScore_storage updateScore_highScore load_store_high_score)
  ultimately show ?thesis ..
qed

lemma pass_obstacles_all:
  "list_all P obs \<Longrightarrow> (\<And>ob. P ob \<Longrightarrow> P (ob\<lparr>passed := True\<rparr>)) \<Longrightarrow>
     list_all P (fst (pass_obstacles x d obs sc st cs))"
  by (induction obs arbitrary: sc st cs) (simp_all add: split_def Let_def)

subsection \<open>The cues of \<^verbatim>\<open>updateScore\<close>\<close>

lemma plays_concat: "plays c (concat (map f xs)) = sum_list (map (\<lambda>x. plays c (f x)) xs)"
  by (induction xs) simp_all

lemma sum_list_ones [simp]: "(\<Sum>x\<leftarrow>xs. Suc 0) = length xs"
  by (induction xs) simp_all

lemma plays_pass_cues [simp]:
  "plays PlayPipePass (pass_cues st) = 1" "plays PlayVictory (pass_cues st) = 0"
  by (simp_all add: pass_cues_def)

lemma updateScore_sounds_eq:
  "sounds (updateScore s) = snd (snd (snd (score_pass s)))
     @ (if 10000 \<le> score (updateScore s) \<and> \<not> victory s then [PlayVictory] else [])"
  by (simp add: updateScore_upd Let_def frame_simps)

section \<open>Properties\<close>

text \<open>\<^verbatim>\<open>updateScore\<close> ends with the background check of line 674, on a state that
  still has the old background, the new score and a generator on the same stream.\<close>

lemma updateScore_regen:
  obtains t where "updateScore s = regen_background t" "score t = fst (snd (score_pass s))"
    "stars t = stars s" "nebulas t = nebulas s" "canvas_w t = canvas_w s" "canvas_h t = canvas_h s"
    "rnd_src (rng t) = rnd_src (rng s)"
proof -
  let ?sc = "fst (snd (score_pass s))"
  let ?hs = "js_greater ?sc (highScore s)"
  let ?ul = "unlock_loop ?sc 0 flyingObjects (unlocks s)
               (if ?hs then store_high_score ?sc (storage s) else storage s)"
  let ?s3 = "s\<lparr>obstacles := fst (score_pass s), score := ?sc,
               pipeStreak := fst (snd (snd (score_pass s))), sounds := snd (snd (snd (score_pass s))),
               highScore := (if ?hs then Some ?sc else highScore s),
               hud := (hud s)\<lparr>hud_score := Some (js_string_of_int ?sc),
                 hud_highScore := (if ?hs then js_string_of_int ?sc else hud_highScore (hud s))\<rparr>,
               unlocks := fst ?ul, storage := snd ?ul\<rparr>"
  let ?t = "updateLevel (if 10000 \<le> ?sc \<and> \<not> victory s
              then spawn_particles (canvas_w s / 2) (canvas_h s / 2) PVictory 50
                     (play PlayVictory (?s3\<lparr>victory := True\<rparr>))
              else ?s3)"
  have "updateScore s = regen_background ?t" by (simp only: updateScore_upd Let_def)
  moreover have "score ?t = ?sc" "stars ?t = stars s" "nebulas ?t = nebulas s"
    "canvas_w ?t = canvas_w s" "canvas_h ?t = canvas_h s" "rnd_src (rng ?t) = rnd_src (rng s)"
    by (simp_all add: frame_simps del: regen_background_upd)
  ultimately show ?thesis by (rule that)
qed

text \<open>C11: when the high score is a number, \<^verbatim>\<open>updateScore\<close> leaves it at the larger of
  the previous high score and the new score (spec section 8: highScore = max(prev, score)).\<close>

theorem updateScore_high_score_max:
  assumes "highScore s = Some h"
  shows "highScore (updateScore s) = Some (max h (score (updateScore s)))"
  using assms by (auto simp: updateScore_highScore js_greater_def max_def)

theorem updateScore_high_score_max_witness:
  "highScore demo_game = Some 0 \<and>
   highScore (updateScore demo_game) = Some (max 0 (score (updateScore demo_game)))"
  using updateScore_high_score_max [of demo_game 0] by simp

text \<open>C31: a high score read from the store as \<^verbatim>\<open>NaN\<close> (a text that is not a number) is
  never replaced: \<^verbatim>\<open>score > highScore\<close> is false for every score, so neither the
  in-memory value nor the stored text changes, contrary to the spec's fallback to 0.\<close>

theorem updateScore_nan_high_score:
  assumes "highScore s = None"
  shows "highScore (updateScore s) = None \<and> storage (updateScore s) ''highScore'' = storage s ''highScore''"
  using assms by (simp add: updateScore_highScore updateScore_storage js_greater_def unlock_loop_other_key)

theorem updateScore_nan_high_score_witness:
  "highScore (demo_game\<lparr>highScore := None\<rparr>) = None \<and>
   highScore (updateScore (demo_game\<lparr>highScore := None\<rparr>)) = None \<and>
   storage (updateScore (demo_game\<lparr>highScore := None\<rparr>)) ''highScore'' = storage (demo_game\<lparr>highScore := None\<rparr>) ''highScore''"
  using updateScore_nan_high_score [of "demo_game\<lparr>highScore := None\<rparr>"] by simp

text \<open>C10: the score after \<^verbatim>\<open>updateScore\<close> is the old score plus 5 (10 with a double-score
  power-up) for every bottom obstacle newly passed, plus 10 for every multiple of 3 the
  pipe streak crosses; top obstacles and obstacles already passed score nothing.\<close>

theorem updateScore_score_exact:
  "score (updateScore s) =
     score s + int (length (filter (newly_passed (px (player s))) (obstacles s)))
                 * (if power_is Double (powerUp s) then 10 else 5)
     + 10 * ((pipeStreak s + int (length (filter (newly_passed (px (player s))) (obstacles s)))) div 3
             - pipeStreak s div 3)"
  by (simp add: updateScore_score pass_obstacles_score [of _ _ _ "score s"] pass_obstacles_streak)

text \<open>C12: after \<^verbatim>\<open>updateScore\<close> a craft is unlocked exactly when it was unlocked before
  or its unlock score is at most the new score: unlocks are irreversible and granted as
  soon as the threshold is reached.\<close>

theorem updateScore_unlock_iff:
  "js_at (unlocks (updateScore s)) i \<longleftrightarrow>
     js_at (unlocks s) i \<or>
     (i < length flyingObjects \<and> unlockScore (flyingObjects ! i) \<le> score (updateScore s))"
  by (simp add: updateScore_unlocks unlock_loop_at)

text \<open>At level 1, once the score reaches 50 (for instance from 49 to 51 in one frame),
  \<^verbatim>\<open>updateLevel\<close> moves to level 2 with obstacle speed 2.7 and gap 300.\<close>

theorem updateLevel_first_level:
  assumes "level s = 1" and "50 \<le> score s"
  shows "level (updateLevel s) = 2 \<and> pipeSpeed (updateLevel s) = 2.7 \<and> pipeGap (updateLevel s) = 300"
  using assms by (simp add: updateLevel_def getLevelThreshold_def level_speed_def level_gap_def)

theorem updateLevel_first_level_witness:
  "level (demo_game\<lparr>score := 51\<rparr>) = 1 \<and> 50 \<le> score (demo_game\<lparr>score := 51\<rparr>) \<and>
   level (updateLevel (demo_game\<lparr>score := 51\<rparr>)) = 2 \<and> pipeSpeed (updateLevel (demo_game\<lparr>score := 51\<rparr>)) = 2.7 \<and>
   pipeGap (updateLevel (demo_game\<lparr>score := 51\<rparr>)) = 300"
  using updateLevel_first_level [of "demo_game\<lparr>score := 51\<rparr>"] by simp

text \<open>C30: from level 2 on, if the score has already reached the threshold of the next level,
  \<^verbatim>\<open>updateLevel\<close> does nothing: the level is stuck for good once a frame's score
  gain skips a whole level band, where the spec promises one step per crossing.\<close>

theorem updateLevel_stuck:
  assumes "2 \<le> level s" and "getLevelThreshold (level s + 1) \<le> score s"
  shows "updateLevel s = s"
  using assms by (simp add: updateLevel_def)

theorem updateLevel_stuck_witness:
  "2 \<le> level (demo_game\<lparr>level := 2, score := 180\<rparr>) \<and>
   getLevelThreshold (level (demo_game\<lparr>level := 2, score := 180\<rparr>) + 1) \<le> score (demo_game\<lparr>level := 2, score := 180\<rparr>) \<and>
   updateLevel (demo_game\<lparr>level := 2, score := 180\<rparr>) = demo_game\<lparr>level := 2, score := 180\<rparr>"
  using updateLevel_stuck [of "demo_game\<lparr>level := 2, score := 180\<rparr>"] by (simp add: getLevelThreshold_def)

text \<open>When the score has reached the next multiple of 250, the player is not invincible
  and no power-up is active, \<^verbatim>\<open>checkInvincibility\<close> grants invincibility, counts the
  milestone once, and leaves 899 frames on the timer (the grant's own frame already
  decrements the 900).\<close>

theorem checkInvincibility_grant:
  assumes "\<not> invincible (player s)" and "powerUp s = None"
    and "250 * (invincibleCount (player s) + 1) \<le> score s"
  shows "invincible (player (checkInvincibility s)) \<and>
         invincibleCount (player (checkInvincibility s)) = invincibleCount (player s) + 1 \<and>
         invincibleTimer (player (checkInvincibility s)) = 899"
  using assms by (simp add: checkInvincibility_def Let_def)

theorem checkInvincibility_grant_witness:
  "\<not> invincible (player (demo_game\<lparr>score := 250\<rparr>)) \<and> powerUp (demo_game\<lparr>score := 250\<rparr>) = None \<and>
   250 * (invincibleCount (player (demo_game\<lparr>score := 250\<rparr>)) + 1) \<le> score (demo_game\<lparr>score := 250\<rparr>) \<and>
   invincible (player (checkInvincibility (demo_game\<lparr>score := 250\<rparr>))) \<and>
   invincibleCount (player (checkInvincibility (demo_game\<lparr>score := 250\<rparr>))) = 1 \<and>
   invincibleTimer (player (checkInvincibility (demo_game\<lparr>score := 250\<rparr>))) = 899"
  using checkInvincibility_grant [of "demo_game\<lparr>score := 250\<rparr>"] by simp

text \<open>C32: while any power-up is held, including a blast whose timer has run out and that
  is never cleared, \<^verbatim>\<open>checkInvincibility\<close> grants no invincibility milestone and
  changes nothing.\<close>

theorem checkInvincibility_blocked:
  assumes "powerUp s \<noteq> None" and "\<not> invincible (player s)"
  shows "checkInvincibility s = s"
proof -
  have ng: "\<not> (250 * (invincibleCount (player s) + 1) \<le> score s \<and> \<not> invincible (player s) \<and> powerUp s = None)"
    using assms(1) by simp
  show ?thesis using assms(2) unfolding checkInvincibility_def Let_def if_not_P [OF ng] by simp
qed

theorem checkInvincibility_blocked_witness:
  "powerUp (demo_game\<lparr>score := 500, powerUp := Some \<lparr>ptype = Blast, ptimer = 0\<rparr>\<rparr>) \<noteq> None \<and>
   \<not> invincible (player (demo_game\<lparr>score := 500, powerUp := Some \<lparr>ptype = Blast, ptimer = 0\<rparr>\<rparr>)) \<and>
   checkInvincibility (demo_game\<lparr>score := 500, powerUp := Some \<lparr>ptype = Blast, ptimer = 0\<rparr>\<rparr>) =
     demo_game\<lparr>score := 500, powerUp := Some \<lparr>ptype = Blast, ptimer = 0\<rparr>\<rparr>"
  using checkInvincibility_blocked [of "demo_game\<lparr>score := 500, powerUp := Some \<lparr>ptype = Blast, ptimer = 0\<rparr>\<rparr>"] by simp

text \<open>C14: when \<^verbatim>\<open>updateScore\<close> leaves the score on a positive multiple of 200,
  the background is replaced by a fresh one: its stars, nebulae and the generator are
  exactly what \<^verbatim>\<open>resetBackground\<close> makes from the stream at some position. The
  test of line 674 looks at the score, not at a crossing, so this happens on every frame
  that ends on such a score, also when the score did not change.\<close>

theorem updateScore_background_reset:
  assumes "0 < score (updateScore s)" and "score (updateScore s) mod 200 = 0"
  shows "\<exists>r. rnd_src r = rnd_src (rng s) \<and>
           (stars (updateScore s), nebulas (updateScore s), rng (updateScore s)) =
             make_background (canvas_w s) (canvas_h s) r"
proof -
  obtain t where t: "updateScore s = regen_background t" "score t = fst (snd (score_pass s))"
      "canvas_w t = canvas_w s" "canvas_h t = canvas_h s" "rnd_src (rng t) = rnd_src (rng s)"
    by (rule updateScore_regen)
  have "score (updateScore s) = score t" using t(2) by (simp only: updateScore_score)
  then have "0 < score t \<and> score t mod 200 = 0" using assms by simp
  then show ?thesis using t by (intro exI [of _ "rng t"]) (simp add: regen_background_def)
qed

theorem updateScore_background_reset_witness:
  "0 < score (updateScore (demo_game\<lparr>intro := False, score := 200\<rparr>))
   \<and> score (updateScore (demo_game\<lparr>intro := False, score := 200\<rparr>)) mod 200 = 0
   \<and> (\<exists>r. rnd_src r = rnd_src (rng (demo_game\<lparr>intro := False, score := 200\<rparr>)) \<and>
        (stars (updateScore (demo_game\<lparr>intro := False, score := 200\<rparr>)),
         nebulas (updateScore (demo_game\<lparr>intro := False, score := 200\<rparr>)),
         rng (updateScore (demo_game\<lparr>intro := False, score := 200\<rparr>))) =
          make_background 400 800 r)"
  using updateScore_background_reset [of "demo_game\<lparr>intro := False, score := 200\<rparr>"]
  by (simp add: updateScore_score)

text \<open>C15: when \<^verbatim>\<open>updateScore\<close> does not end on a positive multiple of 200, the
  background is left as it was. A frame whose gain jumps over a multiple of 200 (from 195
  to 205 with the double-score power-up) therefore never regenerates it, although the spec
  renews the background every 200 points.\<close>

theorem updateScore_background_kept:
  assumes "\<not> (0 < score (updateScore s) \<and> score (updateScore s) mod 200 = 0)"
  shows "stars (updateScore s) = stars s \<and> nebulas (updateScore s) = nebulas s"
proof -
  obtain t where t: "updateScore s = regen_background t" "score t = fst (snd (score_pass s))"
      "stars t = stars s" "nebulas t = nebulas s"
    by (rule updateScore_regen)
  have "score (updateScore s) = score t" using t(2) by (simp only: updateScore_score)
  then have "\<not> (0 < score t \<and> score t mod 200 = 0)" using assms by simp
  then have "regen_background t = t" unfolding regen_background_def by (rule if_not_P)
  then show ?thesis using t(1,3,4) by (simp del: regen_background_upd)
qed

theorem updateScore_background_kept_witness:
  "\<not> (0 < score (updateScore demo_jump) \<and> score (updateScore demo_jump) mod 200 = 0)
   \<and> score demo_jump < 200 \<and> 200 < score (updateScore demo_jump)
   \<and> stars (updateScore demo_jump) = stars demo_jump \<and> nebulas (updateScore demo_jump) = nebulas demo_jump"
  using updateScore_background_kept [of demo_jump]
  by (simp add: updateScore_score demo_jump_def power_is_def fresh_player_def)

text \<open>C17: the cues of \<^verbatim>\<open>updateScore\<close>: it only adds cues after those already
  played, one \<^verbatim>\<open>playPipePass\<close> for every bottom obstacle newly passed, and
  \<^verbatim>\<open>playVictory\<close> exactly once, in the frame that first reaches 10000 points.\<close>

theorem updateScore_sounds:
  "\<exists>ds. sounds (updateScore s) = sounds s @ ds
     \<and> plays PlayPipePass ds = length (filter (newly_passed (px (player s))) (obstacles s))
     \<and> plays PlayVictory ds = (if 10000 \<le> score (updateScore s) \<and> \<not> victory s then 1 else 0)"
  by (simp add: updateScore_sounds_eq pass_obstacles_cues plays_concat comp_def)

end
