(* ===== verification/Collision.thy ===== *)
theory Collision
  imports GameState
begin

text \<open>
  The collision and pickup resolver \<^verbatim>\<open>detectCollision\<close> of \<^verbatim>\<open>src/js/script.js\<close>
  (lines 546-637), split along the code's own passes: the 200 ms debounce (line 548),
  the pickup loop over the collectibles from the last to the first (lines 550-585,
  \<open>pickup_coins\<close> with the effect of one pickup in \<open>collect_coin\<close>), the
  invincibility exit (line 587), the hazard test against the canvas bounds and the
  obstacles (lines 589-602, \<open>collision_detected\<close>), its three consequences (lines
  604-627, \<open>crash\<close>), and the blast effect (lines 629-633). The lemmas show which
  fields each pass writes, that lives stay within \<open>[0, 5]\<close> with game over exactly at
  0, that the lives field of the page follows the lives, which sound cues are played, and
  the behaviour of each branch.
\<close>

definition coin_hit :: "player \<Rightarrow> coin \<Rightarrow> bool" where
  "coin_hit p c \<longleftrightarrow>
     px p < cx c + coinSize \<and> px p + pwidth p > cx c \<and>
     py p < cy c + coinSize \<and> py p + pheight p > cy c"

text \<open>The effect of picking up one collectible (lines 558-582). A heart at full lives
  matches no branch: it is consumed without effect.\<close>

definition collect_coin :: "coin \<Rightarrow> game \<Rightarrow> game" where
  "collect_coin c s =
     (case ctype c of
        PowerUp \<Rightarrow>
          (let (rnd, s1) = draw s
           in spawn_particles (cx c) (cy c) PCoin 10 (play PlayPowerUp (s1\<lparr>powerUp := Some (roll_power_up rnd)\<rparr>)))
      | Heart \<Rightarrow>
          (if lives s < maxLives
           then spawn_particles (cx c) (cy c) PHeart 10 (play PlayHeartGrab (show_lives (s\<lparr>lives := lives s + 1\<rparr>)))
           else s)
      | Coin \<Rightarrow>
          (let s1 = spawn_particles (cx c) (cy c) PCoin 10
                      (play PlayCoinGrab
                        (s\<lparr>score := score s + (if power_is Double (powerUp s) then 20 else 10),
                           coinCount := coinCount s + 1\<rparr>))
           in if 5 \<le> coinCount s1
              then play PlayFullSendShout
                     (s1\<lparr>player := (player s1)\<lparr>boost := True, boostTimer := 200\<rparr>, coinCount := 0\<rparr>)
              else s1))"

text \<open>The loop \<^verbatim>\<open>for (i = coins.length - 1; i >= 0; i--)\<close> with \<^verbatim>\<open>splice\<close>:
  it runs over the reversed array; the collectibles not picked up are collected in
  their original order and become the new array.\<close>

fun pickup_coins :: "coin list \<Rightarrow> coin list \<Rightarrow> game \<Rightarrow> game" where
  "pickup_coins [] kept s = s\<lparr>coins := kept\<rparr>"
| "pickup_coins (c # cs) kept s =
     (if coin_hit (player s) c then pickup_coins cs kept (collect_coin c s)
      else pickup_coins cs (c # kept) s)"

definition pickup_pass :: "game \<Rightarrow> game" where
  "pickup_pass s = pickup_coins (rev (coins s)) [] s"

text \<open>The loop as the code runs it: an index from \<^verbatim>\<open>coins.length - 1\<close> down to 0,
  removing a collectible it picks up with \<^verbatim>\<open>coins.splice(i, 1)\<close>. The index falls
  by one in every round, which is the measure of the termination proof.\<close>

function (domintros) pickup_loop :: "int \<Rightarrow> game \<Rightarrow> game" where
  "pickup_loop i s =
     (if i < 0 then s
      else (let c = coins s ! nat i
            in if coin_hit (player s) c
               then (let s1 = collect_coin c s
                     in pickup_loop (i - 1)
                          (s1\<lparr>coins := take (nat i) (coins s1) @ drop (Suc (nat i)) (coins s1)\<rparr>))
               else pickup_loop (i - 1) s))"
  by pat_completeness auto
termination by (relation "measure (\<lambda>(i, s). nat (i + 1))") auto

definition obstacle_hit :: "player \<Rightarrow> real \<Rightarrow> obstacle \<Rightarrow> bool" where
  "obstacle_hit p ch ob \<longleftrightarrow>
     px p + pwidth p > ox ob \<and> px p < ox ob + owidth ob \<and>
     ((isTop ob \<and> py p < oheight ob) \<or> (\<not> isTop ob \<and> py p + pheight p > ch - oheight ob))"

definition collision_detected :: "game \<Rightarrow> bool" where
  "collision_detected s \<longleftrightarrow>
     py (player s) + pheight (player s) > canvas_h s \<or> py (player s) < 0 \<or>
     list_ex (obstacle_hit (player s) (canvas_h s)) (obstacles s)"

text \<open>Lines 605-626: a shield absorbs the hit; otherwise a life is lost and the player
  is re-centred with the obstacles ahead of it removed; the last life ends the game.\<close>

definition crash :: "ms \<Rightarrow> game \<Rightarrow> game" where
  "crash now s =
     (let s0 = s\<lparr>lastCollisionTime := now\<rparr>; p = player s0
      in if power_is Shield (powerUp s0)
         then play PlayCrash (spawn_particles (px p + pwidth p / 2) (py p + pheight p / 2) PCrash 20
                (s0\<lparr>powerUp := None\<rparr>))
         else if 1 < lives s0
         then (let p' = p\<lparr>py := canvas_h s0 / 2, velocity := 0\<rparr>;
                   s1 = (show_lives (s0\<lparr>lives := lives s0 - 1\<rparr>))\<lparr>player := p',
                          obstacles := filter (\<lambda>ob. ox ob + owidth ob < px p') (obstacles s0)\<rparr>
               in (play PlayCrash (spawn_particles (px p' + pwidth p' / 2) (py p' + pheight p' / 2) PCrash 20 s1))
                    \<lparr>shakeTimer := 10\<rparr>)
         else (play PlayCrash (spawn_particles (px p + pwidth p / 2) (py p + pheight p / 2) PCrash 20
                 ((show_lives (s0\<lparr>lives := 0\<rparr>))\<lparr>gameOver := True\<rparr>)))\<lparr>shakeTimer := 10\<rparr>)"

definition blast_effect :: "game \<Rightarrow> game" where
  "blast_effect s =
     (case powerUp s of
        Some pu \<Rightarrow>
          (if ptype pu = Blast \<and> 0 < ptimer pu
           then spawn_particles (canvas_w s / 2) (canvas_h s / 2) PCrash 10
                  (s\<lparr>obstacles := [], powerUp := Some (pu\<lparr>ptimer := ptimer pu - 1\<rparr>)\<rparr>)
           else s)
      | None \<Rightarrow> s)"

definition detectCollision :: "ms \<Rightarrow> game \<Rightarrow> game" where
  "detectCollision now s =
     (if now - lastCollisionTime s < 200 then s
      else (let s1 = pickup_loop (int (length (coins s)) - 1) s
            in if invincible (player s1) then s1
               else blast_effect (if collision_detected s1 then crash now s1 else s1)))"

text \<open>The fields the resolver never writes, as one tuple.\<close>

definition coll_frame where
  "coll_frame s = (intro s, victory s, level s, highScore s, unlocks s, storage s,
     currentObjectIndex s, frame s, lastInputTime s, looping s, lastFrameTime s, canvas_w s,
     canvas_h s, objectAreas s, pipeGap s, pipeSpeed s, pipeStreak s, stars s, nebulas s,
     hud_score (hud s), hud_level (hud s), hud_highScore (hud s), rnd_src (rng s))"

text \<open>Lives within \<open>[0, maxLives]\<close>, and the game over exactly when none is left.\<close>

definition lives_ok :: "game \<Rightarrow> bool" where
  "lives_ok s \<longleftrightarrow> 0 \<le> lives s \<and> lives s \<le> maxLives \<and> (gameOver s \<longleftrightarrow> lives s = 0)"

text \<open>The lives field of the page shows the lives.\<close>

definition lives_shown :: "game \<Rightarrow> bool" where
  "lives_shown s \<longleftrightarrow> hud_lives (hud s) = js_string_of_int (lives s)"

text \<open>Concrete states for the witnesses, from \<open>demo_game\<close>: a player above the canvas
  on the last life, the same with a shield, a coin overlapping the player just after a
  collision, a fifth coin, and a heart at full lives.\<close>

definition demo_crash :: game where
  "demo_crash = demo_game\<lparr>lives := 1, player := (player demo_game)\<lparr>py := -10\<rparr>\<rparr>"

definition demo_shield :: game where
  "demo_shield = demo_crash\<lparr>powerUp := Some \<lparr>ptype = Shield, ptimer = 300\<rparr>\<rparr>"

definition demo_debounce :: game where
  "demo_debounce = demo_game\<lparr>lastCollisionTime := 1000,
     coins := [\<lparr>cx = 60, cy = 410, ctype = Coin\<rparr>]\<rparr>"

definition demo_coins :: game where
  "demo_coins = demo_game\<lparr>coinCount := 4, coins := [\<lparr>cx = 60, cy = 410, ctype = Coin\<rparr>]\<rparr>"

definition demo_heart :: game where
  "demo_heart = demo_game\<lparr>lives := 5, coins := [\<lparr>cx = 60, cy = 410, ctype = Heart\<rparr>]\<rparr>"

section \<open>Lemmas\<close>



lemma collect_coin_frame: "coll_frame (collect_coin c s) = coll_frame s"
  by (cases "ctype c") (simp_all add: collect_coin_def coll_frame_def Let_def split_def)

lemma collect_coin_gameOver: "gameOver (collect_coin c s) = gameOver s"
  by (cases "ctype c") (simp_all add: collect_coin_def Let_def split_def)

lemma collect_coin_obstacles: "obstacles (collect_coin c s) = obstacles s"
  by (cases "ctype c") (simp_all add: collect_coin_def Let_def split_def)

lemma collect_coin_lives:
  "1 \<le> lives s \<Longrightarrow> lives s \<le> maxLives \<Longrightarrow>
     1 \<le> lives (collect_coin c s) \<and> lives (collect_coin c s) \<le> maxLives"
  by (cases "ctype c") (simp_all add: collect_coin_def Let_def split_def)

lemma collect_coin_score: "score s \<le> score (collect_coin c s)"
  by (cases "ctype c") (simp_all add: collect_coin_def Let_def split_def)

lemma collect_coin_pos:
  "px (player (collect_coin c s)) = px (player s) \<and> py (player (collect_coin c s)) = py (player s)
   \<and> pwidth (player (collect_coin c s)) = pwidth (player s)
   \<and> pheight (player (collect_coin c s)) = pheight (player s)
   \<and> invincible (player (collect_coin c s)) = invincible (player s)"
  by (cases "ctype c") (simp_all add: collect_coin_def Let_def split_def)

lemma coll_frame_coins [simp]: "coll_frame (s\<lparr>coins := x\<rparr>) = coll_frame s"
  by (simp add: coll_frame_def)

lemma pickup_coins_frame: "coll_frame (pickup_coins cs kept s) = coll_frame s"
  by (induction cs arbitrary: kept s) (simp_all add: collect_coin_frame)

lemma pickup_coins_gameOver: "gameOver (pickup_coins cs kept s) = gameOver s"
  by (induction cs arbitrary: kept s) (simp_all add: collect_coin_gameOver)

lemma pickup_coins_obstacles: "obstacles (pickup_coins cs kept s) = obstacles s"
  by (induction cs arbitrary: kept s) (simp_all add: collect_coin_obstacles)

lemma pickup_coins_lives:
  "1 \<le> lives s \<Longrightarrow> lives s \<le> maxLives \<Longrightarrow>
     1 \<le> lives (pickup_coins cs kept s) \<and> lives (pickup_coins cs kept s) \<le> maxLives"
  by (induction cs arbitrary: kept s) (simp_all add: collect_coin_lives)

lemma pickup_coins_score: "score s \<le> score (pickup_coins cs kept s)"
  by (induction cs arbitrary: kept s) (auto intro: order_trans [OF collect_coin_score])

lemma pickup_coins_pos:
  "px (player (pickup_coins cs kept s)) = px (player s) \<and> py (player (pickup_coins cs kept s)) = py (player s)
   \<and> pwidth (player (pickup_coins cs kept s)) = pwidth (player s)
   \<and> pheight (player (pickup_coins cs kept s)) = pheight (player s)
   \<and> invincible (player (pickup_coins cs kept s)) = invincible (player s)"
  by (induction cs arbitrary: kept s) (simp_all add: collect_coin_pos)

lemma crash_frame: "coll_frame (crash now s) = coll_frame s"
  by (simp add: crash_def coll_frame_def Let_def)

lemma blast_effect_frame: "coll_frame (blast_effect s) = coll_frame s"
  by (simp add: blast_effect_def coll_frame_def split: option.split)

lemma blast_effect_fields:
  "lives (blast_effect s) = lives s" "gameOver (blast_effect s) = gameOver s"
  "score (blast_effect s) = score s" "player (blast_effect s) = player s"
  "coinCount (blast_effect s) = coinCount s"
  by (simp_all add: blast_effect_def split: option.split)

lemma crash_lives_ok:
  "\<not> gameOver s \<Longrightarrow> 1 \<le> lives s \<Longrightarrow> lives s \<le> maxLives \<Longrightarrow> lives_ok (crash now s)"
  by (simp add: crash_def lives_ok_def Let_def maxLives_def)

lemma crash_score: "score (crash now s) = score s"
  by (simp add: crash_def Let_def)

declare pickup_loop.simps [simp del]

lemma pickup_loop_neg [simp]: "i < 0 \<Longrightarrow> pickup_loop i s = s"
  by (simp add: pickup_loop.simps)

lemma pickup_loop_hit:
  "0 \<le> i \<Longrightarrow> coin_hit (player s) (coins s ! nat i) \<Longrightarrow>
     pickup_loop i s = pickup_loop (i - 1) ((collect_coin (coins s ! nat i) s)
       \<lparr>coins := take (nat i) (coins (collect_coin (coins s ! nat i) s))
                  @ drop (Suc (nat i)) (coins (collect_coin (coins s ! nat i) s))\<rparr>)"
  by (subst pickup_loop.simps) (simp add: Let_def)

lemma pickup_loop_miss:
  "0 \<le> i \<Longrightarrow> \<not> coin_hit (player s) (coins s ! nat i) \<Longrightarrow> pickup_loop i s = pickup_loop (i - 1) s"
  by (subst pickup_loop.simps) (simp add: Let_def)

lemma collect_coin_coins:
  "collect_coin c (s\<lparr>coins := x\<rparr>) = (collect_coin c s)\<lparr>coins := x\<rparr>" "coins (collect_coin c s) = coins s"
  by (cases "ctype c"; simp add: collect_coin_def Let_def split_def)+

lemma fold_collect_coin_coins:
  "fold collect_coin xs (s\<lparr>coins := x\<rparr>) = (fold collect_coin xs s)\<lparr>coins := x\<rparr>"
  by (induction xs arbitrary: s) (simp_all add: collect_coin_coins)

lemma collect_coin_hit: "coin_hit (player (collect_coin c s)) = coin_hit (player s)"
  using collect_coin_pos [of c s] by (simp add: coin_hit_def fun_eq_iff)

lemma pickup_coins_fold:
  "pickup_coins cs kept s =
     (fold collect_coin (filter (coin_hit (player s)) cs) s)
       \<lparr>coins := rev (filter (\<lambda>c. \<not> coin_hit (player s) c) cs) @ kept\<rparr>"
  by (induction cs arbitrary: kept s) (simp_all add: collect_coin_hit)

lemma pickup_loop_coins:
  "n \<le> length (coins s) \<Longrightarrow>
     pickup_loop (int n - 1) s = pickup_coins (rev (take n (coins s))) (drop n (coins s)) s"
proof (induction n arbitrary: s)
  case 0
  then show ?case by simp
next
  case (Suc m)
  let ?c = "coins s ! m"
  have tk: "take (Suc m) (coins s) = take m (coins s) @ [?c]" and dr: "drop m (coins s) = ?c # drop (Suc m) (coins s)"
    using Suc.prems by (simp_all add: take_Suc_conv_app_nth Cons_nth_drop_Suc)
  show ?case
  proof (cases "coin_hit (player s) ?c")
    case True
    let ?s1 = "(collect_coin ?c s)\<lparr>coins := take m (coins s) @ drop (Suc m) (coins s)\<rparr>"
    have "pickup_loop (int (Suc m) - 1) s = pickup_loop (int m - 1) ?s1"
      using True pickup_loop_hit [of "int m" s] by (simp add: collect_coin_coins)
    also have "\<dots> = pickup_coins (rev (take m (coins s))) (drop (Suc m) (coins s)) ?s1"
      using Suc.IH [of ?s1] Suc.prems by (simp add: min_def)
    also have "\<dots> = pickup_coins (rev (take m (coins s))) (drop (Suc m) (coins s)) (collect_coin ?c s)"
      by (simp add: pickup_coins_fold collect_coin_coins fold_collect_coin_coins)
    finally show ?thesis using True by (simp add: tk)
  next
    case False
    have "pickup_loop (int (Suc m) - 1) s = pickup_loop (int m - 1) s"
      using False pickup_loop_miss [of "int m" s] by simp
    also have "\<dots> = pickup_coins (rev (take m (coins s))) (drop m (coins s)) s"
      using Suc.IH [of s] Suc.prems by simp
    finally show ?thesis using False by (simp add: tk dr)
  qed
qed

lemma pickup_loop_pass [simp]: "pickup_loop (int (length (coins s)) - 1) s = pickup_pass s"
  using pickup_loop_coins [of "length (coins s)" s] by (simp add: pickup_pass_def)

text \<open>\<open>detectCollision\<close> with the reference pickup pass in place of the loop.\<close>

lemma detectCollision_eq:
  "detectCollision now s =
     (if now - lastCollisionTime s < 200 then s
      else (let s1 = pickup_pass s
            in if invincible (player s1) then s1
               else blast_effect (if collision_detected s1 then crash now s1 else s1)))"
  by (simp add: detectCollision_def)

lemma detectCollision_frame: "coll_frame (detectCollision now s) = coll_frame s"
  by (simp add: detectCollision_eq Let_def pickup_pass_def pickup_coins_frame crash_frame
      blast_effect_frame)

lemma detectCollision_lives_ok:
  assumes "\<not> gameOver s" and "1 \<le> lives s" and "lives s \<le> maxLives"
  shows "lives_ok (detectCollision now s)"
proof -
  let ?s1 = "pickup_pass s"
  have l: "1 \<le> lives ?s1" "lives ?s1 \<le> maxLives" and g: "\<not> gameOver ?s1"
    using assms pickup_coins_lives [of s] pickup_coins_gameOver [of _ _ s]
    by (simp_all add: pickup_pass_def)
  then have ok1: "lives_ok ?s1" by (simp add: lives_ok_def)
  have "lives_ok (if collision_detected ?s1 then crash now ?s1 else ?s1)"
    using ok1 crash_lives_ok [OF g l] by simp
  then have "lives_ok (blast_effect (if collision_detected ?s1 then crash now ?s1 else ?s1))"
    by (simp add: lives_ok_def blast_effect_fields)
  with ok1 assms show ?thesis
    by (simp add: detectCollision_eq Let_def lives_ok_def maxLives_def)
qed

lemma detectCollision_score: "score s \<le> score (detectCollision now s)"
  using pickup_coins_score [of s "rev (coins s)" "[]"]
  by (simp add: detectCollision_eq Let_def pickup_pass_def crash_score blast_effect_fields)

lemma crash_fields:
  "coins (crash now s) = coins s" "coinCount (crash now s) = coinCount s"
  "boost (player (crash now s)) = boost (player s)"
  "boostTimer (player (crash now s)) = boostTimer (player s)"
  by (simp_all add: crash_def Let_def)

lemma pickup_pass_nil: "coins s = [] \<Longrightarrow> pickup_pass s = s"
  by (simp add: pickup_pass_def)

lemma collect_coin_lives_mono: "lives s \<le> lives (collect_coin c s)"
  by (cases "ctype c") (simp_all add: collect_coin_def Let_def split_def)

lemma pickup_coins_lives_mono: "lives s \<le> lives (pickup_coins cs kept s)"
  by (induction cs arbitrary: kept s) (auto intro: order_trans [OF collect_coin_lives_mono])

lemma detectCollision_obstacles: "set (obstacles (detectCollision now s)) \<subseteq> set (obstacles s)"
proof -
  have c: "set (obstacles (crash now t)) \<subseteq> set (obstacles t)" for t
    by (auto simp: crash_def Let_def)
  have b: "set (obstacles (blast_effect t)) \<subseteq> set (obstacles t)" for t
    by (auto simp: blast_effect_def split: option.split)
  have p: "obstacles (pickup_pass t) = obstacles t" for t
    by (simp add: pickup_pass_def pickup_coins_obstacles)
  show ?thesis
    using b [of "crash now (pickup_pass s)"] b [of "pickup_pass s"] c [of "pickup_pass s"] p [of s]
    by (auto simp: detectCollision_eq Let_def)
qed

lemma pickup_loop_dom_all: "pickup_loop_dom (i, s)"
  by (induction i s rule: pickup_loop.induct) (rule pickup_loop.domintros; simp)

lemma pickup_loop_length: "length (coins (pickup_loop i s)) \<le> length (coins s)"
proof (induction i s rule: pickup_loop.induct)
  case (1 i s)
  show ?case
  proof (cases "i < 0")
    case True
    then show ?thesis by simp
  next
    case False
    show ?thesis
    proof (cases "coin_hit (player s) (coins s ! nat i)")
      case True
      let ?s1 = "(collect_coin (coins s ! nat i) s)
         \<lparr>coins := take (nat i) (coins (collect_coin (coins s ! nat i) s))
                  @ drop (Suc (nat i)) (coins (collect_coin (coins s ! nat i) s))\<rparr>"
      have "length (coins (pickup_loop (i - 1) ?s1)) \<le> length (coins ?s1)"
        using 1(1) [of "coins s ! nat i" "collect_coin (coins s ! nat i) s"] False True by simp
      moreover have "length (coins ?s1) \<le> length (coins s)" by (simp add: collect_coin_coins)
      ultimately show ?thesis using pickup_loop_hit [of i s] False True by simp
    next
      case hit: False
      then show ?thesis using 1(2) [of "coins s ! nat i"] False pickup_loop_miss [of i s] by simp
    qed
  qed
qed

lemma collect_coin_shown: "lives_shown s \<Longrightarrow> lives_shown (collect_coin c s)"
  by (cases "ctype c") (simp_all add: collect_coin_def lives_shown_def Let_def split_def)

lemma pickup_coins_shown: "lives_shown s \<Longrightarrow> lives_shown (pickup_coins cs kept s)"
  by (induction cs arbitrary: kept s) (simp_all add: collect_coin_shown, simp add: lives_shown_def)

lemma crash_shown: "lives_shown s \<Longrightarrow> lives_shown (crash now s)"
  by (simp add: crash_def lives_shown_def Let_def)

lemma blast_effect_shown: "lives_shown (blast_effect s) = lives_shown s"
  by (simp add: blast_effect_def lives_shown_def split: option.split)

lemma detectCollision_shown: "lives_shown s \<Longrightarrow> lives_shown (detectCollision now s)"
  using pickup_coins_shown [of s "rev (coins s)" "[]"]
  by (simp add: detectCollision_eq Let_def pickup_pass_def blast_effect_shown crash_shown)

lemma collect_coin_no_crash: "plays PlayCrash (sounds (collect_coin c s)) = plays PlayCrash (sounds s)"
  by (cases "ctype c") (simp_all add: collect_coin_def Let_def split_def)

lemma pickup_coins_no_crash:
  "plays PlayCrash (sounds (pickup_coins cs kept s)) = plays PlayCrash (sounds s)"
  by (induction cs arbitrary: kept s) (simp_all add: collect_coin_no_crash)

lemma crash_sound: "plays PlayCrash (sounds (crash now s)) = Suc (plays PlayCrash (sounds s))"
  by (simp add: crash_def Let_def)

lemma blast_effect_sounds: "sounds (blast_effect s) = sounds s"
  by (simp add: blast_effect_def split: option.split)

section \<open>Properties\<close>

text \<open>C7: a player on the last life, not invincible and without a shield, who hits an
  obstacle or leaves the canvas loses the last life and the game is over (spec section 8
  scenario).\<close>

theorem detectCollision_last_life:
  assumes "200 \<le> now - lastCollisionTime s" and "\<not> invincible (player s)" and "coins s = []"
    and "lives s = 1" and "\<not> power_is Shield (powerUp s)" and "collision_detected s"
  shows "lives (detectCollision now s) = 0 \<and> gameOver (detectCollision now s)"
  using assms by (simp add: detectCollision_eq pickup_pass_nil crash_def blast_effect_fields Let_def)

theorem detectCollision_last_life_witness:
  "200 \<le> 1000 - lastCollisionTime demo_crash \<and> \<not> invincible (player demo_crash) \<and> coins demo_crash = []
   \<and> lives demo_crash = 1 \<and> \<not> power_is Shield (powerUp demo_crash) \<and> collision_detected demo_crash
   \<and> lives (detectCollision 1000 demo_crash) = 0 \<and> gameOver (detectCollision 1000 demo_crash)"
proof -
  have h: "200 \<le> 1000 - lastCollisionTime demo_crash" "\<not> invincible (player demo_crash)"
    "coins demo_crash = []" "lives demo_crash = 1" "\<not> power_is Shield (powerUp demo_crash)"
    "collision_detected demo_crash"
    by (simp_all add: demo_crash_def power_is_def
        collision_detected_def fresh_player_def)
  show ?thesis using detectCollision_last_life [OF h] h by simp
qed


text \<open>C8: a hit while holding a shield consumes the shield and nothing else: lives, game
  over flag and the player are unchanged.\<close>

theorem detectCollision_shield:
  assumes "200 \<le> now - lastCollisionTime s" and "\<not> invincible (player s)" and "coins s = []"
    and "power_is Shield (powerUp s)" and "collision_detected s"
  shows "lives (detectCollision now s) = lives s \<and> gameOver (detectCollision now s) = gameOver s
         \<and> powerUp (detectCollision now s) = None \<and> player (detectCollision now s) = player s"
  using assms by (simp add: detectCollision_eq pickup_pass_nil crash_def blast_effect_def Let_def)

theorem detectCollision_shield_witness:
  "200 \<le> 1000 - lastCollisionTime demo_shield \<and> \<not> invincible (player demo_shield)
   \<and> coins demo_shield = [] \<and> power_is Shield (powerUp demo_shield) \<and> collision_detected demo_shield
   \<and> lives (detectCollision 1000 demo_shield) = lives demo_shield
   \<and> gameOver (detectCollision 1000 demo_shield) = gameOver demo_shield
   \<and> powerUp (detectCollision 1000 demo_shield) = None
   \<and> player (detectCollision 1000 demo_shield) = player demo_shield"
proof -
  have h: "200 \<le> 1000 - lastCollisionTime demo_shield" "\<not> invincible (player demo_shield)"
    "coins demo_shield = []" "power_is Shield (powerUp demo_shield)" "collision_detected demo_shield"
    by (simp_all add: demo_shield_def demo_crash_def
        power_is_def collision_detected_def fresh_player_def)
  show ?thesis using detectCollision_shield [OF h] h by simp
qed

text \<open>C33: within 200 ms of the last resolved collision \<^verbatim>\<open>detectCollision\<close> does
  nothing at all, pickups included: the debounce returns before the pickup pass, although
  the spec makes pickups independent of it.\<close>

theorem detectCollision_debounce:
  assumes "now - lastCollisionTime s < 200"
  shows "detectCollision now s = s"
  using assms by (simp add: detectCollision_eq)

theorem detectCollision_debounce_witness:
  "1100 - lastCollisionTime demo_debounce < 200 \<and> coin_hit (player demo_debounce) (hd (coins demo_debounce))
   \<and> detectCollision 1100 demo_debounce = demo_debounce"
proof -
  have h: "1100 - lastCollisionTime demo_debounce < 200" by (simp add: demo_debounce_def)
  have c: "coin_hit (player demo_debounce) (hd (coins demo_debounce))"
    by (simp add: demo_debounce_def coin_hit_def coinSize_def fresh_player_def flyingObjects_def)
  show ?thesis using detectCollision_debounce [OF h] c h by simp
qed

text \<open>C26: an invincible player loses no life, the game does not end, and the obstacles stay:
  the early return skips the hazard pass and also the blast effect.\<close>

theorem detectCollision_invincible:
  assumes "invincible (player s)"
  shows "lives s \<le> lives (detectCollision now s) \<and> gameOver (detectCollision now s) = gameOver s
         \<and> obstacles (detectCollision now s) = obstacles s"
  using assms pickup_coins_lives_mono [of s "rev (coins s)" "[]"] pickup_coins_pos [of "rev (coins s)" "[]" s]
    pickup_coins_gameOver [of "rev (coins s)" "[]" s] pickup_coins_obstacles [of "rev (coins s)" "[]" s]
  by (simp add: detectCollision_eq pickup_pass_def Let_def)

theorem detectCollision_invincible_witness:
  "invincible (player (demo_crash\<lparr>player := (player demo_crash)\<lparr>invincible := True\<rparr>\<rparr>))
   \<and> lives (demo_crash\<lparr>player := (player demo_crash)\<lparr>invincible := True\<rparr>\<rparr>)
       \<le> lives (detectCollision 1000 (demo_crash\<lparr>player := (player demo_crash)\<lparr>invincible := True\<rparr>\<rparr>))
   \<and> gameOver (detectCollision 1000 (demo_crash\<lparr>player := (player demo_crash)\<lparr>invincible := True\<rparr>\<rparr>))
       = gameOver (demo_crash\<lparr>player := (player demo_crash)\<lparr>invincible := True\<rparr>\<rparr>)
   \<and> obstacles (detectCollision 1000 (demo_crash\<lparr>player := (player demo_crash)\<lparr>invincible := True\<rparr>\<rparr>))
       = obstacles (demo_crash\<lparr>player := (player demo_crash)\<lparr>invincible := True\<rparr>\<rparr>)"
  using detectCollision_invincible [of "demo_crash\<lparr>player := (player demo_crash)\<lparr>invincible := True\<rparr>\<rparr>" 1000]
  by simp

text \<open>A fifth coin picked up with no boost pending starts a boost of 200 frames and
  resets the coin counter, whatever the hazard pass does next (spec section 8 scenario).\<close>

theorem detectCollision_fifth_coin:
  assumes "200 \<le> now - lastCollisionTime s" and "coinCount s = 4" and "coins s = [c]"
    and "ctype c = Coin" and "coin_hit (player s) c"
  shows "boost (player (detectCollision now s)) \<and> boostTimer (player (detectCollision now s)) = 200
         \<and> coinCount (detectCollision now s) = 0 \<and> coins (detectCollision now s) = []"
proof -
  have p: "pickup_pass s = pickup_coins [] [] (collect_coin c s)"
    using assms by (simp add: pickup_pass_def)
  have b: "boost (player (pickup_pass s)) \<and> boostTimer (player (pickup_pass s)) = 200
           \<and> coinCount (pickup_pass s) = 0 \<and> coins (pickup_pass s) = []"
    using assms by (simp add: p collect_coin_def Let_def)
  then show ?thesis using assms(1)
    by (simp add: detectCollision_eq Let_def crash_fields blast_effect_fields blast_effect_def
        split: option.split)
qed

theorem detectCollision_fifth_coin_witness:
  "200 \<le> 1000 - lastCollisionTime demo_coins \<and> coinCount demo_coins = 4
   \<and> coins demo_coins = [\<lparr>cx = 60, cy = 410, ctype = Coin\<rparr>]
   \<and> ctype \<lparr>cx = 60, cy = 410, ctype = Coin\<rparr> = Coin
   \<and> coin_hit (player demo_coins) \<lparr>cx = 60, cy = 410, ctype = Coin\<rparr>
   \<and> boost (player (detectCollision 1000 demo_coins))
   \<and> boostTimer (player (detectCollision 1000 demo_coins)) = 200
   \<and> coinCount (detectCollision 1000 demo_coins) = 0 \<and> coins (detectCollision 1000 demo_coins) = []"
proof -
  have h: "200 \<le> 1000 - lastCollisionTime demo_coins" "coinCount demo_coins = 4"
    "coins demo_coins = [\<lparr>cx = 60, cy = 410, ctype = Coin\<rparr>]"
    "ctype \<lparr>cx = 60, cy = 410, ctype = Coin\<rparr> = Coin"
    "coin_hit (player demo_coins) \<lparr>cx = 60, cy = 410, ctype = Coin\<rparr>"
    by (simp_all add: demo_coins_def coin_hit_def coinSize_def fresh_player_def flyingObjects_def)
  show ?thesis using detectCollision_fifth_coin [OF h] h by simp
qed

text \<open>A heart picked up at full lives (5) is consumed without any other effect.\<close>

theorem pickup_pass_heart_full:
  assumes "lives s = maxLives" and "coins s = [c]" and "ctype c = Heart" and "coin_hit (player s) c"
  shows "pickup_pass s = s\<lparr>coins := []\<rparr>"
  using assms by (simp add: pickup_pass_def collect_coin_def)

theorem pickup_pass_heart_full_witness:
  "lives demo_heart = maxLives \<and> coins demo_heart = [\<lparr>cx = 60, cy = 410, ctype = Heart\<rparr>]
   \<and> ctype \<lparr>cx = 60, cy = 410, ctype = Heart\<rparr> = Heart
   \<and> coin_hit (player demo_heart) \<lparr>cx = 60, cy = 410, ctype = Heart\<rparr>
   \<and> pickup_pass demo_heart = demo_heart\<lparr>coins := []\<rparr>"
proof -
  have h: "lives demo_heart = maxLives" "coins demo_heart = [\<lparr>cx = 60, cy = 410, ctype = Heart\<rparr>]"
    "ctype \<lparr>cx = 60, cy = 410, ctype = Heart\<rparr> = Heart"
    "coin_hit (player demo_heart) \<lparr>cx = 60, cy = 410, ctype = Heart\<rparr>"
    by (simp_all add: demo_heart_def maxLives_def coin_hit_def coinSize_def fresh_player_def flyingObjects_def)
  show ?thesis using pickup_pass_heart_full [OF h] h by simp
qed

text \<open>The collision resolver never resets the pipe streak, although the spec defines it as
  the count of pairs passed without a collision.\<close>

theorem detectCollision_keeps_streak: "pipeStreak (detectCollision now s) = pipeStreak s"
  using detectCollision_frame [of now s] by (simp add: coll_frame_def)

text \<open>C34: a hit that costs a life (no shield, more than one life) keeps only the obstacles
  whose right edge is already behind the player and removes every obstacle ahead of or
  overlapping it.\<close>

theorem crash_keeps_only_obstacles_behind:
  assumes "\<not> power_is Shield (powerUp s)" and "1 < lives s"
  shows "obstacles (crash now s) = filter (\<lambda>ob. ox ob + owidth ob < px (player s)) (obstacles s)"
  using assms by (simp add: crash_def Let_def)

theorem crash_keeps_only_obstacles_behind_witness:
  "\<not> power_is Shield (powerUp demo_game) \<and> 1 < lives demo_game
   \<and> obstacles (crash 1000 demo_game) = filter (\<lambda>ob. ox ob + owidth ob < px (player demo_game)) (obstacles demo_game)"
  using crash_keeps_only_obstacles_behind [of demo_game 1000] by (simp add: power_is_def)

text \<open>C9: the pickup loop, run by index from the last collectible to the first with a splice for each one picked up, equals the reference definition: every collectible the player touches is collected, from the last to the first, and the others stay in their order (spec section 4.3: a consumed collectible is removed whatever the branch).\<close>

theorem pickup_loop_reference:
  "pickup_loop (int (length (coins s)) - 1) s =
     (fold collect_coin (rev (filter (coin_hit (player s)) (coins s))) s)
       \<lparr>coins := filter (\<lambda>c. \<not> coin_hit (player s) c) (coins s)\<rparr>"
  by (simp only: pickup_loop_pass) (simp add: pickup_pass_def pickup_coins_fold rev_filter)

text \<open>C18: \<^verbatim>\<open>detectCollision\<close> plays \<^verbatim>\<open>playCrash\<close> exactly once when it resolves a
  collision (past the debounce, not invincible after the pickups, and a hazard touched) and
  never otherwise: pickups and the blast play no crash.\<close>

theorem detectCollision_crash_sound:
  "plays PlayCrash (sounds (detectCollision now s)) = plays PlayCrash (sounds s)
     + (if 200 \<le> now - lastCollisionTime s \<and> \<not> invincible (player (pickup_pass s))
           \<and> collision_detected (pickup_pass s) then 1 else 0)"
  using pickup_coins_no_crash [of "rev (coins s)" "[]" s]
  by (simp add: detectCollision_eq Let_def pickup_pass_def blast_effect_sounds crash_sound)

end
