(* ===== verification/Spawner.thy ===== *)
theory Spawner
  imports GameState
begin

text \<open>
  The spawner \<^verbatim>\<open>generateObstacles\<close> of \<^verbatim>\<open>src/js/script.js\<close> (lines 481-502):
  every 150 frames a pair of obstacles at the right edge of the canvas, the top one of a
  random height in \<open>[0.2 H, 0.6 H]\<close>, the bottom one filling the rest of the canvas below
  the gap, and one collectible in the middle of the gap whose kind is drawn with the
  cumulative thresholds 0.1 (capsule), 0.15 (heart) and 1 (coin). The draws are made in
  the code's order: the height, the six ring draws of each obstacle, the kind.
  The lemmas give the geometry of the spawned pair.
\<close>

definition coin_kind :: "real \<Rightarrow> coin_type" where
  "coin_kind k = (if k < 0.1 then PowerUp else if k < 0.15 then Heart else Coin)"

definition generateObstacles :: "game \<Rightarrow> game" where
  "generateObstacles s =
     (if frame s mod 150 = 0 then
        (let minH = canvas_h s * 0.2; maxH = canvas_h s * 0.6;
             (r, s1) = draw s;
             pipeHeight = r * (maxH - minH) + minH;
             (top_ob, r1) = new_obstacle (canvas_w s) pipeHeight True (rng s1);
             (bot_ob, r2) = new_obstacle (canvas_w s) (canvas_h s - pipeHeight - pipeGap s) False r1;
             coinY = pipeHeight + pipeGap s / 2;
             (k, r3) = random r2
         in s1\<lparr>obstacles := obstacles s @ [top_ob, bot_ob],
               coins := coins s @ [\<lparr>cx = canvas_w s + 80 / 2, cy = coinY, ctype = coin_kind k\<rparr>],
               rng := r3\<rparr>)
      else s)"

section \<open>Lemmas\<close>

lemma generateObstacles_off: "frame s mod 150 \<noteq> 0 \<Longrightarrow> generateObstacles s = s"
  by (simp add: generateObstacles_def)

lemma generateObstacles_frame [frame_simps]:
  "sounds (generateObstacles s) = sounds s"
  "hud (generateObstacles s) = hud s"
  "stars (generateObstacles s) = stars s" "nebulas (generateObstacles s) = nebulas s"
  "player (generateObstacles s) = player s" "particles (generateObstacles s) = particles s"
  "score (generateObstacles s) = score s" "highScore (generateObstacles s) = highScore s"
  "level (generateObstacles s) = level s" "lives (generateObstacles s) = lives s"
  "coinCount (generateObstacles s) = coinCount s" "pipeStreak (generateObstacles s) = pipeStreak s"
  "powerUp (generateObstacles s) = powerUp s" "gameOver (generateObstacles s) = gameOver s"
  "intro (generateObstacles s) = intro s" "victory (generateObstacles s) = victory s"
  "pipeGap (generateObstacles s) = pipeGap s" "pipeSpeed (generateObstacles s) = pipeSpeed s"
  "frame (generateObstacles s) = frame s" "lastInputTime (generateObstacles s) = lastInputTime s"
  "lastCollisionTime (generateObstacles s) = lastCollisionTime s"
  "objectAreas (generateObstacles s) = objectAreas s" "shakeTimer (generateObstacles s) = shakeTimer s"
  "currentObjectIndex (generateObstacles s) = currentObjectIndex s"
  "unlocks (generateObstacles s) = unlocks s" "storage (generateObstacles s) = storage s"
  "lastFrameTime (generateObstacles s) = lastFrameTime s" "looping (generateObstacles s) = looping s"
  "canvas_w (generateObstacles s) = canvas_w s" "canvas_h (generateObstacles s) = canvas_h s"
  "rnd_src (rng (generateObstacles s)) = rnd_src (rng s)"
  by (simp_all add: generateObstacles_def Let_def split_def random_def)

lemma pipe_height_bounds:
  fixes r h :: real
  assumes "0 \<le> r" and "r < 1" and "0 \<le> h"
  shows "h * 0.2 \<le> r * (h * 0.6 - h * 0.2) + h * 0.2 \<and> r * (h * 0.6 - h * 0.2) + h * 0.2 \<le> h * 0.6"
proof -
  have "0 \<le> r * (h * 0.4)" using assms by simp
  moreover have "r * (h * 0.4) \<le> 1 * (h * 0.4)" using assms by (intro mult_right_mono) auto
  ultimately show ?thesis by simp
qed

lemma generateObstacles_bottom_height:
  "frame s mod 150 = 0 \<Longrightarrow>
     oheight (obstacles (generateObstacles s) ! Suc (length (obstacles s))) =
       canvas_h s - (fst (random (rng s)) * (canvas_h s * 0.6 - canvas_h s * 0.2) + canvas_h s * 0.2)
       - pipeGap s"
  by (simp add: generateObstacles_def Let_def split_def nth_append)

section \<open>Properties\<close>

text \<open>C19: every spawned pair has its top obstacle between 0.2 H and 0.6 H, top height,
  gap and bottom height adding up to the canvas height H, both at the right edge, and one
  collectible in the middle of the gap (spec section 4.1).\<close>

theorem generateObstacles_pair:
  assumes "frame s mod 150 = 0" and "in_unit (rng s)" and "0 \<le> canvas_h s"
  shows "\<exists>top_ob bot_ob c.
           obstacles (generateObstacles s) = obstacles s @ [top_ob, bot_ob]
         \<and> coins (generateObstacles s) = coins s @ [c]
         \<and> isTop top_ob \<and> \<not> isTop bot_ob \<and> ox top_ob = canvas_w s \<and> ox bot_ob = canvas_w s
         \<and> canvas_h s * 0.2 \<le> oheight top_ob \<and> oheight top_ob \<le> canvas_h s * 0.6
         \<and> oheight top_ob + pipeGap s + oheight bot_ob = canvas_h s
         \<and> cy c = oheight top_ob + pipeGap s / 2 \<and> obstacle_ok top_ob"
proof -
  let ?r = "fst (random (rng s))"
  have r: "0 \<le> ?r" "?r < 1" using random_in_unit [OF assms(2)] by auto
  let ?h = "?r * (canvas_h s * 0.6 - canvas_h s * 0.2) + canvas_h s * 0.2"
  have hb: "canvas_h s * 0.2 \<le> ?h \<and> ?h \<le> canvas_h s * 0.6"
    by (rule pipe_height_bounds [OF r assms(3)])
  then have h0: "0 \<le> ?h" using assms(3) by linarith
  have ok: "obstacle_ok (fst (new_obstacle (canvas_w s) ?h True (snd (random (rng s)))))"
    using new_obstacle_ok [OF _ h0, of "snd (random (rng s))"] assms(2) by simp
  show ?thesis
    using assms(1) hb ok by (simp add: generateObstacles_def Let_def split_def)
qed

theorem generateObstacles_pair_witness:
  "frame demo_game mod 150 = 0 \<and> in_unit (rng demo_game) \<and> 0 \<le> canvas_h demo_game
   \<and> (\<exists>top_ob bot_ob c.
           obstacles (generateObstacles demo_game) = obstacles demo_game @ [top_ob, bot_ob]
         \<and> coins (generateObstacles demo_game) = coins demo_game @ [c]
         \<and> isTop top_ob \<and> \<not> isTop bot_ob \<and> ox top_ob = canvas_w demo_game \<and> ox bot_ob = canvas_w demo_game
         \<and> canvas_h demo_game * 0.2 \<le> oheight top_ob \<and> oheight top_ob \<le> canvas_h demo_game * 0.6
         \<and> oheight top_ob + pipeGap demo_game + oheight bot_ob = canvas_h demo_game
         \<and> cy c = oheight top_ob + pipeGap demo_game / 2 \<and> obstacle_ok top_ob)"
proof -
  have h: "frame demo_game mod 150 = 0" "in_unit (rng demo_game)" "0 \<le> canvas_h demo_game"
    by (simp_all add: in_unit_def demo_rand_def)
  show ?thesis using generateObstacles_pair [OF h] h by simp
qed

text \<open>When the gap exceeds 0.4 H (a boost gap of 350 on a canvas lower than 875), some
  draw gives the bottom obstacle a negative height: the spawner does not clamp it, and
  the spec says nothing of it.\<close>

theorem generateObstacles_negative_bottom:
  assumes "frame s mod 150 = 0" and "0 < canvas_h s" and "canvas_h s * 0.4 < pipeGap s"
  shows "\<exists>r. in_unit r \<and>
           oheight (obstacles (generateObstacles (s\<lparr>rng := r\<rparr>)) ! Suc (length (obstacles s))) < 0"
proof -
  let ?H = "canvas_h s" and ?g = "pipeGap s"
  define t where "t = 2 - ?g / (?H * 0.4)"
  have t1: "t < 1"
    using assms(2,3) by (simp add: t_def field_simps)
  define x where "x = max 0 ((t + 1) / 2)"
  have tx: "t < (t + 1) / 2" and x1: "(t + 1) / 2 < 1" using t1 by (simp_all add: field_simps)
  have x: "0 \<le> x" "x < 1" "t < x" using tx x1 by (auto simp: x_def less_max_iff_disj)
  define r where "r = \<lparr>rnd_src = (\<lambda>_. x), rnd_pos = 0\<rparr>"
  have u: "in_unit r" using x by (simp add: r_def in_unit_def)
  have "?g / (?H * 0.4) > 2 - x" using x(3) by (simp add: t_def)
  then have "?g > (2 - x) * (?H * 0.4)" using assms(2) by (simp add: field_simps)
  then have "?H - (x * (?H * 0.6 - ?H * 0.2) + ?H * 0.2) - ?g < 0" by (simp add: algebra_simps)
  then have "oheight (obstacles (generateObstacles (s\<lparr>rng := r\<rparr>)) ! Suc (length (obstacles s))) < 0"
    using generateObstacles_bottom_height [of "s\<lparr>rng := r\<rparr>"] assms(1)
    by (simp add: r_def random_def)
  with u show ?thesis by blast
qed

theorem generateObstacles_negative_bottom_witness:
  "frame (demo_game\<lparr>pipeGap := 350\<rparr>) mod 150 = 0 \<and> 0 < canvas_h (demo_game\<lparr>pipeGap := 350\<rparr>)
   \<and> canvas_h (demo_game\<lparr>pipeGap := 350\<rparr>) * 0.4 < pipeGap (demo_game\<lparr>pipeGap := 350\<rparr>)
   \<and> (\<exists>r. in_unit r \<and>
         oheight (obstacles (generateObstacles (demo_game\<lparr>pipeGap := 350, rng := r\<rparr>))
                    ! Suc (length (obstacles (demo_game\<lparr>pipeGap := 350\<rparr>)))) < 0)"
  using generateObstacles_negative_bottom [of "demo_game\<lparr>pipeGap := 350\<rparr>"] by simp

end
