(* ===== verification/Frame.thy ===== *)
theory Frame
  imports Progression Collision Spawner
begin

text \<open>
  The animation loop \<^verbatim>\<open>gameLoop\<close> of \<^verbatim>\<open>src/js/script.js\<close> (lines 816-1061)
  and the playing frame it runs (lines 971-1006). The frame is the composition, in the
  code's order, of the physics and power-up timers (lines 973-988, \<open>physics\<close>),
  \<^verbatim>\<open>checkInvincibility\<close>, \<^verbatim>\<open>generateObstacles\<close>, the motion of obstacles and
  collectibles (lines 991-998, \<open>move_entities\<close>), the exhaust of \<^verbatim>\<open>drawPlayer\<close>
  (\<open>boost_trail\<close>), \<^verbatim>\<open>detectCollision\<close>, \<^verbatim>\<open>updateScore\<close>,
  \<^verbatim>\<open>updateParticles\<close> and the removal of off-screen entities (lines 1004-1005,
  \<open>cleanup\<close>). Around it, \<open>gameLoop\<close> performs the admission control of lines
  819-822, the camera-shake countdown, the background motion of \<^verbatim>\<open>drawBackground\<close>
  (line 831, \<open>drawBackground\<close>), the intro hit areas, and the particle update of the
  end screens. Whether the loop goes on is the field \<open>looping\<close>: the early
  \<^verbatim>\<open>return\<close> of line 821 comes before \<^verbatim>\<open>requestAnimationFrame\<close> at line 1057,
  so no further frame is requested.
  The lemmas show how each pass changes the state, that a frame never lowers the score,
  the power-up expiry rules, and that the loop stops for good after a slow frame.
\<close>

definition physics :: "real \<Rightarrow> game \<Rightarrow> game" where
  "physics dt s =
     (let p = player s;
          v1 = velocity p + gravity p * dt;
          p1 = p\<lparr>velocity := v1, py := py p + v1 * dt\<rparr>;
          (p2, gap) =
            (if boost p1
             then (let p' = p1\<lparr>velocity := velocity p1 - 0.2 * dt, boostTimer := boostTimer p1 - dt\<rparr>
                   in (if boostTimer p' \<le> 0 then p'\<lparr>boost := False\<rparr> else p', 350))
             else (p1, pipeGap s));
          s1 = s\<lparr>player := p2, pipeGap := gap\<rparr>
      in case powerUp s1 of
           None \<Rightarrow> s1
         | Some pu \<Rightarrow>
             (let spd = (if ptype pu = Slow then 1.5 else pipeSpeed s1);
                  pu' = pu\<lparr>ptimer := ptimer pu - dt\<rparr>
              in if ptimer pu' \<le> 0 \<and> ptype pu' \<noteq> Blast
                 then s1\<lparr>powerUp := None, pipeSpeed := level_speed (level s1)\<rparr>
                 else s1\<lparr>powerUp := Some pu', pipeSpeed := spd\<rparr>))"

definition move_entities :: "game \<Rightarrow> game" where
  "move_entities s =
     s\<lparr>obstacles := map (obstacle_update (pipeSpeed s)) (obstacles s),
       coins := map (coin_update (pipeSpeed s)) (coins s)\<rparr>"

definition boost_trail :: "game \<Rightarrow> game" where
  "boost_trail s =
     (if boost (player s) \<and> frame s mod 2 = 0
      then (let p = player s;
                (ps, r) = boost_particles 3 (px p + pwidth p / 2) (py p + pheight p / 2) (rng s)
            in s\<lparr>particles := particles s @ ps, rng := r\<rparr>)
      else s)"

definition cleanup :: "game \<Rightarrow> game" where
  "cleanup s =
     s\<lparr>obstacles := filter (\<lambda>ob. ox ob + owidth ob > 0) (obstacles s),
       coins := filter (\<lambda>c. cx c + coinSize > 0) (coins s)\<rparr>"

definition play_frame :: "ms \<Rightarrow> real \<Rightarrow> game \<Rightarrow> game" where
  "play_frame now deltaTime s =
     (let s1 = physics (deltaTime / 16.67) s;
          s2 = checkInvincibility s1;
          s3 = generateObstacles s2;
          s4 = move_entities s3;
          s5 = boost_trail s4;
          s6 = detectCollision now s5;
          s7 = updateScore s6;
          s8 = s7\<lparr>particles := updateParticles (particles s7)\<rparr>;
          s9 = cleanup s8
      in s9\<lparr>frame := Suc (frame s9)\<rparr>)"

text \<open>One invocation of \<^verbatim>\<open>gameLoop(timestamp)\<close> with the clock reading \<open>now\<close> of
  \<^verbatim>\<open>Date.now()\<close> that \<^verbatim>\<open>detectCollision\<close> reads.\<close>

definition gameLoop :: "real \<Rightarrow> ms \<Rightarrow> game \<Rightarrow> game" where
  "gameLoop ts now s =
     (let lft = (if lastFrameTime s = 0 then ts else lastFrameTime s);
          deltaTime = min (ts - lft) 100
      in if 50 < deltaTime then s\<lparr>lastFrameTime := lft, looping := False\<rparr>
         else (let s1 = s\<lparr>lastFrameTime := ts\<rparr>;
                   s2 = (if 0 < shakeTimer s1 then s1\<lparr>shakeTimer := shakeTimer s1 - 1\<rparr> else s1);
                   s2' = drawBackground s2;
                   s3 = (if intro s2' then s2'\<lparr>objectAreas := object_areas (canvas_w s2') (canvas_h s2')\<rparr>
                         else if \<not> gameOver s2' \<and> \<not> victory s2' then play_frame now deltaTime s2'
                         else s2'\<lparr>particles := updateParticles (particles s2')\<rparr>)
               in s3\<lparr>looping := True\<rparr>))"

subsection \<open>Concrete states\<close>

definition demo_end :: game where
  "demo_end = demo_game\<lparr>intro := False, lives := 1, score := 9995, frame := 1,
     player := (player demo_game)\<lparr>py := -10, invincibleCount := 100\<rparr>,
     obstacles := [\<lparr>ox = -40, oheight = 300, isTop = False, owidth = 80, passed = False, rings = []\<rparr>]\<rparr>"

definition demo_end5 :: game where
  "demo_end5 = demo_end\<lparr>player := (player demo_end)\<lparr>velocity := 0.5, py := -9.5\<rparr>,
        obstacles := [\<lparr>ox = -42.5, oheight = 300, isTop = False, owidth = 80, passed = False, rings = []\<rparr>]\<rparr>"

section \<open>Lemmas\<close>

lemma physics_frame [frame_simps]:
  "sounds (physics dt s) = sounds s"
  "hud (physics dt s) = hud s"
  "stars (physics dt s) = stars s" "nebulas (physics dt s) = nebulas s"
  "obstacles (physics dt s) = obstacles s" "coins (physics dt s) = coins s"
  "particles (physics dt s) = particles s" "score (physics dt s) = score s"
  "highScore (physics dt s) = highScore s" "level (physics dt s) = level s"
  "lives (physics dt s) = lives s" "coinCount (physics dt s) = coinCount s"
  "pipeStreak (physics dt s) = pipeStreak s" "gameOver (physics dt s) = gameOver s"
  "intro (physics dt s) = intro s" "victory (physics dt s) = victory s"
  "frame (physics dt s) = frame s" "lastInputTime (physics dt s) = lastInputTime s"
  "lastCollisionTime (physics dt s) = lastCollisionTime s"
  "objectAreas (physics dt s) = objectAreas s" "shakeTimer (physics dt s) = shakeTimer s"
  "currentObjectIndex (physics dt s) = currentObjectIndex s" "unlocks (physics dt s) = unlocks s"
  "storage (physics dt s) = storage s" "lastFrameTime (physics dt s) = lastFrameTime s"
  "looping (physics dt s) = looping s" "canvas_w (physics dt s) = canvas_w s"
  "canvas_h (physics dt s) = canvas_h s" "rng (physics dt s) = rng s"
  "invincible (player (physics dt s)) = invincible (player s)"
  "invincibleCount (player (physics dt s)) = invincibleCount (player s)"
  by (simp_all add: physics_def Let_def split_def split: option.split)

lemma move_entities_frame [frame_simps]:
  "sounds (move_entities s) = sounds s"
  "hud (move_entities s) = hud s"
  "stars (move_entities s) = stars s" "nebulas (move_entities s) = nebulas s"
  "player (move_entities s) = player s" "particles (move_entities s) = particles s"
  "score (move_entities s) = score s" "highScore (move_entities s) = highScore s"
  "level (move_entities s) = level s" "lives (move_entities s) = lives s"
  "powerUp (move_entities s) = powerUp s" "gameOver (move_entities s) = gameOver s"
  "intro (move_entities s) = intro s" "victory (move_entities s) = victory s"
  "frame (move_entities s) = frame s" "unlocks (move_entities s) = unlocks s"
  "storage (move_entities s) = storage s" "looping (move_entities s) = looping s"
  "currentObjectIndex (move_entities s) = currentObjectIndex s"
  "canvas_w (move_entities s) = canvas_w s" "canvas_h (move_entities s) = canvas_h s"
  "rng (move_entities s) = rng s" "lastInputTime (move_entities s) = lastInputTime s"
  "length (obstacles (move_entities s)) = length (obstacles s)"
  by (simp_all add: move_entities_def)

lemma boost_trail_frame [frame_simps]:
  "sounds (boost_trail s) = sounds s"
  "hud (boost_trail s) = hud s"
  "stars (boost_trail s) = stars s" "nebulas (boost_trail s) = nebulas s"
  "player (boost_trail s) = player s" "obstacles (boost_trail s) = obstacles s"
  "coins (boost_trail s) = coins s"
  "score (boost_trail s) = score s" "highScore (boost_trail s) = highScore s"
  "level (boost_trail s) = level s" "lives (boost_trail s) = lives s"
  "powerUp (boost_trail s) = powerUp s" "gameOver (boost_trail s) = gameOver s"
  "intro (boost_trail s) = intro s" "victory (boost_trail s) = victory s"
  "frame (boost_trail s) = frame s" "unlocks (boost_trail s) = unlocks s"
  "storage (boost_trail s) = storage s" "looping (boost_trail s) = looping s"
  "currentObjectIndex (boost_trail s) = currentObjectIndex s"
  "canvas_w (boost_trail s) = canvas_w s" "canvas_h (boost_trail s) = canvas_h s"
  "rnd_src (rng (boost_trail s)) = rnd_src (rng s)" "lastInputTime (boost_trail s) = lastInputTime s"
  "lastCollisionTime (boost_trail s) = lastCollisionTime s"
  by (simp_all add: boost_trail_def Let_def split_def)

lemma cleanup_frame [frame_simps]:
  "sounds (cleanup s) = sounds s"
  "hud (cleanup s) = hud s"
  "stars (cleanup s) = stars s" "nebulas (cleanup s) = nebulas s"
  "player (cleanup s) = player s" "particles (cleanup s) = particles s"
  "score (cleanup s) = score s" "highScore (cleanup s) = highScore s"
  "level (cleanup s) = level s" "lives (cleanup s) = lives s"
  "powerUp (cleanup s) = powerUp s" "gameOver (cleanup s) = gameOver s"
  "intro (cleanup s) = intro s" "victory (cleanup s) = victory s"
  "frame (cleanup s) = frame s" "unlocks (cleanup s) = unlocks s"
  "storage (cleanup s) = storage s" "looping (cleanup s) = looping s"
  "currentObjectIndex (cleanup s) = currentObjectIndex s"
  "canvas_w (cleanup s) = canvas_w s" "canvas_h (cleanup s) = canvas_h s"
  "rng (cleanup s) = rng s" "lastInputTime (cleanup s) = lastInputTime s"
  by (simp_all add: cleanup_def)

lemma updateScore_score_mono: "score s \<le> score (updateScore s)"
proof -
  have "0 \<le> pipeStreak s + int n - pipeStreak s" for n :: nat by simp
  have d: "pipeStreak s div 3 \<le> (pipeStreak s + int n) div 3" for n :: nat
    by (simp add: zdiv_mono1)
  show ?thesis using d [of "length (filter (newly_passed (px (player s))) (obstacles s))"]
    by (simp add: updateScore_score pass_obstacles_score [of _ _ _ "score s"] pass_obstacles_streak)
qed

text \<open>The concrete end frame from \<open>demo_end\<close>, stage by stage.\<close>

lemma end_s5:
  "boost_trail (move_entities (generateObstacles (checkInvincibility (physics 1 demo_end)))) = demo_end5"
  by (simp add: physics_def checkInvincibility_def generateObstacles_def move_entities_def
      boost_trail_def demo_end_def demo_end5_def fresh_player_def flyingObjects_def
      obstacle_update_def Let_def)

lemma end_s6:
  "gameOver (detectCollision 1000 demo_end5) \<and> lives (detectCollision 1000 demo_end5) = 0
   \<and> score (detectCollision 1000 demo_end5) = 9995 \<and> \<not> victory (detectCollision 1000 demo_end5)
   \<and> obstacles (detectCollision 1000 demo_end5) = obstacles demo_end5
   \<and> player (detectCollision 1000 demo_end5) = player demo_end5
   \<and> powerUp (detectCollision 1000 demo_end5) = None \<and> pipeStreak (detectCollision 1000 demo_end5) = 0"
  by (simp add: detectCollision_eq pickup_pass_def crash_def blast_effect_def collision_detected_def
      demo_end5_def demo_end_def fresh_player_def flyingObjects_def power_is_def Let_def)

lemma demo_end_frame:
  "gameOver (play_frame 1000 16.67 demo_end) \<and> victory (play_frame 1000 16.67 demo_end)
   \<and> score (play_frame 1000 16.67 demo_end) = 10000"
proof -
  let ?s6 = "detectCollision 1000 demo_end5"
  have pf: "play_frame 1000 16.67 demo_end =
      (let s7 = updateScore ?s6; s8 = s7\<lparr>particles := updateParticles (particles s7)\<rparr>; s9 = cleanup s8
       in s9\<lparr>frame := Suc (frame s9)\<rparr>)"
    by (simp add: play_frame_def end_s5 [symmetric] Let_def)
  have pass: "score_pass ?s6 = ([\<lparr>ox = -42.5, oheight = 300, isTop = False, owidth = 80, passed = True, rings = []\<rparr>], 10000, 1, sounds ?s6 @ [PlayPipePass])"
    using end_s6 by (simp add: demo_end5_def demo_end_def fresh_player_def flyingObjects_def power_is_def)
  have sc: "score (updateScore ?s6) = 10000" by (simp add: updateScore_score pass)
  have "victory (updateScore ?s6)" by (simp add: updateScore_victory sc)
  moreover have "gameOver (updateScore ?s6)" using end_s6 by (simp add: frame_simps)
  ultimately show ?thesis using sc unfolding pf Let_def by (simp add: frame_simps)
qed

lemma detectCollision_flags [simp]:
  "intro (detectCollision now s) = intro s" "victory (detectCollision now s) = victory s"
  using detectCollision_frame [of now s] by (simp_all add: coll_frame_def)

section \<open>Properties\<close>

text \<open>C3: a playing frame never lowers the score: physics, spawning, motion and the exhaust leave it alone, a collision never takes points away, and scoring only adds the pass and streak bonuses (spec section 4.4).\<close>

theorem play_frame_score_mono: "score s \<le> score (play_frame now dt s)"
proof -
  let ?s5 = "boost_trail (move_entities (generateObstacles (checkInvincibility (physics (dt / 16.67) s))))"
  have "score s = score ?s5" by (simp add: frame_simps)
  also have "\<dots> \<le> score (detectCollision now ?s5)" by (rule detectCollision_score)
  also have "\<dots> \<le> score (updateScore (detectCollision now ?s5))" by (rule updateScore_score_mono)
  finally show ?thesis by (simp add: play_frame_def Let_def frame_simps)
qed

text \<open>An example of the frame that takes the last life still running the scoring pass: from a concrete state with one life and score 9995, one frame both ends the game and passes the last obstacle, so the game is over and won at once with score 10000 (lines 1000-1001 run \<^verbatim>\<open>updateScore\<close> after \<^verbatim>\<open>detectCollision\<close> has set \<^verbatim>\<open>gameOver\<close>).\<close>

theorem play_frame_ends_with_score:
  "\<not> gameOver demo_end \<and> \<not> victory demo_end \<and> score demo_end = 9995
   \<and> gameOver (play_frame 1000 16.67 demo_end) \<and> victory (play_frame 1000 16.67 demo_end)
   \<and> score (play_frame 1000 16.67 demo_end) = 10000"
  using demo_end_frame by (simp add: demo_end_def)

text \<open>C4: a playing frame sets \<^verbatim>\<open>victory\<close> only when the score it ends with has reached 10000 (spec section 4.4): the collision pass never sets it, and \<^verbatim>\<open>updateScore\<close> sets it from the score it has just computed.\<close>

theorem play_frame_victory_score:
  assumes "\<not> victory s" and "victory (play_frame now dt s)"
  shows "10000 \<le> score (play_frame now dt s)"
proof -
  define s6 where "s6 = detectCollision now (boost_trail (move_entities (generateObstacles
      (checkInvincibility (physics (dt / 16.67) s)))))"
  have pf: "victory (play_frame now dt s) = victory (updateScore s6)"
    "score (play_frame now dt s) = score (updateScore s6)"
    by (simp_all add: play_frame_def Let_def s6_def frame_simps)
  have "\<not> victory s6" using assms(1) by (simp add: s6_def detectCollision_flags frame_simps)
  then show ?thesis using assms(2) pf updateScore_victory [of s6] by simp
qed

theorem play_frame_victory_score_witness:
  "\<not> victory demo_end \<and> victory (play_frame 1000 16.67 demo_end)
   \<and> 10000 \<le> score (play_frame 1000 16.67 demo_end)"
proof -
  have h: "\<not> victory demo_end" by (simp add: demo_end_def)
  have v: "victory (play_frame 1000 16.67 demo_end)" using demo_end_frame by blast
  show ?thesis using h v play_frame_victory_score [OF h v] by blast
qed

text \<open>A frame arriving more than 50 ms after the previous one returns at line 821 before \<^verbatim>\<open>requestAnimationFrame\<close> is called, so the loop stops: the state is unchanged except that no further frame is requested.\<close>

theorem gameLoop_slow_frame_halts:
  assumes "lastFrameTime s \<noteq> 0" and "50 < ts - lastFrameTime s"
  shows "gameLoop ts now s = s\<lparr>looping := False\<rparr>"
  using assms by (simp add: gameLoop_def Let_def)

theorem gameLoop_slow_frame_halts_witness:
  "lastFrameTime (demo_game\<lparr>lastFrameTime := 1000\<rparr>) \<noteq> 0
   \<and> 50 < 1100 - lastFrameTime (demo_game\<lparr>lastFrameTime := 1000\<rparr>)
   \<and> gameLoop 1100 5000 (demo_game\<lparr>lastFrameTime := 1000\<rparr>) = demo_game\<lparr>lastFrameTime := 1000, looping := False\<rparr>"
  using gameLoop_slow_frame_halts [of "demo_game\<lparr>lastFrameTime := 1000\<rparr>" 1100 5000] by simp

text \<open>A blast power-up is never cleared by the timers: its timer runs down past zero and it stays active (line 984 exempts it from expiry).\<close>

theorem physics_blast_never_cleared:
  assumes "powerUp s = Some pu" and "ptype pu = Blast"
  shows "powerUp (physics dt s) = Some (pu\<lparr>ptimer := ptimer pu - dt\<rparr>)"
  using assms by (simp add: physics_def Let_def split_def)

theorem physics_blast_never_cleared_witness:
  "powerUp (demo_game\<lparr>powerUp := Some \<lparr>ptype = Blast, ptimer = 0\<rparr>\<rparr>) = Some \<lparr>ptype = Blast, ptimer = 0\<rparr>
   \<and> ptype \<lparr>ptype = Blast, ptimer = 0\<rparr> = Blast
   \<and> powerUp (physics 1 (demo_game\<lparr>powerUp := Some \<lparr>ptype = Blast, ptimer = 0\<rparr>\<rparr>))
       = Some (\<lparr>ptype = Blast, ptimer = 0\<rparr>\<lparr>ptimer := ptimer \<lparr>ptype = Blast, ptimer = 0\<rparr> - 1\<rparr>)"
  using physics_blast_never_cleared [of "demo_game\<lparr>powerUp := Some \<lparr>ptype = Blast, ptimer = 0\<rparr>\<rparr>"
      "\<lparr>ptype = Blast, ptimer = 0\<rparr>" 1] by simp

text \<open>Every other power-up expires once its timer reaches zero, and the pipe speed then returns to the level's speed (lines 984-987).\<close>

theorem physics_power_up_expires:
  assumes "powerUp s = Some pu" and "ptype pu \<noteq> Blast" and "ptimer pu \<le> dt"
  shows "powerUp (physics dt s) = None \<and> pipeSpeed (physics dt s) = level_speed (level s)"
  using assms by (simp add: physics_def Let_def split_def)

theorem physics_power_up_expires_witness:
  "powerUp (demo_game\<lparr>powerUp := Some \<lparr>ptype = Slow, ptimer = 0.5\<rparr>\<rparr>) = Some \<lparr>ptype = Slow, ptimer = 0.5\<rparr>
   \<and> ptype \<lparr>ptype = Slow, ptimer = 0.5\<rparr> \<noteq> Blast \<and> ptimer \<lparr>ptype = Slow, ptimer = 0.5\<rparr> \<le> 1
   \<and> powerUp (physics 1 (demo_game\<lparr>powerUp := Some \<lparr>ptype = Slow, ptimer = 0.5\<rparr>\<rparr>)) = None
   \<and> pipeSpeed (physics 1 (demo_game\<lparr>powerUp := Some \<lparr>ptype = Slow, ptimer = 0.5\<rparr>\<rparr>))
       = level_speed (level (demo_game\<lparr>powerUp := Some \<lparr>ptype = Slow, ptimer = 0.5\<rparr>\<rparr>))"
  using physics_power_up_expires [of "demo_game\<lparr>powerUp := Some \<lparr>ptype = Slow, ptimer = 0.5\<rparr>\<rparr>"
      "\<lparr>ptype = Slow, ptimer = 0.5\<rparr>" 1] by simp

text \<open>While a power-up other than slow is active and not expiring, the pipe speed is left as it was; in particular a slow-motion speed of 1.5 survives a blast that replaced the slow power-up.\<close>

theorem physics_keeps_speed:
  assumes "powerUp s = Some pu" and "ptype pu \<noteq> Slow" and "ptype pu = Blast \<or> dt < ptimer pu"
  shows "pipeSpeed (physics dt s) = pipeSpeed s"
  using assms by (auto simp: physics_def Let_def split_def)

theorem physics_keeps_speed_witness:
  "powerUp (demo_game\<lparr>pipeSpeed := 1.5, powerUp := Some \<lparr>ptype = Blast, ptimer = 0\<rparr>\<rparr>) = Some \<lparr>ptype = Blast, ptimer = 0\<rparr>
   \<and> ptype \<lparr>ptype = Blast, ptimer = 0\<rparr> \<noteq> Slow
   \<and> (ptype \<lparr>ptype = Blast, ptimer = 0\<rparr> = Blast \<or> 1 < ptimer \<lparr>ptype = Blast, ptimer = 0\<rparr>)
   \<and> pipeSpeed (physics 1 (demo_game\<lparr>pipeSpeed := 1.5, powerUp := Some \<lparr>ptype = Blast, ptimer = 0\<rparr>\<rparr>)) = 1.5"
  using physics_keeps_speed [of "demo_game\<lparr>pipeSpeed := 1.5, powerUp := Some \<lparr>ptype = Blast, ptimer = 0\<rparr>\<rparr>"
      "\<lparr>ptype = Blast, ptimer = 0\<rparr>" 1] by simp

text \<open>C37: when a boost ends the pipe gap stays at the boost gap of 350: nothing restores the level's gap (line 977 sets 350, the only reset is \<^verbatim>\<open>updateLevel\<close> on a level change).\<close>

theorem physics_boost_end_keeps_gap:
  assumes "boost (player s)" and "boostTimer (player s) \<le> dt"
  shows "\<not> boost (player (physics dt s)) \<and> pipeGap (physics dt s) = 350
         \<and> pipeGap (physics dt' (physics dt s)) = 350"
  using assms by (simp add: physics_def Let_def split_def split: option.split)

theorem physics_boost_end_keeps_gap_witness:
  "boost (player (demo_game\<lparr>player := (player demo_game)\<lparr>boost := True, boostTimer := 1\<rparr>\<rparr>))
   \<and> boostTimer (player (demo_game\<lparr>player := (player demo_game)\<lparr>boost := True, boostTimer := 1\<rparr>\<rparr>)) \<le> 1
   \<and> \<not> boost (player (physics 1 (demo_game\<lparr>player := (player demo_game)\<lparr>boost := True, boostTimer := 1\<rparr>\<rparr>)))
   \<and> pipeGap (physics 1 (demo_game\<lparr>player := (player demo_game)\<lparr>boost := True, boostTimer := 1\<rparr>\<rparr>)) = 350
   \<and> pipeGap (physics 1 (physics 1 (demo_game\<lparr>player := (player demo_game)\<lparr>boost := True, boostTimer := 1\<rparr>\<rparr>))) = 350"
  using physics_boost_end_keeps_gap [of "demo_game\<lparr>player := (player demo_game)\<lparr>boost := True, boostTimer := 1\<rparr>\<rparr>" 1 1]
  by simp

text \<open>C38: the exhaust of a boosting player adds three particles every second frame without
  looking at the cap of 200 that \<^verbatim>\<open>createParticles\<close> enforces (line 738 pushes to the
  array directly), so the particle array can grow past the cap the spec sets.\<close>

theorem boost_trail_bypasses_cap:
  assumes "boost (player s)" and "frame s mod 2 = 0"
  shows "length (particles (boost_trail s)) = length (particles s) + 3"
  using assms by (simp add: boost_trail_def Let_def split_def)

theorem boost_trail_bypasses_cap_witness:
  "boost (player (demo_game\<lparr>player := (player demo_game)\<lparr>boost := True\<rparr>,
       particles := replicate 200 (\<lparr>qx = 0, qy = 0, qvx = 0, qvy = 0, life = 30, colour = Gold, psize = 5\<rparr>)\<rparr>))
   \<and> frame (demo_game\<lparr>player := (player demo_game)\<lparr>boost := True\<rparr>,
       particles := replicate 200 (\<lparr>qx = 0, qy = 0, qvx = 0, qvy = 0, life = 30, colour = Gold, psize = 5\<rparr>)\<rparr>) mod 2 = 0
   \<and> length (particles (boost_trail (demo_game\<lparr>player := (player demo_game)\<lparr>boost := True\<rparr>,
       particles := replicate 200 (\<lparr>qx = 0, qy = 0, qvx = 0, qvy = 0, life = 30, colour = Gold, psize = 5\<rparr>)\<rparr>))) = 203"
  using boost_trail_bypasses_cap [of "demo_game\<lparr>player := (player demo_game)\<lparr>boost := True\<rparr>,
       particles := replicate 200 (\<lparr>qx = 0, qy = 0, qvx = 0, qvy = 0, life = 30, colour = Gold, psize = 5\<rparr>)\<rparr>"]
  by simp

end
