(* ===== verification/Share.thy ===== *)
theory Share
  imports GameState
begin

text \<open>
  The share link of the end screens (lines 234-235 and 307-308 of
  \<^verbatim>\<open>src/js/script.js\<close>): the text of the post, and the URL handed to
  \<^verbatim>\<open>window.open\<close>, whose query parameter is the text through
  \<^verbatim>\<open>encodeURIComponent\<close>. A HOL \<open>char\<close> is a code point below 256;
  \<^verbatim>\<open>encodeURIComponent\<close> writes it in UTF-8 (one byte below 128, two bytes
  otherwise) and replaces every byte outside the unreserved set by \<open>%\<close> and two
  upper-case hex digits. The reading side is \<open>uri_decode\<close>, the inverse steps of
  \<^verbatim>\<open>decodeURIComponent\<close> on such texts: percent escapes to bytes, bytes to
  characters. Lemmas: the round trip through both steps, and that the encoded text is made
  of unreserved characters, \<open>%\<close> and hex digits only, so it stays one query parameter.
\<close>

definition tweet_text :: "game \<Rightarrow> string" where
  "tweet_text s =
     (if victory s
      then ''I escaped the galaxy with '' @ js_string_of_int (score s) @
           '' points in $fullsend Community Challenge! #FullSend''
      else ''Scored '' @ js_string_of_int (score s) @ '' in $fullsend Community Challenge! #FullSend'')"

text \<open>The characters \<^verbatim>\<open>encodeURIComponent\<close> leaves alone:
  \<^verbatim>\<open>A-Z a-z 0-9 - _ . ! ~ * ' ( )\<close>, by code.\<close>

definition unreserved :: "nat \<Rightarrow> bool" where
  "unreserved b \<longleftrightarrow> (65 \<le> b \<and> b \<le> 90) \<or> (97 \<le> b \<and> b \<le> 122) \<or> (48 \<le> b \<and> b \<le> 57)
     \<or> b \<in> {45, 95, 46, 33, 126, 42, 39, 40, 41}"

definition hex_digit :: "nat \<Rightarrow> char" where
  "hex_digit d = (if d < 10 then char_of (48 + d) else char_of (55 + d))"

definition utf8_char :: "char \<Rightarrow> nat list" where
  "utf8_char c = (let n = of_char c in if n < 128 then [n] else [192 + n div 64, 128 + n mod 64])"

definition utf8_encode :: "string \<Rightarrow> nat list" where
  "utf8_encode s = concat (map utf8_char s)"

fun pct_encode :: "nat list \<Rightarrow> string" where
  "pct_encode [] = []"
| "pct_encode (b # bs) =
     (if unreserved b then [char_of b] else [CHR ''%'', hex_digit (b div 16), hex_digit (b mod 16)])
     @ pct_encode bs"

definition encodeURIComponent :: "string \<Rightarrow> string" where
  "encodeURIComponent s = pct_encode (utf8_encode s)"

definition share_url :: "game \<Rightarrow> string" where
  "share_url s = ''https://twitter.com/intent/tweet?text='' @ encodeURIComponent (tweet_text s)"

subsection \<open>The reading side\<close>

definition hex_val :: "char \<Rightarrow> nat option" where
  "hex_val c = (let n = of_char c in
     if 48 \<le> n \<and> n \<le> 57 then Some (n - 48)
     else if 65 \<le> n \<and> n \<le> 70 then Some (n - 55)
     else if 97 \<le> n \<and> n \<le> 102 then Some (n - 87) else None)"

fun pct_decode :: "string \<Rightarrow> nat list option" where
  "pct_decode [] = Some []"
| "pct_decode (c # cs) =
     (if c = CHR ''%'' then
        (case cs of
           h1 # h2 # rest \<Rightarrow>
             (case (hex_val h1, hex_val h2) of
                (Some a, Some b) \<Rightarrow> map_option (Cons (16 * a + b)) (pct_decode rest)
              | _ \<Rightarrow> None)
         | _ \<Rightarrow> None)
      else map_option (Cons (of_char c)) (pct_decode cs))"

fun utf8_decode :: "nat list \<Rightarrow> string option" where
  "utf8_decode [] = Some []"
| "utf8_decode (b # bs) =
     (if b < 128 then map_option (Cons (char_of b)) (utf8_decode bs)
      else if 194 \<le> b \<and> b < 196 then
        (case bs of
           b2 # rest \<Rightarrow>
             (if 128 \<le> b2 \<and> b2 < 192
              then map_option (Cons (char_of ((b - 192) * 64 + (b2 - 128)))) (utf8_decode rest)
              else None)
         | [] \<Rightarrow> None)
      else None)"

definition uri_decode :: "string \<Rightarrow> string option" where
  "uri_decode t = Option.bind (pct_decode t) utf8_decode"

text \<open>The characters a query parameter may carry without ending it, starting another
  or being read as a space: letters, digits, the marks \<^verbatim>\<open>- _ . ! ~ * ' ( )\<close> and the
  escape character.\<close>

definition url_safe :: "char \<Rightarrow> bool" where
  "url_safe c \<longleftrightarrow> (let n = of_char c :: nat in
     (48 \<le> n \<and> n \<le> 57) \<or> (65 \<le> n \<and> n \<le> 90) \<or> (97 \<le> n \<and> n \<le> 122)
     \<or> n \<in> {45, 95, 46, 33, 126, 42, 39, 40, 41, 37})"

section \<open>Lemmas\<close>

lemma hex_digit_val [simp]: "d < 16 \<Longrightarrow> hex_val (hex_digit d) = Some d"
  by (auto simp: hex_digit_def hex_val_def Let_def)

lemma hex_digit_unreserved: "d < 16 \<Longrightarrow> unreserved (of_char (hex_digit d))"
  by (auto simp: hex_digit_def unreserved_def)

lemma unreserved_not_pct: "unreserved b \<Longrightarrow> char_of b \<noteq> CHR ''%''"
  by (auto simp: unreserved_def char_of_eq_iff take_bit_eq_mod)

lemma unreserved_byte: "unreserved b \<Longrightarrow> b < 256"
  by (auto simp: unreserved_def)

lemma pct_roundtrip: "\<forall>b \<in> set bs. b < 256 \<Longrightarrow> pct_decode (pct_encode bs) = Some bs"
proof (induction bs)
  case Nil
  then show ?case by simp
next
  case (Cons b bs)
  have "b div 16 < 16" using Cons.prems by (simp add: div_less_iff_less_mult)
  then show ?case using Cons unreserved_not_pct [of b] unreserved_byte [of b] by auto
qed

lemma utf8_char_bytes: "\<forall>b \<in> set (utf8_char c). b < 256"
proof -
  have "of_char c < (256::nat)" by simp
  then have "of_char c < (4096::nat)" by linarith
  then show ?thesis by (auto simp: utf8_char_def Let_def div_less_iff_less_mult)
qed

lemma utf8_char_decode: "utf8_decode (utf8_char c @ bs) = map_option (Cons c) (utf8_decode bs)"
proof (cases "of_char c < (128::nat)")
  case True
  then show ?thesis by (simp add: utf8_char_def)
next
  case False
  define n :: nat where "n = of_char c"
  define m where "m = n div 64"
  define k where "k = n mod 64"
  have "n < 256" "128 \<le> n" using False by (simp_all add: n_def)
  then have f: "2 \<le> m" "m < 4" "k < 64" "char_of (m * 64 + k) = c"
    using div_le_mono [of 128 n 64]
    by (simp_all add: m_def k_def div_less_iff_less_mult n_def [symmetric]) (simp add: n_def)
  have "utf8_char c = [192 + m, 128 + k]" using False by (simp add: utf8_char_def Let_def m_def k_def n_def)
  then show ?thesis using f by simp
qed

lemma utf8_roundtrip: "utf8_decode (utf8_encode s) = Some s"
  by (induction s) (simp_all add: utf8_encode_def utf8_char_decode)

lemma unreserved_safe: "unreserved b \<Longrightarrow> url_safe (char_of b)"
  using unreserved_byte [of b] by (auto simp: url_safe_def unreserved_def)

lemma pct_safe [simp]: "url_safe CHR ''%''"
  by (simp add: url_safe_def)

lemma pct_encode_safe: "\<forall>b \<in> set bs. b < 256 \<Longrightarrow> c \<in> set (pct_encode bs) \<Longrightarrow> url_safe c"
proof (induction bs)
  case Nil
  then show ?case by simp
next
  case (Cons b bs)
  have "b div 16 < 16" using Cons.prems by (simp add: div_less_iff_less_mult)
  then have "url_safe (hex_digit (b div 16))" "url_safe (hex_digit (b mod 16))"
    using unreserved_safe [OF hex_digit_unreserved, of "b div 16"]
      unreserved_safe [OF hex_digit_unreserved, of "b mod 16"] by simp_all
  then show ?case using Cons unreserved_safe [of b] by (auto split: if_splits)
qed

lemma utf8_encode_bytes: "\<forall>b \<in> set (utf8_encode s). b < 256"
  using utf8_char_bytes by (auto simp: utf8_encode_def)

lemma encode_roundtrip: "uri_decode (encodeURIComponent s) = Some s"
  by (simp add: uri_decode_def encodeURIComponent_def pct_roundtrip [OF utf8_encode_bytes]
      utf8_roundtrip)

lemma encode_safe: "list_all url_safe (encodeURIComponent s)"
  using pct_encode_safe [OF utf8_encode_bytes [of s]]
  by (simp add: encodeURIComponent_def list_all_iff)

text \<open>C24: the share link is the intent URL followed by one parameter that reads back as
  exactly the share text and holds no character that could end it, start another
  parameter or stand for a space.\<close>

theorem share_url_decodes:
  "\<exists>q. share_url s = ''https://twitter.com/intent/tweet?text='' @ q \<and>
       uri_decode q = Some (tweet_text s) \<and> list_all url_safe q"
  by (auto simp: share_url_def encode_roundtrip encode_safe)

text \<open>The link of a game over at 120 points.\<close>

theorem share_text_example:
  "encodeURIComponent ''Scored 120 in $fullsend Community Challenge! #FullSend'' =
     ''Scored%20120%20in%20%24fullsend%20Community%20Challenge!%20%23FullSend''"
  by code_simp

end
