(* ===== verification/Input.thy ===== *)
theory Input
  imports Share
begin

text \<open>
  The three input handlers of \<^verbatim>\<open>src/js/script.js\<close>: \<^verbatim>\<open>handleMobileInput\<close>
  (touch, lines 193-243), \<^verbatim>\<open>handleDesktopInput\<close> (keyboard, lines 245-269) and
  \<^verbatim>\<open>handleDesktopInputMouse\<close> (mouse, lines 271-316). All three share one debounce:
  an input less than 150 ms after the last accepted one returns at once, and an accepted
  one records its time in \<^verbatim>\<open>lastInputTime\<close> before anything else. On the intro screen a
  touch or a click selects the unlocked craft whose icon it hits (the loop of lines 207-217
  with its \<^verbatim>\<open>break\<close>), and the space bar starts with the first craft; while playing,
  a touch or the space bar flaps, and a click does nothing; on the end screens a touch or
  a click on the two buttons restarts or opens the share dialog (the URL handed to
  \<^verbatim>\<open>window.open\<close>, built in \<open>Share\<close>, is the handler's output here), and the space
  bar restarts. A selection, a flap and a start play \<^verbatim>\<open>playRocketBoost\<close>; logging is
  not modelled.
\<close>

definition in_area :: "real \<Rightarrow> real \<Rightarrow> area \<Rightarrow> bool" where
  "in_area x y a \<longleftrightarrow> ax a \<le> x \<and> x \<le> ax a + aw a \<and> ay a \<le> y \<and> y \<le> ay a + ah a"

text \<open>The body of the selection loop: \<^verbatim>\<open>objectAreas[i]\<close> is \<^verbatim>\<open>undefined\<close> (falsy)
  past the end of the array, as before the first intro frame has filled it.\<close>

fun select_object :: "real \<Rightarrow> real \<Rightarrow> nat list \<Rightarrow> game \<Rightarrow> game" where
  "select_object x y [] s = s"
| "select_object x y (i # is) s =
     (if i < length (objectAreas s) \<and> in_area x y (objectAreas s ! i) \<and> js_at (unlocks s) i
      then play PlayRocketBoost
             (s\<lparr>currentObjectIndex := i, player := assign_stats (stats (flyingObjects ! i)) (player s),
                intro := False\<rparr>)
      else select_object x y is s)"

definition flap :: "game \<Rightarrow> game" where
  "flap s = s\<lparr>player := (player s)\<lparr>velocity := lift (player s)\<rparr>\<rparr>"

text \<open>A button of the end screen, 220 by 50 and centred, whose top edge is \<open>by\<close>,
  with a tolerance of \<open>buf\<close> above and below (20 for touch, none for the mouse).\<close>

definition button_hit :: "real \<Rightarrow> real \<Rightarrow> game \<Rightarrow> real \<Rightarrow> real \<Rightarrow> bool" where
  "button_hit buf by s x y \<longleftrightarrow>
     (let centerX = canvas_w s / 2 - 220 / 2
      in centerX \<le> x \<and> x \<le> centerX + 220 \<and> by - buf \<le> y \<and> y \<le> by + 50 + buf)"

definition end_screen_click :: "real \<Rightarrow> real \<Rightarrow> real \<Rightarrow> game \<Rightarrow> game \<times> string option" where
  "end_screen_click buf x y s =
     (if button_hit buf (canvas_h s / 2 + 80) s x y then (resetGame s, None)
      else if button_hit buf (canvas_h s / 2 + 150) s x y then (s, Some (share_url s))
      else (s, None))"

definition handleMobileInput :: "ms \<Rightarrow> real \<Rightarrow> real \<Rightarrow> game \<Rightarrow> game \<times> string option" where
  "handleMobileInput now x y s =
     (if now - lastInputTime s < 150 then (s, None)
      else (let s1 = s\<lparr>lastInputTime := now\<rparr>
            in if intro s1 then (select_object x y [0..<length flyingObjects] s1, None)
               else if \<not> gameOver s1 \<and> \<not> victory s1 then (play PlayRocketBoost (flap s1), None)
               else end_screen_click 20 x y s1))"

text \<open>\<open>code\<close> is the \<^verbatim>\<open>event.code\<close> of the key.\<close>

definition handleDesktopInput :: "string \<Rightarrow> ms \<Rightarrow> game \<Rightarrow> game" where
  "handleDesktopInput code now s =
     (if code \<noteq> ''Space'' then s
      else if now - lastInputTime s < 150 then s
      else (let s1 = s\<lparr>lastInputTime := now\<rparr>
            in if intro s1
               then play PlayRocketBoost
                      (s1\<lparr>currentObjectIndex := 0,
                         player := assign_stats (stats (flyingObjects ! 0)) (player s1), intro := False\<rparr>)
               else if \<not> gameOver s1 \<and> \<not> victory s1 then play PlayRocketBoost (flap s1)
               else resetGame s1))"

definition handleDesktopInputMouse :: "ms \<Rightarrow> real \<Rightarrow> real \<Rightarrow> game \<Rightarrow> game \<times> string option" where
  "handleDesktopInputMouse now x y s =
     (if now - lastInputTime s < 150 then (s, None)
      else (let s1 = s\<lparr>lastInputTime := now\<rparr>
            in if intro s1 then (select_object x y [0..<length flyingObjects] s1, None)
               else if gameOver s1 \<or> victory s1 then end_screen_click 0 x y s1
               else (s1, None)))"

text \<open>The intro screen of the demo start, once its first frame has laid out the icons.\<close>

definition demo_intro :: game where
  "demo_intro = demo_game\<lparr>objectAreas := object_areas 400 800\<rparr>"

section \<open>Lemmas\<close>

text \<open>The selection loop either leaves the state alone or selects one index of the list
  whose icon is hit and whose craft is unlocked.\<close>

lemma select_object_cases:
  "select_object x y is s = s \<or>
   (\<exists>i \<in> set is. i < length (objectAreas s) \<and> in_area x y (objectAreas s ! i) \<and> js_at (unlocks s) i
      \<and> select_object x y is s =
          s\<lparr>currentObjectIndex := i, player := assign_stats (stats (flyingObjects ! i)) (player s),
            intro := False, sounds := sounds s @ [PlayRocketBoost]\<rparr>)"
  by (induction "is") auto

lemma select_object_none:
  "\<forall>i \<in> set is. \<not> (i < length (objectAreas s) \<and> in_area x y (objectAreas s ! i) \<and> js_at (unlocks s) i)
   \<Longrightarrow> select_object x y is s = s"
  by (induction "is") auto

lemma select_object_selected:
  assumes "\<not> intro (select_object x y is s)" and "intro s"
  shows "\<exists>i \<in> set is. i < length (objectAreas s) \<and> in_area x y (objectAreas s ! i) \<and> js_at (unlocks s) i
      \<and> select_object x y is s =
          s\<lparr>currentObjectIndex := i, player := assign_stats (stats (flyingObjects ! i)) (player s),
            intro := False, sounds := sounds s @ [PlayRocketBoost]\<rparr>"
  using select_object_cases [of x y "is" s] assms by auto

section \<open>Properties\<close>

text \<open>C20: the three handlers share one 150 ms debounce: an input arriving less than 150 ms after the last accepted one changes nothing and opens nothing (spec section 5).\<close>

theorem input_debounce:
  assumes "now - lastInputTime s < 150"
  shows "handleMobileInput now x y s = (s, None) \<and> handleDesktopInput code now s = s
         \<and> handleDesktopInputMouse now x y s = (s, None)"
  using assms by (simp add: handleMobileInput_def handleDesktopInput_def handleDesktopInputMouse_def)

theorem input_debounce_witness:
  "1100 - lastInputTime (demo_game\<lparr>lastInputTime := 1000\<rparr>) < 150
   \<and> handleMobileInput 1100 80 290 (demo_game\<lparr>lastInputTime := 1000\<rparr>) = (demo_game\<lparr>lastInputTime := 1000\<rparr>, None)
   \<and> handleDesktopInput ''Space'' 1100 (demo_game\<lparr>lastInputTime := 1000\<rparr>) = demo_game\<lparr>lastInputTime := 1000\<rparr>
   \<and> handleDesktopInputMouse 1100 80 290 (demo_game\<lparr>lastInputTime := 1000\<rparr>) = (demo_game\<lparr>lastInputTime := 1000\<rparr>, None)"
  using input_debounce [of 1100 "demo_game\<lparr>lastInputTime := 1000\<rparr>" 80 290 "''Space''"] by simp

text \<open>C21: on the intro screen a touch or a click that starts the game selects a craft whose icon it hits and that is unlocked, copies that craft's stats into the player and records the input time; a locked craft is never selected.\<close>

theorem select_only_unlocked:
  assumes "intro s"
    and "(s', out) = handleMobileInput now x y s \<or> (s', out) = handleDesktopInputMouse now x y s"
    and "\<not> intro s'"
  shows "out = None \<and> lastInputTime s' = now \<and> currentObjectIndex s' < length flyingObjects
         \<and> currentObjectIndex s' < length (objectAreas s) \<and> js_at (unlocks s) (currentObjectIndex s')
         \<and> in_area x y (objectAreas s ! currentObjectIndex s')
         \<and> player s' = assign_stats (stats (flyingObjects ! currentObjectIndex s')) (player s)"
proof -
  have d: "150 \<le> now - lastInputTime s" and
    sel: "s' = select_object x y [0..<length flyingObjects] (s\<lparr>lastInputTime := now\<rparr>)" and o: "out = None"
    using assms by (auto simp: handleMobileInput_def handleDesktopInputMouse_def Let_def split: if_splits)
  obtain i where "i \<in> set [0..<length flyingObjects]" "i < length (objectAreas s)"
      "in_area x y (objectAreas s ! i)" "js_at (unlocks s) i"
      "s' = s\<lparr>lastInputTime := now, currentObjectIndex := i,
              player := assign_stats (stats (flyingObjects ! i)) (player s), intro := False,
              sounds := sounds s @ [PlayRocketBoost]\<rparr>"
    using select_object_selected [of x y "[0..<length flyingObjects]" "s\<lparr>lastInputTime := now\<rparr>"] assms(1,3) sel
    by auto
  then show ?thesis using o by simp
qed

theorem select_only_unlocked_witness:
  "intro demo_intro
   \<and> (fst (handleMobileInput 1000 80 290 demo_intro), None) = handleMobileInput 1000 80 290 demo_intro
   \<and> \<not> intro (fst (handleMobileInput 1000 80 290 demo_intro))
   \<and> currentObjectIndex (fst (handleMobileInput 1000 80 290 demo_intro)) = 0
   \<and> js_at (unlocks demo_intro) (currentObjectIndex (fst (handleMobileInput 1000 80 290 demo_intro)))"
proof -
  have h: "handleMobileInput 1000 80 290 demo_intro =
      (demo_intro\<lparr>lastInputTime := 1000, currentObjectIndex := 0,
         player := assign_stats (stats (flyingObjects ! 0)) (player demo_intro), intro := False,
         sounds := sounds demo_intro @ [PlayRocketBoost]\<rparr>, None)"
    by (simp add: handleMobileInput_def demo_intro_def object_areas_def flyingObjects_def in_area_def
        js_at_def Let_def upt_rec)
  have "intro demo_intro" by (simp add: demo_intro_def)
  then show ?thesis
    using select_only_unlocked [of demo_intro "fst (handleMobileInput 1000 80 290 demo_intro)" None 1000 80 290]
    by (simp add: h)
qed

text \<open>A touch or click on the intro screen that hits no unlocked craft is ignored, except that it still consumes the debounce: the input time is recorded (the spec asks for no state change).\<close>

theorem select_miss_ignored:
  assumes "intro s" and "150 \<le> now - lastInputTime s"
    and "\<not> (\<exists>i < length flyingObjects. i < length (objectAreas s) \<and> in_area x y (objectAreas s ! i)
           \<and> js_at (unlocks s) i)"
  shows "handleMobileInput now x y s = (s\<lparr>lastInputTime := now\<rparr>, None)
       \<and> handleDesktopInputMouse now x y s = (s\<lparr>lastInputTime := now\<rparr>, None)"
proof -
  have "select_object x y [0..<length flyingObjects] (s\<lparr>lastInputTime := now\<rparr>) = s\<lparr>lastInputTime := now\<rparr>"
    using assms(3) by (intro select_object_none) auto
  then show ?thesis using assms(1,2) by (simp add: handleMobileInput_def handleDesktopInputMouse_def)
qed

theorem select_miss_ignored_witness:
  "intro demo_intro \<and> 150 \<le> 1000 - lastInputTime demo_intro
   \<and> \<not> (\<exists>i < length flyingObjects. i < length (objectAreas demo_intro) \<and> in_area 150 290 (objectAreas demo_intro ! i)
           \<and> js_at (unlocks demo_intro) i)
   \<and> handleMobileInput 1000 150 290 demo_intro = (demo_intro\<lparr>lastInputTime := 1000\<rparr>, None)
   \<and> handleDesktopInputMouse 1000 150 290 demo_intro = (demo_intro\<lparr>lastInputTime := 1000\<rparr>, None)"
proof -
  have a: "\<not> (\<exists>i < length flyingObjects. i < length (objectAreas demo_intro) \<and> in_area 150 290 (objectAreas demo_intro ! i)
           \<and> js_at (unlocks demo_intro) i)"
  proof
    assume "\<exists>i < length flyingObjects. i < length (objectAreas demo_intro) \<and> in_area 150 290 (objectAreas demo_intro ! i)
           \<and> js_at (unlocks demo_intro) i"
    then obtain i where "i < length flyingObjects" "i < length (objectAreas demo_intro)"
      "in_area 150 290 (objectAreas demo_intro ! i)" "js_at (unlocks demo_intro) i" by blast
    moreover from calculation have "i = 1" by (auto simp: demo_intro_def object_areas_def in_area_def Let_def)
    ultimately show False by (simp add: demo_intro_def js_at_def)
  qed
  have "intro demo_intro \<and> 150 \<le> 1000 - lastInputTime demo_intro" by (simp add: demo_intro_def)
  then show ?thesis using a select_miss_ignored [of demo_intro 1000 150 290] by simp
qed

text \<open>C39: a mouse click while playing does not flap, but it is accepted by the debounce, so a space bar press within the next 150 ms is ignored: the click swallows the flap (the spec's Flap intent is raised by touch and key only, and every input shares one clock).\<close>

theorem click_while_playing_blocks_flap:
  assumes "\<not> intro s" and "\<not> gameOver s" and "\<not> victory s" and "150 \<le> now - lastInputTime s"
    and "0 \<le> d" and "d < 150"
  shows "handleDesktopInputMouse now x y s = (s\<lparr>lastInputTime := now\<rparr>, None)
       \<and> handleDesktopInput ''Space'' (now + d) (s\<lparr>lastInputTime := now\<rparr>) = s\<lparr>lastInputTime := now\<rparr>"
  using assms by (simp add: handleDesktopInputMouse_def handleDesktopInput_def)

theorem click_while_playing_blocks_flap_witness:
  "\<not> intro (demo_game\<lparr>intro := False\<rparr>) \<and> \<not> gameOver (demo_game\<lparr>intro := False\<rparr>)
   \<and> \<not> victory (demo_game\<lparr>intro := False\<rparr>) \<and> 150 \<le> 1000 - lastInputTime (demo_game\<lparr>intro := False\<rparr>)
   \<and> 0 \<le> (50::int) \<and> (50::int) < 150
   \<and> handleDesktopInputMouse 1000 0 0 (demo_game\<lparr>intro := False\<rparr>) = (demo_game\<lparr>intro := False, lastInputTime := 1000\<rparr>, None)
   \<and> handleDesktopInput ''Space'' (1000 + 50) (demo_game\<lparr>intro := False, lastInputTime := 1000\<rparr>)
       = demo_game\<lparr>intro := False, lastInputTime := 1000\<rparr>"
  using click_while_playing_blocks_flap [of "demo_game\<lparr>intro := False\<rparr>" 1000 50 0 0] by simp

text \<open>C40: a touch or a click opens the share dialog exactly when it passes the
  debounce on an end screen, misses the restart button and hits the post button (with the
  20 pixel tolerance for touch, none for the mouse), and the URL it opens is the share
  link of the current score.\<close>

theorem share_request:
  "(snd (handleMobileInput now x y s) = Some u \<longleftrightarrow>
      \<not> now - lastInputTime s < 150 \<and> \<not> intro s \<and> (gameOver s \<or> victory s) \<and>
      \<not> button_hit 20 (canvas_h s / 2 + 80) s x y \<and> button_hit 20 (canvas_h s / 2 + 150) s x y \<and>
      u = share_url s)
   \<and> (snd (handleDesktopInputMouse now x y s) = Some u \<longleftrightarrow>
      \<not> now - lastInputTime s < 150 \<and> \<not> intro s \<and> (gameOver s \<or> victory s) \<and>
      \<not> button_hit 0 (canvas_h s / 2 + 80) s x y \<and> button_hit 0 (canvas_h s / 2 + 150) s x y \<and>
      u = share_url s)"
  by (auto simp: handleMobileInput_def handleDesktopInputMouse_def end_screen_click_def Let_def
      button_hit_def share_url_def tweet_text_def)

text \<open>On the end screens the space bar restarts: the state becomes the reset state, with the intro screen, score 0 and 3 lives, and the high score and unlocks kept.\<close>

theorem space_restarts:
  assumes "\<not> intro s" and "gameOver s \<or> victory s" and "150 \<le> now - lastInputTime s"
  shows "handleDesktopInput ''Space'' now s = resetGame (s\<lparr>lastInputTime := now\<rparr>)
       \<and> intro (handleDesktopInput ''Space'' now s) \<and> score (handleDesktopInput ''Space'' now s) = 0
       \<and> lives (handleDesktopInput ''Space'' now s) = 3
       \<and> highScore (handleDesktopInput ''Space'' now s) = highScore s
       \<and> unlocks (handleDesktopInput ''Space'' now s) = unlocks s"
  using assms by (auto simp: handleDesktopInput_def resetGame_fields)

theorem space_restarts_witness:
  "\<not> intro (demo_game\<lparr>intro := False, gameOver := True, score := 40\<rparr>)
   \<and> (gameOver (demo_game\<lparr>intro := False, gameOver := True, score := 40\<rparr>) \<or> victory (demo_game\<lparr>intro := False, gameOver := True, score := 40\<rparr>))
   \<and> 150 \<le> 1000 - lastInputTime (demo_game\<lparr>intro := False, gameOver := True, score := 40\<rparr>)
   \<and> intro (handleDesktopInput ''Space'' 1000 (demo_game\<lparr>intro := False, gameOver := True, score := 40\<rparr>))
   \<and> score (handleDesktopInput ''Space'' 1000 (demo_game\<lparr>intro := False, gameOver := True, score := 40\<rparr>)) = 0"
proof -
  let ?s = "demo_game\<lparr>intro := False, gameOver := True, score := 40\<rparr>"
  have h: "\<not> intro ?s" "gameOver ?s \<or> victory ?s" "150 \<le> 1000 - lastInputTime ?s" by simp_all
  show ?thesis using h space_restarts [OF h] by blast
qed

end
