(* ===== verification/Viewport.thy ===== *)
theory Viewport
  imports Collision
begin

text \<open>
  The canvas sizing of \<^verbatim>\<open>src/js/script.js\<close>, \<^verbatim>\<open>resizeCanvas\<close> (lines 12-31), run
  once at start-up and on every \<^verbatim>\<open>resize\<close> event (line 33). The canvas gets
  \<open>\<lfloor>innerWidth \<cdot> dpr\<rfloor>\<close> by \<open>\<lfloor>innerHeight \<cdot> dpr\<rfloor>\<close> device pixels, shown at
  \<open>innerWidth\<close> by \<open>innerHeight\<close> CSS pixels, and the context is scaled by \<open>dpr\<close>:
  one unit of the game's coordinates is one CSS pixel, so the visible part of the world
  is \<open>[0, innerWidth] \<times> [0, innerHeight]\<close>. The game logic, however, reads the
  canvas size (\<^verbatim>\<open>canvas.width\<close>, \<^verbatim>\<open>canvas.height\<close>) in device pixels. The drawing
  state (\<^verbatim>\<open>canvas.style\<close>, the context transform) is not modelled; the visible
  height is the \<open>innerHeight\<close> the handler is given.
\<close>

text \<open>\<^verbatim>\<open>window.devicePixelRatio || 1\<close>: a ratio of 0 (or a missing one) counts as 1.\<close>

definition resizeCanvas :: "real \<Rightarrow> real \<Rightarrow> real \<Rightarrow> game \<Rightarrow> game" where
  "resizeCanvas innerWidth innerHeight devicePixelRatio s =
     (let dpr = (if devicePixelRatio = 0 then 1 else devicePixelRatio);
          width = of_int \<lfloor>innerWidth * dpr\<rfloor>; height = of_int \<lfloor>innerHeight * dpr\<rfloor>
      in if 0 < width \<and> 0 < height then s\<lparr>canvas_w := width, canvas_h := height\<rparr> else s)"

section \<open>Lemmas\<close>

lemma resizeCanvas_cases:
  "resizeCanvas iw ih d s = s \<or>
   (\<exists>w h. resizeCanvas iw ih d s = s\<lparr>canvas_w := w, canvas_h := h\<rparr>)"
  by (auto simp: resizeCanvas_def Let_def)

lemma resizeCanvas_dpr2:
  "0 < w \<Longrightarrow> 0 < h \<Longrightarrow>
     resizeCanvas (of_nat w) (of_nat h) 2 s = s\<lparr>canvas_w := 2 * of_nat w, canvas_h := 2 * of_nat h\<rparr>"
proof -
  have f: "\<lfloor>(of_nat n :: real) * 2\<rfloor> = int (2 * n)" for n :: nat
    by (metis floor_of_nat mult.commute of_nat_mult of_nat_numeral)
  assume "0 < w" "0 < h"
  then show ?thesis by (simp add: resizeCanvas_def Let_def f)
qed

section \<open>Properties\<close>

text \<open>C36: on a display with a device pixel ratio of 2, a window \<open>w\<close> by \<open>h\<close> CSS pixels gives
  a game world of height \<open>2 h\<close> of which only \<open>[0, h]\<close> is visible: a player that has
  fallen entirely below the visible area does not touch the floor the collision test
  uses, and no crash happens. The spec bounds the player by the viewport height.\<close>

theorem resize_hidden_floor:
  assumes "0 < w" and "0 < h" and "of_nat h \<le> py (player s)"
    and "py (player s) + pheight (player s) \<le> 2 * of_nat h" and "obstacles s = []"
  shows "canvas_h (resizeCanvas (of_nat w) (of_nat h) 2 s) = 2 * of_nat h
       \<and> \<not> collision_detected (resizeCanvas (of_nat w) (of_nat h) 2 s)"
  using assms by (simp add: resizeCanvas_dpr2 collision_detected_def)

theorem resize_hidden_floor_witness:
  "0 < (400::nat) \<and> 0 < (800::nat)
   \<and> of_nat 800 \<le> py (player (demo_game\<lparr>player := (player demo_game)\<lparr>py := 900\<rparr>\<rparr>))
   \<and> py (player (demo_game\<lparr>player := (player demo_game)\<lparr>py := 900\<rparr>\<rparr>))
       + pheight (player (demo_game\<lparr>player := (player demo_game)\<lparr>py := 900\<rparr>\<rparr>)) \<le> 2 * of_nat 800
   \<and> obstacles (demo_game\<lparr>player := (player demo_game)\<lparr>py := 900\<rparr>\<rparr>) = []
   \<and> canvas_h (resizeCanvas (of_nat 400) (of_nat 800) 2 (demo_game\<lparr>player := (player demo_game)\<lparr>py := 900\<rparr>\<rparr>)) = 2 * of_nat 800
   \<and> \<not> collision_detected (resizeCanvas (of_nat 400) (of_nat 800) 2 (demo_game\<lparr>player := (player demo_game)\<lparr>py := 900\<rparr>\<rparr>))"
proof -
  let ?s = "demo_game\<lparr>player := (player demo_game)\<lparr>py := 900\<rparr>\<rparr>"
  have h: "0 < (400::nat)" "0 < (800::nat)" "of_nat 800 \<le> py (player ?s)"
    "py (player ?s) + pheight (player ?s) \<le> 2 * of_nat 800" "obstacles ?s = []"
    by (simp_all add: fresh_player_def flyingObjects_def)
  show ?thesis using h resize_hidden_floor [OF h] by blast
qed

end
