(* ===== verification/Session.thy ===== *)
theory Session
  imports Frame Input Viewport
begin

text \<open>
  The session as a whole: the page's event sources (the animation frames requested with
  \<^verbatim>\<open>requestAnimationFrame\<close> at lines 1057 and 1064, and the three listeners registered
  at lines 318-320, and the resize listener of line 33) as one \<open>step\<close> function over a
  datatype of events, the states
  reachable from the script's top level (\<open>init_game\<close>), and the session mode of
  spec section 4.6 as an abstract state machine (\<open>session_step\<close>). An animation frame
  only runs while a callback is pending (\<open>looping\<close>). The invariant \<open>session_inv\<close> is
  proved for every reachable state by rule induction; from it follow the bounds on the
  lives, the agreement of the store with the session, and the refinement of the abstract
  machine by the concrete steps. Further groups show that a stopped loop stays stopped,
  that no step lowers the high score or revokes an unlock (\<open>records_le\<close>), that a
  restart is a reload of the page, and that the space bar moves every mode on.
\<close>

text \<open>The four modes; a state that is both lost and won shows the victory screen, as
  \<^verbatim>\<open>victory ? ... : ...\<close> of the end screen does.\<close>

datatype mode = Intro | Playing | GameOver | Victory

definition mode_of :: "game \<Rightarrow> mode" where
  "mode_of s = (if intro s then Intro else if victory s then Victory
                else if gameOver s then GameOver else Playing)"

text \<open>The abstract machine of spec section 4.6, with stuttering.\<close>

inductive session_step :: "mode \<Rightarrow> mode \<Rightarrow> bool" where
  stay: "session_step m m"
| launch: "session_step Intro Playing"
| lose: "session_step Playing GameOver"
| win: "session_step Playing Victory"
| restart_lost: "session_step GameOver Intro"
| restart_won: "session_step Victory Intro"

text \<open>The events the browser delivers: an animation frame with its timestamp and the reading
  of \<^verbatim>\<open>Date.now()\<close> inside it, a touch, a key and a mouse click with their clock
  readings and positions, and a resize of the window (its inner size in CSS pixels and
  its device pixel ratio). A frame is delivered only while a callback is pending; the
  share text a handler opens leaves the state alone and is dropped here.\<close>

datatype event = Tick real ms | Touch ms real real | Key string ms | Mouse ms real real
  | Resize real real real

primrec step :: "event \<Rightarrow> game \<Rightarrow> game" where
  "step (Tick ts now) s = (if looping s then gameLoop ts now s else s)"
| "step (Touch now x y) s = fst (handleMobileInput now x y s)"
| "step (Key code now) s = handleDesktopInput code now s"
| "step (Mouse now x y) s = fst (handleDesktopInputMouse now x y s)"
| "step (Resize iw ih d) s = resizeCanvas iw ih d s"

definition run :: "event list \<Rightarrow> game \<Rightarrow> game" where
  "run es s = fold step es s"

inductive reachable :: "game \<Rightarrow> bool" where
  init: "init_game cw ch st r = Inr s \<Longrightarrow> in_unit r \<Longrightarrow> reachable s"
| step: "reachable s \<Longrightarrow> reachable (step e s)"

text \<open>The invariant of the reachable states: lives in range and game over exactly at zero
  lives, the intro screen clean, victory only at 10000 points, score and level in range,
  and the store in step with the session's unlocks and high score. \<open>inv_view\<close> is the
  part of the state it reads.\<close>

definition session_inv :: "game \<Rightarrow> bool" where
  "session_inv s \<longleftrightarrow> lives_ok s \<and> (intro s \<longrightarrow> \<not> gameOver s \<and> \<not> victory s)
     \<and> (victory s \<longrightarrow> 10000 \<le> score s) \<and> 0 \<le> score s \<and> 1 \<le> level s
     \<and> load_unlocks (storage s) = Inr (unlocks s) \<and> load_high_score (storage s) = highScore s"

definition inv_view :: "game \<Rightarrow> int \<times> bool \<times> bool \<times> bool \<times> int \<times> int \<times> js_store \<times> bool list \<times> int option" where
  "inv_view s = (lives s, gameOver s, intro s, victory s, score s, level s, storage s, unlocks s,
                 highScore s)"

text \<open>The well-formedness of the state: the generator's draws lie in \<open>[0, 1)\<close> and every
  obstacle is well formed.\<close>

definition wf_state :: "game \<Rightarrow> bool" where
  "wf_state s \<longleftrightarrow> in_unit (rng s) \<and> list_all wf_obstacle (obstacles s)"

text \<open>The background holds the 100 stars and 7 nebulae that \<^verbatim>\<open>resetBackground\<close>
  creates.\<close>

definition bg_ok :: "game \<Rightarrow> bool" where
  "bg_ok s \<longleftrightarrow> length (stars s) = 100 \<and> length (nebulas s) = 7"

text \<open>What the four text fields of the page show: the level and the lives, a text that
  reads back as the high score, and the score, or the page's own text while the score is
  still the initial 0.\<close>

definition hud_ok :: "game \<Rightarrow> bool" where
  "hud_ok s \<longleftrightarrow> hud_level (hud s) = js_string_of_int (level s) \<and> lives_shown s
     \<and> js_to_number (hud_highScore (hud s)) = highScore s
     \<and> (hud_score (hud s) = Some (js_string_of_int (score s)) \<or> hud_score (hud s) = None \<and> score s = 0)"

text \<open>The records of a session only grow: a high score that reads as \<^verbatim>\<open>NaN\<close> stays
  \<^verbatim>\<open>NaN\<close>, a numeric one never decreases, and an unlocked craft stays unlocked.\<close>

definition records_le :: "game \<Rightarrow> game \<Rightarrow> bool" where
  "records_le s t \<longleftrightarrow>
     (case highScore s of None \<Rightarrow> highScore t = None | Some h \<Rightarrow> (\<exists>h'. highScore t = Some h' \<and> h \<le> h'))
     \<and> (\<forall>i. js_at (unlocks s) i \<longrightarrow> js_at (unlocks t) i)"

section \<open>Lemmas\<close>

inductive_cases session_stepE: "session_step m m'"
inductive_simps session_step_simps: "session_step m m'"

lemma session_inv_view: "inv_view s' = inv_view s \<Longrightarrow> session_inv s' = session_inv s"
  by (simp add: inv_view_def session_inv_def lives_ok_def)

lemma session_inv_init: "init_game cw ch st r = Inr s \<Longrightarrow> session_inv s"
  by (auto simp: init_game_def session_inv_def lives_ok_def maxLives_def split: sum.splits prod.splits)

lemma session_inv_resetGame: "session_inv s \<Longrightarrow> session_inv (resetGame s)"
  by (simp add: session_inv_def resetGame_def lives_ok_def maxLives_def)

lemma session_inv_select: "session_inv s \<Longrightarrow> session_inv (select_object x y is s)"
  using select_object_cases [of x y "is" s]
  by (auto simp: session_inv_def lives_ok_def)

lemma session_inv_upd [simp]:
  "session_inv (s\<lparr>sounds := cs\<rparr>) = session_inv s"
  "session_inv (s\<lparr>lastInputTime := t\<rparr>) = session_inv s"
  "session_inv (s\<lparr>player := p\<rparr>) = session_inv s"
  "session_inv (s\<lparr>lastFrameTime := lf, looping := b\<rparr>) = session_inv s"
  "session_inv (s\<lparr>shakeTimer := k\<rparr>) = session_inv s"
  "session_inv (s\<lparr>objectAreas := as\<rparr>) = session_inv s"
  "session_inv (s\<lparr>particles := ps\<rparr>) = session_inv s"
  "session_inv (s\<lparr>looping := b\<rparr>) = session_inv s"
  "session_inv (s\<lparr>lastFrameTime := lf\<rparr>) = session_inv s"
  "session_inv (s\<lparr>stars := sts, nebulas := nbs, rng := r\<rparr>) = session_inv s"
  "session_inv (s\<lparr>currentObjectIndex := i, player := p, intro := False\<rparr>) = session_inv (s\<lparr>intro := False\<rparr>)"
  by (rule session_inv_view; simp add: inv_view_def)+

lemma session_inv_intro_off: "session_inv s \<Longrightarrow> session_inv (s\<lparr>intro := False\<rparr>)"
  by (simp add: session_inv_def lives_ok_def)

lemma session_inv_end_click: "session_inv s \<Longrightarrow> session_inv (fst (end_screen_click b x y s))"
  by (simp add: end_screen_click_def session_inv_resetGame)

lemma session_inv_handlers:
  assumes "session_inv s"
  shows "session_inv (fst (handleMobileInput now x y s))"
    "session_inv (handleDesktopInput code now s)"
    "session_inv (fst (handleDesktopInputMouse now x y s))"
  using assms by (simp_all add: handleMobileInput_def handleDesktopInput_def handleDesktopInputMouse_def
      Let_def session_inv_select session_inv_end_click session_inv_resetGame session_inv_intro_off
      flap_def)

lemma session_inv_play_frame:
  assumes inv: "session_inv s" and p: "\<not> intro s" "\<not> gameOver s" "\<not> victory s"
  shows "session_inv (play_frame now dt s)"
proof -
  define s5 where "s5 = boost_trail (move_entities (generateObstacles (checkInvincibility (physics (dt / 16.67) s))))"
  define s6 where "s6 = detectCollision now s5"
  define s7 where "s7 = updateScore s6"
  have v5: "inv_view s5 = inv_view s" by (simp add: s5_def inv_view_def frame_simps)
  then have i5: "session_inv s5" using inv session_inv_view by blast
  have l5: "1 \<le> lives s5" "lives s5 \<le> maxLives" "\<not> gameOver s5" "\<not> victory s5" "\<not> intro s5"
    using inv p v5 by (auto simp: inv_view_def session_inv_def lives_ok_def)
  have c6: "coll_frame s6 = coll_frame s5" by (simp add: s6_def detectCollision_frame)
  have l6: "lives_ok s6" using l5 by (simp add: s6_def detectCollision_lives_ok)
  have f6: "\<not> intro s6 \<and> \<not> victory s6 \<and> level s6 = level s5 \<and> storage s6 = storage s5
      \<and> unlocks s6 = unlocks s5 \<and> highScore s6 = highScore s5"
    using c6 l5 by (simp add: coll_frame_def)
  have sc6: "score s5 \<le> score s6" by (simp add: s6_def detectCollision_score)
  have pers: "load_unlocks (storage s7) = Inr (unlocks s7) \<and> load_high_score (storage s7) = highScore s7"
    unfolding s7_def using i5 f6 by (intro updateScore_persisted) (simp_all add: session_inv_def)
  have "score s6 \<le> score s7" by (simp add: s7_def updateScore_score_mono)
  then have sc7: "0 \<le> score s7" using i5 sc6 by (simp add: session_inv_def)
  have vic: "victory s7 \<longrightarrow> 10000 \<le> score s7" using f6 by (simp add: s7_def updateScore_victory)
  have lev: "1 \<le> level s7" using updateScore_level [of s6] f6 i5 by (simp add: s7_def session_inv_def)
  have l7: "lives_ok s7" using l6 by (simp add: s7_def lives_ok_def frame_simps)
  have i7: "\<not> intro s7" using f6 by (simp add: s7_def frame_simps)
  have "session_inv s7" using pers sc7 vic lev l7 i7 by (simp add: session_inv_def)
  moreover have "inv_view (play_frame now dt s) = inv_view s7"
    by (simp add: play_frame_def s7_def s6_def s5_def Let_def inv_view_def frame_simps)
  ultimately show ?thesis using session_inv_view by blast
qed

lemma session_inv_gameLoop: "session_inv s \<Longrightarrow> session_inv (gameLoop ts now s)"
  by (simp add: gameLoop_def Let_def session_inv_play_frame)

text \<open>A resize only changes the canvas size, which neither the invariant nor the mode
  nor the loop reads.\<close>

lemma resize_view:
  "inv_view (resizeCanvas iw ih d s) = inv_view s \<and> mode_of (resizeCanvas iw ih d s) = mode_of s
   \<and> looping (resizeCanvas iw ih d s) = looping s \<and> frame (resizeCanvas iw ih d s) = frame s"
  using resizeCanvas_cases [of iw ih d s] by (auto simp: inv_view_def mode_of_def)

lemma session_inv_resize: "session_inv (resizeCanvas iw ih d s) = session_inv s"
  using resize_view [of iw ih d s] by (intro session_inv_view) simp

lemma session_inv_step: "session_inv s \<Longrightarrow> session_inv (step e s)"
  by (cases e) (simp_all add: session_inv_gameLoop session_inv_handlers session_inv_resize)

lemma session_inv_reachable: "reachable s \<Longrightarrow> session_inv s"
  by (induction rule: reachable.induct) (simp_all add: session_inv_init session_inv_step)

lemma reachable_demo_game: "reachable demo_game"
  by (rule reachable.init [OF demo_game_init]) (simp add: in_unit_def demo_rand_def)

lemma mode_of_upd [simp]:
  "mode_of (s\<lparr>sounds := cs\<rparr>) = mode_of s"
  "mode_of (s\<lparr>lastInputTime := t\<rparr>) = mode_of s" "mode_of (s\<lparr>player := p\<rparr>) = mode_of s"
  "mode_of (s\<lparr>lastFrameTime := lf\<rparr>) = mode_of s" "mode_of (s\<lparr>looping := b\<rparr>) = mode_of s"
  "mode_of (s\<lparr>shakeTimer := k\<rparr>) = mode_of s" "mode_of (s\<lparr>objectAreas := as\<rparr>) = mode_of s"
  "mode_of (s\<lparr>particles := ps\<rparr>) = mode_of s"
  "mode_of (s\<lparr>stars := sts, nebulas := nbs, rng := r\<rparr>) = mode_of s"
  by (simp_all add: mode_of_def)

lemma mode_of_resetGame [simp]: "mode_of (resetGame s) = Intro"
  by (simp add: mode_of_def resetGame_def)

lemma mode_of_not_intro: "\<not> intro s \<Longrightarrow> mode_of s \<noteq> Intro"
  by (simp add: mode_of_def)

lemma mode_of_intro: "intro s \<Longrightarrow> mode_of s = Intro"
  by (simp add: mode_of_def)

lemma mode_of_start:
  "\<not> gameOver s \<Longrightarrow> \<not> victory s \<Longrightarrow> mode_of (s\<lparr>currentObjectIndex := i, player := p, intro := False\<rparr>) = Playing"
  by (simp add: mode_of_def)

lemma session_step_restart: "\<not> intro s \<Longrightarrow> gameOver s \<or> victory s \<Longrightarrow> session_step (mode_of s) Intro"
  by (auto simp: mode_of_def intro: session_step.intros)

lemma session_step_from_playing: "m \<noteq> Intro \<Longrightarrow> session_step Playing m"
  by (cases m) (auto intro: session_step.intros)

lemma play_frame_intro: "intro (play_frame now dt s) = intro s"
  by (simp add: play_frame_def Let_def frame_simps)

lemma session_step_gameLoop:
  "session_step (mode_of s) (mode_of (gameLoop ts now s))"
proof (cases "intro s \<or> gameOver s \<or> victory s")
  case True
  then have "mode_of (gameLoop ts now s) = mode_of s" by (auto simp: gameLoop_def Let_def)
  then show ?thesis by (simp add: session_step.stay)
next
  case False
  then have "mode_of s = Playing" by (simp add: mode_of_def)
  moreover have "\<not> intro (gameLoop ts now s)"
    using False by (simp add: gameLoop_def Let_def play_frame_intro)
  then have "mode_of (gameLoop ts now s) \<noteq> Intro" by (rule mode_of_not_intro)
  ultimately show ?thesis by (simp add: session_step_from_playing)
qed

lemma session_step_select:
  assumes "session_inv s" and "intro s"
  shows "session_step (mode_of s) (mode_of (select_object x y is s))"
  using select_object_cases [of x y "is" s] assms
  by (auto simp: mode_of_def session_inv_def intro: session_step.intros)

lemma session_step_end_click:
  "\<not> intro s \<Longrightarrow> gameOver s \<or> victory s \<Longrightarrow> session_step (mode_of s) (mode_of (fst (end_screen_click b x y s)))"
proof -
  assume "\<not> intro s" "gameOver s \<or> victory s"
  then have "mode_of s = GameOver \<or> mode_of s = Victory" by (auto simp: mode_of_def)
  moreover have "fst (end_screen_click b x y s) = resetGame s \<or> fst (end_screen_click b x y s) = s"
    by (simp add: end_screen_click_def)
  ultimately show ?thesis by (auto intro: session_step.intros)
qed

lemma session_step_step:
  assumes "session_inv s"
  shows "session_step (mode_of s) (mode_of (step e s))"
proof (cases e)
  case (Tick ts now)
  then show ?thesis by (simp add: session_step_gameLoop session_step.stay)
next
  case (Touch now x y)
  then show ?thesis using assms session_step_select [of "s\<lparr>lastInputTime := now\<rparr>"]
      session_step_end_click [of "s\<lparr>lastInputTime := now\<rparr>"]
    by (auto simp: handleMobileInput_def Let_def flap_def session_step.stay)
next
  case (Key code now)
  then show ?thesis using assms session_step_restart [of s]
    by (auto simp: handleDesktopInput_def Let_def flap_def mode_of_intro mode_of_start session_inv_def
        session_step.stay session_step.launch)
next
  case (Mouse now x y)
  then show ?thesis using assms session_step_select [of "s\<lparr>lastInputTime := now\<rparr>"]
      session_step_end_click [of "s\<lparr>lastInputTime := now\<rparr>"]
    by (auto simp: handleDesktopInputMouse_def Let_def session_step.stay)
next
  case (Resize iw ih d)
  then show ?thesis by (simp add: resize_view session_step.stay)
qed

lemma halted_handlers:
  assumes "\<not> looping s"
  shows "\<not> looping (fst (handleMobileInput now x y s)) \<and> frame (fst (handleMobileInput now x y s)) \<le> frame s"
    "\<not> looping (handleDesktopInput code now s) \<and> frame (handleDesktopInput code now s) \<le> frame s"
    "\<not> looping (fst (handleDesktopInputMouse now x y s)) \<and> frame (fst (handleDesktopInputMouse now x y s)) \<le> frame s"
proof -
  have sel: "looping (select_object x y js t) = looping t \<and> frame (select_object x y js t) = frame t" for js t
    using select_object_cases [of x y js t] by auto
  have clk: "looping (fst (end_screen_click b x y t)) = looping t \<and> frame (fst (end_screen_click b x y t)) \<le> frame t" for b t
    by (simp add: end_screen_click_def resetGame_def)
  show "\<not> looping (fst (handleMobileInput now x y s)) \<and> frame (fst (handleMobileInput now x y s)) \<le> frame s"
    using assms sel clk [of 20 "s\<lparr>lastInputTime := now\<rparr>"] by (simp add: handleMobileInput_def Let_def flap_def)
  show "\<not> looping (handleDesktopInput code now s) \<and> frame (handleDesktopInput code now s) \<le> frame s"
    using assms by (simp add: handleDesktopInput_def Let_def flap_def resetGame_def)
  show "\<not> looping (fst (handleDesktopInputMouse now x y s)) \<and> frame (fst (handleDesktopInputMouse now x y s)) \<le> frame s"
    using assms sel clk [of 0 "s\<lparr>lastInputTime := now\<rparr>"] by (simp add: handleDesktopInputMouse_def Let_def)
qed

lemma halted_step: "\<not> looping s \<Longrightarrow> \<not> looping (step e s) \<and> frame (step e s) \<le> frame s"
  by (cases e) (simp_all add: halted_handlers resize_view)

lemma halted_run: "\<not> looping s \<Longrightarrow> \<not> looping (run es s) \<and> frame (run es s) \<le> frame s"
proof (induction es arbitrary: s)
  case Nil
  then show ?case by (simp add: run_def)
next
  case (Cons e es)
  have h: "\<not> looping (step e s)" "frame (step e s) \<le> frame s" using halted_step [OF Cons.prems] by auto
  have "\<not> looping (run es (step e s))" "frame (run es (step e s)) \<le> frame (step e s)"
    using Cons.IH [OF h(1)] by auto
  then show ?case using h(2) by (simp add: run_def)
qed

lemma demo_halt:
  "step (Tick 1060 0) (step (Tick 1000 0) demo_game) =
     (drawBackground demo_game)\<lparr>objectAreas := object_areas 400 800, lastFrameTime := 1000,
       looping := False\<rparr>"
  by (simp add: gameLoop_def Let_def)

lemma wf_state_eq:
  "wf_state s \<Longrightarrow> rnd_src (rng t) = rnd_src (rng s) \<Longrightarrow> set (obstacles t) \<subseteq> set (obstacles s) \<Longrightarrow>
     wf_state t"
  using in_unit_src [of "rng t" "rng s"] by (auto simp: wf_state_def list_all_iff)

lemma wf_updateScore: "wf_state s \<Longrightarrow> wf_state (updateScore s)"
  using pass_obstacles_all [of wf_obstacle "obstacles s" "px (player s)" "power_is Double (powerUp s)"
      "score s" "pipeStreak s" "sounds s"] in_unit_src [of "rng (updateScore s)" "rng s"]
  by (simp add: wf_state_def updateScore_obstacles frame_simps)

lemma wf_detectCollision: "wf_state s \<Longrightarrow> wf_state (detectCollision now s)"
  using detectCollision_frame [of now s]
  by (rule_tac wf_state_eq [OF _ _ detectCollision_obstacles]) (simp_all add: coll_frame_def)

lemma wf_generateObstacles: "wf_state s \<Longrightarrow> wf_state (generateObstacles s)"
  by (simp add: generateObstacles_def Let_def split_def wf_state_def new_obstacle_wf)

lemma wf_play_frame: "wf_state s \<Longrightarrow> wf_state (play_frame now dt s)"
proof -
  assume w: "wf_state s"
  define s3 where "s3 = generateObstacles (checkInvincibility (physics (dt / 16.67) s))"
  have "wf_state (checkInvincibility (physics (dt / 16.67) s))"
    using w by (simp add: wf_state_def frame_simps)
  then have w3: "wf_state s3" by (simp add: s3_def wf_generateObstacles)
  then have "wf_state (move_entities s3)"
    by (simp add: wf_state_def move_entities_def list_all_iff obstacle_update_wf)
  then have "wf_state (boost_trail (move_entities s3))"
    by (rule wf_state_eq [of "move_entities s3"]) (simp_all add: frame_simps)
  then have "wf_state (updateScore (detectCollision now (boost_trail (move_entities s3))))"
    by (simp add: wf_detectCollision wf_updateScore)
  then show ?thesis
    by (simp add: play_frame_def Let_def s3_def cleanup_def wf_state_def list_all_iff)
qed

lemma wf_state_upd [simp]:
  "wf_state (s\<lparr>sounds := cs\<rparr>) = wf_state s"
  "wf_state (s\<lparr>lastInputTime := t\<rparr>) = wf_state s" "wf_state (s\<lparr>player := p\<rparr>) = wf_state s"
  "wf_state (s\<lparr>lastFrameTime := lf\<rparr>) = wf_state s" "wf_state (s\<lparr>looping := b\<rparr>) = wf_state s"
  "wf_state (s\<lparr>shakeTimer := k\<rparr>) = wf_state s" "wf_state (s\<lparr>objectAreas := as\<rparr>) = wf_state s"
  "wf_state (s\<lparr>particles := ps\<rparr>) = wf_state s"
  "wf_state (s\<lparr>currentObjectIndex := i, player := p, intro := False\<rparr>) = wf_state s"
  "in_unit r = in_unit (rng s) \<Longrightarrow> wf_state (s\<lparr>stars := sts, nebulas := nbs, rng := r\<rparr>) = wf_state s"
  by (simp_all add: wf_state_def)

lemma wf_resetGame: "wf_state s \<Longrightarrow> wf_state (resetGame s)"
  by (simp add: wf_state_def resetGame_def)

lemma wf_gameLoop: "wf_state s \<Longrightarrow> wf_state (gameLoop ts now s)"
  by (simp add: gameLoop_def Let_def wf_play_frame)

lemma wf_select: "wf_state (select_object x y js s) = wf_state s"
  using select_object_cases [of x y js s] by auto

lemma wf_handlers:
  assumes "wf_state s"
  shows "wf_state (fst (handleMobileInput now x y s))" "wf_state (handleDesktopInput code now s)"
    "wf_state (fst (handleDesktopInputMouse now x y s))"
  using assms by (simp_all add: handleMobileInput_def handleDesktopInput_def handleDesktopInputMouse_def
      Let_def end_screen_click_def wf_select wf_resetGame flap_def)

lemma wf_resize: "wf_state (resizeCanvas iw ih d s) = wf_state s"
  using resizeCanvas_cases [of iw ih d s] by (auto simp: wf_state_def)

lemma wf_step: "wf_state s \<Longrightarrow> wf_state (step e s)"
  by (cases e) (simp_all add: wf_gameLoop wf_handlers wf_resize)

lemma wf_reachable: "reachable s \<Longrightarrow> wf_state s"
proof (induction rule: reachable.induct)
  case (init cw ch st r s)
  then show ?case by (auto simp: init_game_def wf_state_def split_def Let_def split: sum.splits)
next
  case (step s e)
  then show ?case by (simp add: wf_step)
qed

lemma bg_ok_updateScore: "bg_ok s \<Longrightarrow> bg_ok (updateScore s)"
proof -
  assume b: "bg_ok s"
  obtain t where "updateScore s = regen_background t" "stars t = stars s" "nebulas t = nebulas s"
    by (rule updateScore_regen)
  then show ?thesis using b by (simp add: bg_ok_def)
qed

lemma bg_ok_play_frame: "bg_ok s \<Longrightarrow> bg_ok (play_frame now dt s)"
proof -
  assume b: "bg_ok s"
  define s5 where "s5 = boost_trail (move_entities (generateObstacles (checkInvincibility (physics (dt / 16.67) s))))"
  have "bg_ok (detectCollision now s5)"
    using b detectCollision_frame [of now s5] by (simp add: s5_def bg_ok_def coll_frame_def frame_simps)
  then have "bg_ok (updateScore (detectCollision now s5))" by (rule bg_ok_updateScore)
  then show ?thesis by (simp add: play_frame_def Let_def s5_def bg_ok_def frame_simps)
qed

lemma bg_ok_gameLoop: "bg_ok s \<Longrightarrow> bg_ok (gameLoop ts now s)"
  by (simp add: gameLoop_def Let_def bg_ok_def bg_ok_play_frame [unfolded bg_ok_def])

lemma bg_ok_resetGame [simp]: "bg_ok (resetGame s)"
  by (simp add: bg_ok_def resetGame_def)

lemma bg_ok_upd [simp]:
  "bg_ok (s\<lparr>sounds := cs\<rparr>) = bg_ok s"
  "bg_ok (s\<lparr>lastInputTime := t\<rparr>) = bg_ok s" "bg_ok (s\<lparr>player := p\<rparr>) = bg_ok s"
  "bg_ok (s\<lparr>currentObjectIndex := i, player := p, intro := False\<rparr>) = bg_ok s"
  by (simp_all add: bg_ok_def)

lemma bg_ok_select: "bg_ok (select_object x y js s) = bg_ok s"
  using select_object_cases [of x y js s] by (auto simp: bg_ok_def)

lemma bg_ok_handlers:
  assumes "bg_ok s"
  shows "bg_ok (fst (handleMobileInput now x y s))" "bg_ok (handleDesktopInput code now s)"
    "bg_ok (fst (handleDesktopInputMouse now x y s))"
  using assms by (simp_all add: handleMobileInput_def handleDesktopInput_def handleDesktopInputMouse_def
      Let_def end_screen_click_def bg_ok_select flap_def)

lemma bg_ok_step: "bg_ok s \<Longrightarrow> bg_ok (step e s)"
proof (cases e)
  case (Resize iw ih d)
  assume "bg_ok s"
  then show ?thesis using Resize resizeCanvas_cases [of iw ih d s] by (auto simp: bg_ok_def)
qed (simp_all add: bg_ok_gameLoop bg_ok_handlers)

lemma bg_ok_reachable: "reachable s \<Longrightarrow> bg_ok s"
proof (induction rule: reachable.induct)
  case (init cw ch st r s)
  then show ?case by (auto simp: init_game_def bg_ok_def split_def Let_def split: sum.splits)
next
  case (step s e)
  then show ?case by (simp add: bg_ok_step)
qed

lemma hud_ok_view:
  "hud t = hud s \<Longrightarrow> level t = level s \<Longrightarrow> lives t = lives s \<Longrightarrow> score t = score s \<Longrightarrow>
     highScore t = highScore s \<Longrightarrow> hud_ok t = hud_ok s"
  by (simp add: hud_ok_def lives_shown_def)

lemma hud_ok_play_frame: "hud_ok s \<Longrightarrow> hud_ok (play_frame now dt s)"
proof -
  assume h: "hud_ok s"
  define s5 where "s5 = boost_trail (move_entities (generateObstacles (checkInvincibility (physics (dt / 16.67) s))))"
  define s7 where "s7 = updateScore (detectCollision now s5)"
  have "hud_ok s5" using h by (subst hud_ok_view [of s5 s]) (simp_all add: s5_def frame_simps)
  then have l: "lives_shown (detectCollision now s5)"
      "hud_level (hud (detectCollision now s5)) = js_string_of_int (level (detectCollision now s5))"
      "js_to_number (hud_highScore (hud (detectCollision now s5))) = highScore (detectCollision now s5)"
    using detectCollision_frame [of now s5]
    by (simp_all add: hud_ok_def detectCollision_shown coll_frame_def)
  then have "hud_ok s7"
    by (simp add: s7_def hud_ok_def lives_shown_def updateScore_shows_score updateScore_shows_level
        updateScore_shows_high_score frame_simps)
  moreover have "hud_ok (play_frame now dt s) = hud_ok s7"
    by (rule hud_ok_view) (simp_all add: play_frame_def Let_def s7_def s5_def frame_simps)
  ultimately show ?thesis by simp
qed

lemma hud_ok_upd [simp]:
  "hud_ok (s\<lparr>sounds := cs\<rparr>) = hud_ok s"
  "hud_ok (s\<lparr>lastInputTime := t\<rparr>) = hud_ok s" "hud_ok (s\<lparr>player := p\<rparr>) = hud_ok s"
  "hud_ok (s\<lparr>lastFrameTime := lf, looping := b\<rparr>) = hud_ok s"
  "hud_ok (s\<lparr>lastFrameTime := lf\<rparr>) = hud_ok s" "hud_ok (s\<lparr>looping := b\<rparr>) = hud_ok s"
  "hud_ok (s\<lparr>shakeTimer := k\<rparr>) = hud_ok s" "hud_ok (s\<lparr>objectAreas := as\<rparr>) = hud_ok s"
  "hud_ok (s\<lparr>particles := ps\<rparr>) = hud_ok s"
  "hud_ok (s\<lparr>stars := sts, nebulas := nbs, rng := r\<rparr>) = hud_ok s"
  "hud_ok (s\<lparr>currentObjectIndex := i, player := p, intro := False\<rparr>) = hud_ok s"
  by (simp_all add: hud_ok_def lives_shown_def)

lemma hud_ok_gameLoop: "hud_ok s \<Longrightarrow> hud_ok (gameLoop ts now s)"
  by (simp add: gameLoop_def Let_def hud_ok_play_frame)

lemma hud_ok_resetGame: "hud_ok s \<Longrightarrow> hud_ok (resetGame s)"
  by (simp add: hud_ok_def lives_shown_def resetGame_def)

lemma hud_ok_select: "hud_ok (select_object x y js s) = hud_ok s"
  using select_object_cases [of x y js s] by auto

lemma hud_ok_handlers:
  assumes "hud_ok s"
  shows "hud_ok (fst (handleMobileInput now x y s))" "hud_ok (handleDesktopInput code now s)"
    "hud_ok (fst (handleDesktopInputMouse now x y s))"
  using assms by (simp_all add: handleMobileInput_def handleDesktopInput_def handleDesktopInputMouse_def
      Let_def end_screen_click_def hud_ok_select hud_ok_resetGame flap_def)

lemma hud_ok_step: "hud_ok s \<Longrightarrow> hud_ok (step e s)"
proof (cases e)
  case (Resize iw ih d)
  assume "hud_ok s"
  then show ?thesis using Resize resizeCanvas_cases [of iw ih d s] by (auto simp: hud_ok_def lives_shown_def)
qed (simp_all add: hud_ok_gameLoop hud_ok_handlers)

lemma high_score_text_reads: "js_to_number (high_score_text st) = load_high_score st"
  by (simp add: high_score_text_def load_high_score_def js_to_number_string_of_int split: option.split)

lemma hud_ok_reachable: "reachable s \<Longrightarrow> hud_ok s"
proof (induction rule: reachable.induct)
  case (init cw ch st r s)
  then show ?case
    by (auto simp: init_game_def hud_ok_def lives_shown_def high_score_text_reads split_def Let_def
        split: sum.splits)
next
  case (step s e)
  then show ?case by (simp add: hud_ok_step)
qed

text \<open>The records along the steps.\<close>

lemma records_le_same: "highScore t = highScore s \<Longrightarrow> unlocks t = unlocks s \<Longrightarrow> records_le s t"
  by (simp add: records_le_def split: option.splits)

lemma records_le_cong:
  "highScore s' = highScore s \<Longrightarrow> unlocks s' = unlocks s \<Longrightarrow> records_le s' t = records_le s t"
  by (simp add: records_le_def)

lemma records_le_right:
  "records_le s t \<Longrightarrow> highScore t' = highScore t \<Longrightarrow> unlocks t' = unlocks t \<Longrightarrow> records_le s t'"
  by (auto simp: records_le_def split: option.splits)

lemma records_le_updateScore: "records_le s (updateScore s)"
  by (auto simp: records_le_def updateScore_highScore updateScore_unlocks unlock_loop_at js_greater_def
      split: option.splits)

lemma records_le_play_frame: "records_le s (play_frame now dt s)"
proof -
  define s5 where "s5 = boost_trail (move_entities (generateObstacles (checkInvincibility (physics (dt / 16.67) s))))"
  define s6 where "s6 = detectCollision now s5"
  have "coll_frame s6 = coll_frame s5" by (simp add: s6_def detectCollision_frame)
  then have "highScore s6 = highScore s \<and> unlocks s6 = unlocks s"
    by (simp add: s5_def coll_frame_def frame_simps)
  then have r: "records_le s (updateScore s6)" using records_le_updateScore [of s6] records_le_cong by blast
  have "highScore (play_frame now dt s) = highScore (updateScore s6)
      \<and> unlocks (play_frame now dt s) = unlocks (updateScore s6)"
    by (simp add: play_frame_def Let_def s6_def s5_def frame_simps)
  then show ?thesis using records_le_right [OF r] by blast
qed

lemma records_le_gameLoop: "records_le s (gameLoop ts now s)"
proof -
  define lft where "lft = (if lastFrameTime s = 0 then ts else lastFrameTime s)"
  define s2 where "s2 = (if 0 < shakeTimer (s\<lparr>lastFrameTime := ts\<rparr>)
      then s\<lparr>lastFrameTime := ts\<rparr>\<lparr>shakeTimer := shakeTimer (s\<lparr>lastFrameTime := ts\<rparr>) - 1\<rparr>
      else s\<lparr>lastFrameTime := ts\<rparr>)"
  define s2' where "s2' = drawBackground s2"
  have k: "highScore s2' = highScore s" "unlocks s2' = unlocks s"
    by (simp_all add: s2'_def s2_def frame_simps)
  have pf: "records_le s (play_frame now dt s2')" for dt
    using records_le_play_frame [of s2' now dt] records_le_cong [OF k] by blast
  have b: "records_le s (s\<lparr>lastFrameTime := l, looping := False\<rparr>)"
    "records_le s (s2'\<lparr>objectAreas := A\<rparr>\<lparr>looping := True\<rparr>)"
    "records_le s (play_frame now dt s2'\<lparr>looping := True\<rparr>)"
    "records_le s (s2'\<lparr>particles := P\<rparr>\<lparr>looping := True\<rparr>)" for l A dt P
    using k by (simp_all add: records_le_same records_le_right [OF pf])
  show ?thesis
    unfolding gameLoop_def Let_def lft_def [symmetric] s2_def [symmetric] s2'_def [symmetric]
    by (simp add: b split: if_split)
qed

lemma records_handlers:
  "highScore (fst (handleMobileInput now x y s)) = highScore s \<and> unlocks (fst (handleMobileInput now x y s)) = unlocks s"
  "highScore (handleDesktopInput code now s) = highScore s \<and> unlocks (handleDesktopInput code now s) = unlocks s"
  "highScore (fst (handleDesktopInputMouse now x y s)) = highScore s
     \<and> unlocks (fst (handleDesktopInputMouse now x y s)) = unlocks s"
proof -
  have sel: "highScore (select_object x y js t) = highScore t \<and> unlocks (select_object x y js t) = unlocks t" for js t
    using select_object_cases [of x y js t] by auto
  have clk: "highScore (fst (end_screen_click b x y t)) = highScore t
      \<and> unlocks (fst (end_screen_click b x y t)) = unlocks t" for b t
    by (simp add: end_screen_click_def resetGame_fields)
  show "highScore (fst (handleMobileInput now x y s)) = highScore s \<and> unlocks (fst (handleMobileInput now x y s)) = unlocks s"
    using sel clk [of 20 "s\<lparr>lastInputTime := now\<rparr>"] by (simp add: handleMobileInput_def Let_def flap_def)
  show "highScore (handleDesktopInput code now s) = highScore s \<and> unlocks (handleDesktopInput code now s) = unlocks s"
    by (simp add: handleDesktopInput_def Let_def flap_def resetGame_fields)
  show "highScore (fst (handleDesktopInputMouse now x y s)) = highScore s
     \<and> unlocks (fst (handleDesktopInputMouse now x y s)) = unlocks s"
    using sel clk [of 0 "s\<lparr>lastInputTime := now\<rparr>"] by (simp add: handleDesktopInputMouse_def Let_def)
qed

lemma records_le_step: "records_le s (step e s)"
proof (cases e)
  case (Resize iw ih d)
  then show ?thesis using resize_view [of iw ih d s] by (intro records_le_same) (simp_all add: inv_view_def)
qed (simp_all add: records_le_gameLoop records_le_same records_handlers)


section \<open>Properties\<close>

text \<open>C1: refinement of the session state machine of spec section 4.6: in every reachable state, every event (an animation frame, a touch, a key press or a mouse click) moves the session mode along one of the abstract transitions Intro to Playing, Playing to GameOver or Victory, GameOver or Victory back to Intro, or leaves it unchanged.\<close>

theorem reachable_refines_session:
  assumes "reachable s"
  shows "session_step (mode_of s) (mode_of (step e s))"
  using assms by (intro session_step_step session_inv_reachable)

theorem reachable_refines_session_witness:
  "reachable demo_game \<and> session_step (mode_of demo_game) (mode_of (step (Key ''Space'' 1000) demo_game))"
  using reachable_demo_game reachable_refines_session [OF reachable_demo_game] by blast

text \<open>C2: in every reachable state the lives lie in [0, 5] and the game is over exactly when none is left (spec section 8).\<close>

theorem reachable_lives:
  assumes "reachable s"
  shows "0 \<le> lives s \<and> lives s \<le> 5 \<and> (gameOver s \<longleftrightarrow> lives s = 0)"
  using session_inv_reachable [OF assms] by (simp add: session_inv_def lives_ok_def maxLives_def)

theorem reachable_lives_witness:
  "reachable demo_game \<and> 0 \<le> lives demo_game \<and> lives demo_game \<le> 5 \<and> (gameOver demo_game \<longleftrightarrow> lives demo_game = 0)"
  using reachable_demo_game reachable_lives [OF reachable_demo_game] by blast

text \<open>C5: in every reachable state the store holds what the session holds: reloading the page would read back the same unlock array and the same high score.\<close>

theorem reachable_persisted:
  assumes "reachable s"
  shows "load_unlocks (storage s) = Inr (unlocks s) \<and> load_high_score (storage s) = highScore s"
  using session_inv_reachable [OF assms] by (simp add: session_inv_def)

theorem reachable_persisted_witness:
  "reachable demo_game \<and> load_unlocks (storage demo_game) = Inr (unlocks demo_game)
   \<and> load_high_score (storage demo_game) = highScore demo_game"
  using reachable_demo_game reachable_persisted [OF reachable_demo_game] by blast

text \<open>C27: once the loop has stopped, no sequence of events starts it again: the handlers never call \<^verbatim>\<open>requestAnimationFrame\<close>, so no playing frame ever runs and the frame counter never grows (a restart only sets it to 0).\<close>

theorem halted_forever:
  assumes "\<not> looping s"
  shows "\<not> looping (run es s) \<and> frame (run es s) \<le> frame s"
  using halted_run [OF assms] .

theorem halted_forever_witness:
  "\<not> looping (demo_game\<lparr>looping := False\<rparr>)
   \<and> \<not> looping (run [Tick 0 0, Key ''Space'' 1000, Tick 16 1016] (demo_game\<lparr>looping := False\<rparr>))
   \<and> frame (run [Tick 0 0, Key ''Space'' 1000, Tick 16 1016] (demo_game\<lparr>looping := False\<rparr>)) \<le> frame (demo_game\<lparr>looping := False\<rparr>)"
  using halted_forever [of "demo_game\<lparr>looping := False\<rparr>" "[Tick 0 0, Key ''Space'' 1000, Tick 16 1016]"] by simp

text \<open>C28: from the initial state, two animation frames 60 ms apart stop the game for good: the second is refused by the admission check of line 821, and after it no sequence of events ever runs a frame again. The spec skips such a frame and goes on.\<close>

theorem slow_frame_stops_game:
  "reachable (step (Tick 1060 0) (step (Tick 1000 0) demo_game))
   \<and> (\<forall>es. \<not> looping (run es (step (Tick 1060 0) (step (Tick 1000 0) demo_game)))
          \<and> frame (run es (step (Tick 1060 0) (step (Tick 1000 0) demo_game))) = 0)"
proof -
  have r: "reachable (step (Tick 1060 0) (step (Tick 1000 0) demo_game))"
    by (intro reachable.step reachable_demo_game)
  have "\<not> looping (step (Tick 1060 0) (step (Tick 1000 0) demo_game))
        \<and> frame (step (Tick 1060 0) (step (Tick 1000 0) demo_game)) = 0"
    by (simp add: demo_halt del: step.simps)
  then show ?thesis using r halted_run by fastforce
qed

text \<open>C6: the type invariant of the entities: in every reachable state every obstacle has
  width 80 and three rings, each ring's opacity lies in [0, 1], and its position lies
  within the obstacle whenever the obstacle's height is not negative.\<close>

theorem reachable_obstacles_wf:
  assumes "reachable s"
  shows "list_all wf_obstacle (obstacles s)"
  using wf_reachable [OF assms] by (simp add: wf_state_def)

theorem reachable_obstacles_wf_witness:
  "reachable demo_game \<and> list_all wf_obstacle (obstacles demo_game)"
  using reachable_demo_game reachable_obstacles_wf [OF reachable_demo_game] by blast

text \<open>C13: in every reachable state the background holds exactly 100 stars and 7 nebulae:
  the drift of \<^verbatim>\<open>drawBackground\<close> moves objects but never adds or drops one, and
  every regeneration (a new game, a score on a multiple of 200) makes a full set.\<close>

theorem reachable_background_counts:
  assumes "reachable s"
  shows "length (stars s) = 100 \<and> length (nebulas s) = 7"
  using bg_ok_reachable [OF assms] by (simp add: bg_ok_def)

theorem reachable_background_counts_witness:
  "reachable demo_game \<and> length (stars demo_game) = 100 \<and> length (nebulas demo_game) = 7"
  using reachable_demo_game reachable_background_counts [OF reachable_demo_game] by blast

text \<open>C16: in every reachable state the text fields of the page show the state: the
  level field the level, the lives field the lives, the high score field a text that reads
  back as the high score (the stored text itself when that is not a number), and the score
  field the score, or the page's own text before the first frame while the score is 0.\<close>

theorem reachable_hud_shows_state:
  assumes "reachable s"
  shows "hud_level (hud s) = js_string_of_int (level s) \<and> hud_lives (hud s) = js_string_of_int (lives s)
    \<and> js_to_number (hud_highScore (hud s)) = highScore s
    \<and> (hud_score (hud s) = Some (js_string_of_int (score s)) \<or> hud_score (hud s) = None \<and> score s = 0)"
  using hud_ok_reachable [OF assms] by (simp add: hud_ok_def lives_shown_def)

theorem reachable_hud_shows_state_witness:
  "reachable demo_game \<and> hud_level (hud demo_game) = js_string_of_int (level demo_game)
   \<and> hud_lives (hud demo_game) = js_string_of_int (lives demo_game)
   \<and> js_to_number (hud_highScore (hud demo_game)) = highScore demo_game
   \<and> (hud_score (hud demo_game) = Some (js_string_of_int (score demo_game))
      \<or> hud_score (hud demo_game) = None \<and> score demo_game = 0)"
  using reachable_demo_game reachable_hud_shows_state [OF reachable_demo_game] by blast

text \<open>C22: a restart on the end screen is a reload of the page that keeps the choices of
  the session: from a reachable state, \<^verbatim>\<open>resetGame\<close> gives exactly the state the script's
  top level sets up from the same canvas, store and generator (no obstacle, collectible or
  particle left, score, level, lives, streak, power-up, speed, gap, frame counter, shake
  and collision clock back at their initial values, a new background), except for the
  selected craft and its player, the input and frame clocks, the loop, the icon areas, the
  sounds played, and the text fields, of which the score, level and lives fields are
  rewritten.\<close>

theorem reset_is_reload:
  assumes "reachable s"
  shows "resetGame s =
    (projr (init_game (canvas_w s) (canvas_h s) (storage s) (rng s)))
      \<lparr>player := fresh_player (canvas_h s) (stats (flyingObjects ! currentObjectIndex s)),
       currentObjectIndex := currentObjectIndex s, lastInputTime := lastInputTime s,
       objectAreas := objectAreas s, lastFrameTime := lastFrameTime s, looping := looping s,
       sounds := sounds s,
       hud := (hud s)\<lparr>hud_score := Some (js_string_of_int 0), hud_level := js_string_of_int 1,
                      hud_lives := js_string_of_int 3\<rparr>\<rparr>"
proof -
  have inv: "load_unlocks (storage s) = Inr (unlocks s)" "load_high_score (storage s) = highScore s"
    using session_inv_reachable [OF assms] by (simp_all add: session_inv_def)
  obtain sts nbs r' where mb: "make_background (canvas_w s) (canvas_h s) (rng s) = (sts, nbs, r')"
    by (cases "make_background (canvas_w s) (canvas_h s) (rng s)") auto
  show ?thesis by (simp add: resetGame_def resetBackground_def init_game_def inv mb)
qed

theorem reset_is_reload_witness:
  "reachable demo_game \<and> resetGame demo_game =
    (projr (init_game (canvas_w demo_game) (canvas_h demo_game) (storage demo_game) (rng demo_game)))
      \<lparr>player := fresh_player (canvas_h demo_game) (stats (flyingObjects ! currentObjectIndex demo_game)),
       currentObjectIndex := currentObjectIndex demo_game, lastInputTime := lastInputTime demo_game,
       objectAreas := objectAreas demo_game, lastFrameTime := lastFrameTime demo_game,
       looping := looping demo_game, sounds := sounds demo_game,
       hud := (hud demo_game)\<lparr>hud_score := Some (js_string_of_int 0), hud_level := js_string_of_int 1,
                      hud_lives := js_string_of_int 3\<rparr>\<rparr>"
  using reachable_demo_game reset_is_reload [OF reachable_demo_game] by blast

text \<open>C25: no event lowers a record, in any state: after an animation frame, a touch, a key,
  a click or a resize, a high score that reads as \<^verbatim>\<open>NaN\<close> is still \<^verbatim>\<open>NaN\<close>, a
  numeric high score is at least what it was, and every unlocked craft is still unlocked
  (a restart keeps both, spec section 8).\<close>

theorem step_keeps_records:
  "(case highScore s of None \<Rightarrow> highScore (step e s) = None
      | Some h \<Rightarrow> (\<exists>h'. highScore (step e s) = Some h' \<and> h \<le> h'))
   \<and> (js_at (unlocks s) i \<longrightarrow> js_at (unlocks (step e s)) i)"
  using records_le_step [of s e] by (simp add: records_le_def)

theorem step_keeps_records_witness:
  "js_at (unlocks demo_game) 0 \<and> js_at (unlocks (step (Key ''Space'' 1000) demo_game)) 0"
proof -
  have h: "js_at (unlocks demo_game) 0" by (simp add: js_at_def)
  show ?thesis using h step_keeps_records [where s = demo_game and e = "Key ''Space'' 1000" and i = 0] by blast
qed

text \<open>C29: the space bar always moves the session on: in every reachable state, a press at
  least 150 ms after the last input starts the game from the intro screen, flaps while
  playing, and restarts from either end screen.\<close>

theorem space_advances:
  assumes "reachable s" and "150 \<le> now - lastInputTime s"
  shows "mode_of (step (Key ''Space'' now) s) =
    (case mode_of s of Intro \<Rightarrow> Playing | Playing \<Rightarrow> Playing | GameOver \<Rightarrow> Intro | Victory \<Rightarrow> Intro)"
  using session_inv_reachable [OF assms(1)] assms(2)
  by (auto simp: handleDesktopInput_def Let_def flap_def mode_of_def session_inv_def resetGame_fields)

theorem space_advances_witness:
  "reachable demo_game \<and> 150 \<le> 1000 - lastInputTime demo_game
   \<and> mode_of (step (Key ''Space'' 1000) demo_game) = Playing"
proof -
  have h: "150 \<le> 1000 - lastInputTime demo_game" by simp
  have "mode_of demo_game = Intro" by (simp add: mode_of_def)
  then show ?thesis using reachable_demo_game h space_advances [OF reachable_demo_game h] by simp
qed

end
