(* ===== verification/Spec2Isabelle.thy ===== *)
theory Spec2Isabelle
  imports Session
begin

text \<open>
  \<^bold>\<open>A verification model of the FSCommunityGame browser game.\<close>

  The program is one script, \<^verbatim>\<open>src/js/script.js\<close>: a side-scrolling game in which a
  craft flies through pairs of obstacles, collects coins, hearts and power-up capsules,
  and advances through levels until it loses its lives or reaches 10000 points. All its
  state lives in global variables; the browser drives it through animation frames
  (\<^verbatim>\<open>gameLoop\<close>, re-requested at the end of every frame it runs) and three input
  listeners. This development models that state and every operation that changes it as
  executable HOL functions, and proves what the operations do.

  \<^medskip>\<^bold>\<open>Theories and the code they model.\<close>
  \<^item> \<open>Prelude\<close>: the environment. \<^verbatim>\<open>Math.random()\<close> is an arbitrary stream of draws
    with a position (\<open>rand\<close>, \<open>random\<close>); every call whose result reaches the modelled
    state consumes one draw in the code's order, and the theorems hold for every stream.
    \<^verbatim>\<open>localStorage\<close> is a map from strings to strings, \<^verbatim>\<open>Date.now()\<close> an integer
    of milliseconds. JavaScript reads and writes of boolean arrays out of range are
    \<open>js_at\<close> and \<open>js_set_true\<close>. The collection \<open>frame_simps\<close> gathers the
    equations saying which fields each operation leaves alone.
  \<^item> \<open>Audio\<close>: the eight cue functions of lines 62-69 (\<open>cue\<close>, with their tones in
    \<open>cue_sound\<close>); the game state records the cues played (\<open>sounds\<close>), and every
    call site appends its cue where the code calls it (\<open>play\<close>).
  \<^item> \<open>Background\<close>: the stars and nebulae of \<^verbatim>\<open>resetBackground\<close> (462-480, and
    the initial ones of lines 137-148) as records made by \<open>make_background\<close>, and their
    motion in \<^verbatim>\<open>drawBackground\<close> (680-716) as \<open>star_step\<close> and \<open>nebulas_step\<close>,
    with the draws of a nebula that comes back at the right edge.
  \<^item> \<open>Entities\<close>: the classes \<^verbatim>\<open>Obstacle\<close> (lines 322-374) and \<^verbatim>\<open>Coin\<close>
    (376-417) as records with their \<^verbatim>\<open>update\<close> methods, the power-up roll of
    \<^verbatim>\<open>detectCollision\<close>, \<^verbatim>\<open>createParticles\<close>/\<^verbatim>\<open>updateParticles\<close>
    (156-178) and the boost exhaust of \<^verbatim>\<open>drawPlayer\<close>. Lemmas: ring bounds kept by
    \<open>obstacle_update\<close>, the particle cap of \<open>createParticles\<close>.
  \<^item> \<open>Catalog\<close>: \<^verbatim>\<open>flyingObjects\<close> (71-92) and the default unlocks.
  \<^item> \<open>Json\<close>: the browser's \<^verbatim>\<open>JSON.parse\<close> as line 94 uses it: a lexer
    (\<open>json_lex\<close>, with the automaton of the number grammar and the string escapes),
    a pushdown automaton for the grammar of values (\<open>json_accepts\<close>), so that
    \<open>json_valid\<close> is exactly the JSON texts, and the two readings line 94 needs: whether
    the value is falsy (\<open>json_falsy\<close>, with a number that rounds to the double zero)
    and whether it is an array of booleans (\<open>json_bool_array\<close>).
  \<^item> \<open>Persistence\<close>: the texts the script stores, number-to-text and text-to-number
    conversion, \<^verbatim>\<open>JSON.stringify\<close> of the unlock array, and the loads of lines 94
    and 115 and stores of lines 658 and 664; a text that makes \<^verbatim>\<open>JSON.parse\<close> throw
    is the error value \<open>Inl (JsonSyntax t)\<close>. Lemmas: both round trips.
  \<^item> \<open>GameState\<close>: the globals as the record \<open>game\<close> (the player object, entity lists,
    counters, mode flags, clocks, unlocks, store, canvas size, random stream, and whether
    an animation frame is pending), the top level of the script (\<open>init_game\<close>, failing
    when the stored unlock text is not JSON), the four text fields of the page (\<open>hud\<close>) and the
    statements that write them (\<open>show_score\<close>, \<open>show_level\<close>, \<open>show_lives\<close>,
    \<open>show_high_score\<close>, used where the code writes them),
    \<^verbatim>\<open>resetBackground\<close> and the state changes of
    \<^verbatim>\<open>drawBackground\<close> on the game, and \<^verbatim>\<open>resetGame\<close> (419-460).
  \<^item> \<open>Progression\<close>: \<^verbatim>\<open>getLevelThreshold\<close>, \<^verbatim>\<open>updateLevel\<close>,
    \<^verbatim>\<open>checkInvincibility\<close> and \<^verbatim>\<open>updateScore\<close> (504-678) with its obstacle
    loop (\<open>pass_obstacles\<close>), unlock loop (\<open>unlock_loop\<close>) and background check
    of line 674 (\<open>regen_background\<close>). Lemmas: the exact score gained, the high score as
    a maximum, the unlock flags, the level steps, when the background is regenerated, and
    that the store stays in step with the session.
  \<^item> \<open>Collision\<close>: \<^verbatim>\<open>detectCollision\<close> (546-637): the 200 ms debounce, the pickup
    loop that walks the collectibles backwards and splices (\<open>pickup_loop\<close>, a
    recursion on the index with its termination proof, shown equal to a reference
    definition by filters and a fold), the invincibility exit, the hazard test, the
    shield, life loss and game over (\<open>crash\<close>), and the blast. Lemmas: which fields it
    keeps, the lives bound, that the score never drops.
  \<^item> \<open>Spawner\<close>: \<^verbatim>\<open>generateObstacles\<close> (481-502). Lemmas: the geometry of a pair.
  \<^item> \<open>Frame\<close>: the playing frame of \<^verbatim>\<open>gameLoop\<close> (971-1006) as the composition, in
    the code's order, of \<open>physics\<close>, \<open>checkInvincibility\<close>, \<open>generateObstacles\<close>,
    \<open>move_entities\<close>, \<open>boost_trail\<close>, \<open>detectCollision\<close>, \<open>updateScore\<close>, the
    particle update and \<open>cleanup\<close>; and \<open>gameLoop\<close> itself (817-1061) with the admission
    check of lines 819-822 and the background motion of line 831. Lemmas: the frame never lowers the score, victory only at
    10000 points, the power-up timers.
  \<^item> \<open>Input\<close>: \<^verbatim>\<open>handleMobileInput\<close>, \<^verbatim>\<open>handleDesktopInput\<close> and
    \<^verbatim>\<open>handleDesktopInputMouse\<close> (193-316), sharing one 150 ms debounce; a share
    request is the handler's output, the URL it would open.
  \<^item> \<open>Share\<close>: the share text and link of lines 234-235 and 307-308
    (\<open>tweet_text\<close>, \<open>share_url\<close>), with the browser's \<^verbatim>\<open>encodeURIComponent\<close>
    as UTF-8 encoding followed by percent escapes, and its reading side
    \<open>uri_decode\<close>. Lemmas: the round trip of each stage and of the whole, and that
    the encoded text holds only characters a query parameter may carry.
  \<^item> \<open>Viewport\<close>: \<^verbatim>\<open>resizeCanvas\<close> (12-31), the canvas size in device pixels from
    the window size and the device pixel ratio.
  \<^item> \<open>Session\<close>: the browser's events (\<open>event\<close>, \<open>step\<close>, \<open>run\<close>): an animation
    frame runs \<open>gameLoop\<close> only while one is pending, a resize runs
    \<open>resizeCanvas\<close>; the reachable states (\<open>reachable\<close>, from \<open>init_game\<close> on a
    generator in \<open>[0, 1)\<close> by steps); the invariants \<open>session_inv\<close>, \<open>wf_state\<close>,
    \<open>bg_ok\<close> and \<open>hud_ok\<close> of reachable states, by rule induction; the abstract machine of the
    spec's session modes (\<open>session_step\<close>) and its refinement by \<open>step\<close>; the order
    \<open>records_le\<close> on high score and unlocks that every step respects; a restart
    compared with a reload of the page.

  \<^medskip>\<^bold>\<open>Numbers.\<close> Positions, speeds and timers are JavaScript numbers used as reals
  (\<open>real\<close>); score, lives, level and counters are integers that stay far below
  \<open>2^53\<close>, so \<open>int\<close> is exact for them; the frame counter and the craft index are
  \<open>nat\<close>. A stored high score that is not a number is \<open>None\<close> (\<^verbatim>\<open>NaN\<close>): every
  comparison with it is false. No loop of the script is unbounded: every loop runs over a
  list or a fixed range, so every definition is a total function and no fuel is needed.
  The loops over a list are structural recursions; the pickup loop, which counts an index
  down from the last collectible while splicing the array, is a \<open>function\<close> whose
  termination is proved by the measure \<open>i + 1\<close>. The animation loop is not a recursion of the model: each
  animation frame is one \<open>step\<close>, and whether another frame will come is the field
  \<open>looping\<close>.

  \<^medskip>\<^bold>\<open>What the properties show.\<close> The claims C1 to C40, each after a text naming it,
  are spread over the component theories. The central ones: the concrete steps refine the
  abstract session machine (C1); lives stay in [0, 5] with game over exactly at zero
  (C2); a frame never lowers the score (C3) and sets victory only at 10000 points (C4);
  the store always holds the session's unlocks and high score (C5); every obstacle stays
  well formed (C6), the background keeps its 100 stars and 7 nebulae (C13), and the text
  fields of the page show the score, high score, level and lives (C16); the pickup loop
  equals its reference (C9); a restart is a reload of the page that keeps only the
  session's choices (C22); the share link reads back as the share text (C24); no event
  lowers the high score or revokes an unlock (C25); the space bar always moves the session
  on (C29); the sound cues of scoring and collisions are played exactly when due (C17,
  C18). The rest give the functional behaviour of collisions, pickups, scoring, the
  background, levels, invincibility, spawning, the power-up timers and the input handlers,
  and the behaviours in which the code departs from its specification: the background is
  regenerated on every frame that ends on a multiple of 200 and never when a gain jumps
  over one (C14, C15), a frame more than 50 ms late stops the game for good (C27, C28),
  the script stops at load exactly when the stored unlock text is not JSON (C35), levels can stop advancing (C30), a stored high
  score that is not a number is never replaced (C31), a blast that has run out blocks
  invincibility (C32), on a display with pixel ratio 2 the floor lies below the visible
  window (C36), a boost leaves the gap at 350 (C37), and the exhaust ignores the particle
  cap (C38).

  \<^medskip>\<^bold>\<open>Not modelled.\<close> Drawing (the canvas calls of every \<^verbatim>\<open>draw\<close> method,
  the gradient, colours and pulse of the background, the intro and end screens, the
  leaderboard), the Web Audio calls inside \<^verbatim>\<open>playSound\<close> (the cue played is modelled),
  the CSS size and context scaling of
  \<^verbatim>\<open>resizeCanvas\<close>, logging, and \<^verbatim>\<open>window.open\<close> of the share link.
  The random draws that only reach the canvas (the camera shake, the hue of each star on
  every frame) are not taken from the stream. The \<^verbatim>\<open>try\<close>/\<^verbatim>\<open>catch\<close> blocks are
  not modelled because no modelled operation throws inside them; the one exception that
  escapes, \<^verbatim>\<open>JSON.parse\<close> at the top level, is the error value of
  \<open>init_game\<close>. \<^verbatim>\<open>JSON.parse\<close> decides validity for every text, but the
  unlock array of the model is a list of booleans: a valid truthy JSON value other than an
  array of booleans (a number, a string, an object, an array holding other values) is
  outside the model, the error value \<open>Unmodelled\<close>, and the reachable states start
  from the other texts. Texts are strings of characters below 256. The number conversion
  of the high score (\<open>js_to_number\<close>) reads decimal integers, the texts the script
  writes; any other text, including numeric texts such as \<^verbatim>\<open>12.5\<close>, \<^verbatim>\<open>1e3\<close>,
  \<^verbatim>\<open> 7\<close> or \<^verbatim>\<open>+7\<close> that JavaScript reads as numbers, is read as \<^verbatim>\<open>NaN\<close>.
  \<open>gameLoop\<close> translates the admission check, the shake countdown, the background
  motion, the intro hit areas and the playing and end-screen state changes of lines
  817-1061; the drawing of the intro and end screens in between (849-969, 1008-1048) is not
  translated.
\<close>

end
